theory Spec2Isabelle
  imports Main "HOL-Library.Word"
begin

unbundle bit_operations_syntax

section \<open>Common: bytes and Go error values\<close>

type_synonym bytes = "8 word list"

text \<open>
  A Go \<open>error\<close> is kept with its structure: \<open>New msg\<close> is \<open>errors.New(msg)\<close> (or
  \<open>fmt.Errorf\<close> of a message whose arguments are already spliced in), \<open>Wrap prefix e\<close>
  is \<open>fmt.Errorf("prefix: %w", e)\<close>, \<open>HTTPFailure code\<close> is
  \<open>fmt.Errorf("credential schema endpoint HTTP failure [%v]", code)\<close>,
  \<open>UnsupportedMode m\<close> is \<open>fmt.Errorf("unsupported vcModelValidationMode: %v", m)\<close>.
  \<open>Error\<close> is the method \<open>err.Error()\<close>, \<open>show_int\<close> the decimal form that
  \<open>%v\<close> prints for an integer.
  \<open>Panic\<close> is not an error value of Go: it stands for a run-time panic (an index out
  of range, a nil dereference), which ends the call without a result.
\<close>

datatype error =
    New string
  | Wrap string error
  | HTTPFailure int
  | UnsupportedMode int
  | Panic string

definition HasSuffix :: "string \<Rightarrow> string \<Rightarrow> bool" where
  "HasSuffix s sfx = (length sfx \<le> length s \<and> drop (length s - length sfx) s = sfx)"

function show_nat :: "nat \<Rightarrow> string" where
  "show_nat n =
     (if n < 10 then [char_of (48 + n)]
      else show_nat (n div 10) @ [char_of (48 + n mod 10)])"
  by pat_completeness auto

termination show_nat
  by (relation "measure (\<lambda>n. n)") auto

declare show_nat.simps [simp del]

definition show_int :: "int \<Rightarrow> string" where
  "show_int i = (if i < 0 then ''-'' @ show_nat (nat (- i)) else show_nat (nat i))"

fun Error :: "error \<Rightarrow> string" where
  "Error (New m) = m"
| "Error (Wrap p e) = p @ '': '' @ Error e"
| "Error (HTTPFailure c) = ''credential schema endpoint HTTP failure ['' @ show_int c @ '']''"
| "Error (UnsupportedMode m) = ''unsupported vcModelValidationMode: '' @ show_int m"
| "Error (Panic m) = m"

text \<open>Sequencing of calls that return an error or a value.\<close>

definition bind_err :: "error + 'a \<Rightarrow> ('a \<Rightarrow> error + 'b) \<Rightarrow> error + 'b" where
  "bind_err x f = (case x of Inl err \<Rightarrow> Inl err | Inr v \<Rightarrow> f v)"

section \<open>Composite public key export and import (package keyio)\<close>

subsection \<open>Protobuf and Tink data\<close>

text \<open>
  Modelled from the spec: the messages and enums of \<open>ecdh_aead_go_proto\<close> (generated
  code in another directory of the repository), with the fields that the source reads
  and writes: the public-key message with its key type \<open>EC\<close>, its curve, its AEAD
  template, its point format and its version. The enums of Tink's \<open>common_go_proto\<close>
  stand beside them, all with the names their \<open>String()\<close> methods print.
\<close>

datatype EllipticCurveType = UNKNOWN_CURVE | NIST_P256 | NIST_P384 | NIST_P521

fun EllipticCurveType_String :: "EllipticCurveType \<Rightarrow> string" where
  "EllipticCurveType_String UNKNOWN_CURVE = ''UNKNOWN_CURVE''"
| "EllipticCurveType_String NIST_P256 = ''NIST_P256''"
| "EllipticCurveType_String NIST_P384 = ''NIST_P384''"
| "EllipticCurveType_String NIST_P521 = ''NIST_P521''"

datatype KeyType = UNKNOWN_KEY_TYPE | EC

fun KeyType_String :: "KeyType \<Rightarrow> string" where
  "KeyType_String UNKNOWN_KEY_TYPE = ''UNKNOWN_KEY_TYPE''"
| "KeyType_String EC = ''EC''"

datatype EcPointFormat = UNKNOWN_FORMAT | UNCOMPRESSED | COMPRESSED

datatype KeyTemplate = AES256GCMKeyTemplate

record EcdhKwParams =
  CurveType :: EllipticCurveType
  KeyType :: KeyType

record EcdhAeadEncParams =
  AeadEnc :: KeyTemplate

text \<open>Message fields are pointers in Go: \<open>None\<close> is the nil pointer.\<close>

record EcdhAeadParams =
  KwParams :: "EcdhKwParams option"
  EncParams :: "EcdhAeadEncParams option"
  EcPointFormat :: EcPointFormat

record EcdhAeadPublicKey =
  Version :: nat
  Params :: "EcdhAeadParams option"
  pb_KID :: string
  pb_X :: bytes
  pb_Y :: bytes

text \<open>
  The protobuf wire format belongs to the protobuf library. The bytes of
  \<open>KeyData.Value\<close> are represented by what \<open>proto.Unmarshal\<close> reads from them:
  \<open>Encoded m\<close> are the bytes \<open>proto.Marshal\<close> writes for \<open>m\<close>, \<open>Malformed\<close> are
  bytes that are no message.
\<close>

datatype proto_bytes = Encoded EcdhAeadPublicKey | Malformed

definition proto_Marshal :: "EcdhAeadPublicKey \<Rightarrow> error + proto_bytes" where
  "proto_Marshal m = Inr (Encoded m)"

fun proto_Unmarshal :: "proto_bytes \<Rightarrow> error + EcdhAeadPublicKey" where
  "proto_Unmarshal (Encoded m) = Inr m"
| "proto_Unmarshal Malformed = Inl (New ''proto: cannot parse invalid wire-format data'')"

datatype KeyMaterialType =
  UNKNOWN_KEYMATERIAL | SYMMETRIC | ASYMMETRIC_PRIVATE | ASYMMETRIC_PUBLIC | REMOTE

datatype KeyStatusType = UNKNOWN_STATUS | ENABLED | DISABLED | DESTROYED

datatype OutputPrefixType = UNKNOWN_PREFIX | TINK | LEGACY | RAW | CRUNCHY

record KeyData =
  TypeUrl :: string
  Value :: proto_bytes
  KeyMaterialType :: KeyMaterialType

record Keyset_Key =
  KeyData :: KeyData
  Status :: KeyStatusType
  KeyId :: nat
  OutputPrefixType :: OutputPrefixType

record Keyset =
  PrimaryKeyId :: nat
  Key :: "Keyset_Key list"

text \<open>
  Modelled from the spec: the record \<open>cryptoapi.PublicKey\<close> (declared in package
  \<open>pkg/crypto\<close>): \<open>{ kid: string, type: string, curve: string, x: bytes, y: bytes }\<close>.
\<close>

record PublicKey =
  KID :: string
  X :: bytes
  Y :: bytes
  Curve :: string
  Type :: string

definition ecdhAESPublicKeyTypeURL :: string where
  "ecdhAESPublicKeyTypeURL =
     ''type.hyperledger.org/hyperledger.aries.crypto.tink.EcdhAesAeadPublicKey''"

subsection \<open>The writer\<close>

text \<open>
  \<open>json.Marshal\<close> and \<open>json.Unmarshal\<close> on a \<open>PublicKey\<close> belong to the standard
  library: the JSON text of a key is represented by the key it encodes. \<open>len_json\<close> is
  a lower bound of the text's length (the two braces of an object); \<open>writePubKey\<close>
  only tests whether the count it gets back is positive.
\<close>

datatype json_bytes = JSONText PublicKey

definition json_Marshal :: "PublicKey \<Rightarrow> error + json_bytes" where
  "json_Marshal pk = Inr (JSONText pk)"

fun json_Unmarshal :: "json_bytes \<Rightarrow> error + PublicKey" where
  "json_Unmarshal (JSONText pk) = Inr pk"

definition len_json :: "json_bytes \<Rightarrow> nat" where
  "len_json b = 2"

text \<open>
  An \<open>io.Writer\<close> over a state \<open>'w\<close>: \<open>Write p\<close> returns the count of bytes written
  and an error or none, and the writer's new state. \<open>Buffer_Write\<close> is
  \<open>bytes.Buffer\<close>, which appends and never fails.
\<close>

type_synonym 'w Writer = "json_bytes \<Rightarrow> 'w \<Rightarrow> (nat \<times> error option) \<times> 'w"

type_synonym Buffer = "json_bytes list"

definition Buffer_Write :: "Buffer Writer" where
  "Buffer_Write p buf = ((len_json p, None), buf @ [p])"

text \<open>\<open>hybrid.GetCurve\<close> of Tink: the three NIST names, anything else is an error.\<close>

definition GetCurve :: "string \<Rightarrow> error + EllipticCurveType" where
  "GetCurve c =
     (if c = ''NIST_P256'' then Inr NIST_P256
      else if c = ''NIST_P384'' then Inr NIST_P384
      else if c = ''NIST_P521'' then Inr NIST_P521
      else Inl (New ''unsupported curve''))"

definition buildCompositeKey ::
  "string \<Rightarrow> string \<Rightarrow> string \<Rightarrow> bytes \<Rightarrow> bytes \<Rightarrow> error + PublicKey" where
  "buildCompositeKey kid keyType curve x y =
     (case GetCurve curve of
        Inl err \<Rightarrow> Inl (Wrap ''undefined curve'' err)
      | Inr _ \<Rightarrow> Inr \<lparr>KID = kid, X = x, Y = y, Curve = curve, Type = keyType\<rparr>)"

text \<open>
  \<open>newECDHKey\<close> and the getters of \<open>ecdhKey\<close> read
  \<open>protoKey.Params.KwParams\<close> through the fields, not through the nil-safe getters
  of the generated code: a message without \<open>Params\<close> or \<open>KwParams\<close> panics.
  An \<open>ecdhKey\<close> is the message it holds.
\<close>

definition kwParams :: "EcdhAeadPublicKey \<Rightarrow> error + EcdhKwParams" where
  "kwParams e =
     (case Params e of
        None \<Rightarrow> Inl (Panic ''nil pointer dereference'')
      | Some ps \<Rightarrow>
          (case KwParams ps of
             None \<Rightarrow> Inl (Panic ''nil pointer dereference'')
           | Some kw \<Rightarrow> Inr kw))"

definition newECDHKey :: "proto_bytes \<Rightarrow> error + EcdhAeadPublicKey" where
  "newECDHKey mKey =
     (case proto_Unmarshal mKey of
        Inl err \<Rightarrow> Inl err
      | Inr pubKeyProto \<Rightarrow>
          (case kwParams pubKeyProto of
             Inl err \<Rightarrow> Inl err
           | Inr kw \<Rightarrow>
               if KeyType kw \<noteq> EC
               then Inl (New (''undefined key type: '' @ [CHR 0x27] @ KeyType_String (KeyType kw)
                              @ [CHR 0x27]))
               else Inr pubKeyProto))"

definition curveName :: "EcdhAeadPublicKey \<Rightarrow> error + string" where
  "curveName e = bind_err (kwParams e) (\<lambda>kw. Inr (EllipticCurveType_String (CurveType kw)))"

definition keyType :: "EcdhAeadPublicKey \<Rightarrow> error + string" where
  "keyType e = bind_err (kwParams e) (\<lambda>kw. Inr (KeyType_String (KeyType kw)))"

definition buildKey :: "EcdhAeadPublicKey \<Rightarrow> error + PublicKey" where
  "buildKey c =
     bind_err (curveName c) (\<lambda>curveName'.
       bind_err (keyType c) (\<lambda>keyTypeName.
         buildCompositeKey (pb_KID c) keyTypeName curveName' (pb_X c) (pb_Y c)))"

definition protoToCompositeKey :: "KeyData \<Rightarrow> error + PublicKey" where
  "protoToCompositeKey keyData =
     (if TypeUrl keyData = ecdhAESPublicKeyTypeURL
      then (case newECDHKey (Value keyData) of
              Inl err \<Rightarrow> Inl err
            | Inr cKey \<Rightarrow> buildKey cKey)
      else Inl (New (''can't export key with keyURL:'' @ TypeUrl keyData)))"

definition writePubKey :: "'w Writer \<Rightarrow> Keyset_Key \<Rightarrow> 'w \<Rightarrow> (error + bool) \<times> 'w" where
  "writePubKey w key s =
     (case protoToCompositeKey (KeyData key) of
        Inl err \<Rightarrow> (Inl err, s)
      | Inr pubKey \<Rightarrow>
          (case json_Marshal pubKey of
             Inl err \<Rightarrow> (Inl err, s)
           | Inr mPubKey \<Rightarrow>
               (case w mPubKey s of
                  ((n, Some err), s') \<Rightarrow> (Inl err, s')
                | ((n, None), s') \<Rightarrow> (Inr (n > 0), s'))))"

text \<open>
  The loop of \<open>write\<close> (here \<open>writeKeyset\<close>): the first key that is the primary one and enabled is written
  and ends the loop; \<open>created\<close> stays false when there is none.
\<close>

fun write_loop :: "'w Writer \<Rightarrow> nat \<Rightarrow> Keyset_Key list \<Rightarrow> 'w \<Rightarrow> (error + bool) \<times> 'w" where
  "write_loop w primaryKID [] s = (Inr False, s)"
| "write_loop w primaryKID (key # ks) s =
     (if KeyId key = primaryKID \<and> Status key = ENABLED
      then writePubKey w key s
      else write_loop w primaryKID ks s)"

definition writeKeyset :: "'w Writer \<Rightarrow> Keyset \<Rightarrow> 'w \<Rightarrow> (error + unit) \<times> 'w" where
  "writeKeyset w msg s =
     (case write_loop w (PrimaryKeyId msg) (Key msg) s of
        (Inl err, s') \<Rightarrow> (Inl err, s')
      | (Inr created, s') \<Rightarrow>
          if \<not> created then (Inl (New ''key not written''), s') else (Inr (), s'))"

text \<open>\<open>PubKeyWriter\<close> holds the writer; its two methods.\<close>

definition PubKeyWriter_Write :: "'w Writer \<Rightarrow> Keyset \<Rightarrow> 'w \<Rightarrow> (error + unit) \<times> 'w" where
  "PubKeyWriter_Write p ks s = writeKeyset p ks s"

text \<open>An encrypted keyset of Tink: the ciphertext and the keyset's public information.\<close>

record EncryptedKeyset =
  EncryptedKeyset_bytes :: bytes
  KeysetInfo :: "nat list"

definition PubKeyWriter_WriteEncrypted ::
  "'w Writer \<Rightarrow> EncryptedKeyset \<Rightarrow> 'w \<Rightarrow> (error + unit) \<times> 'w" where
  "PubKeyWriter_WriteEncrypted p eks s =
     (Inl (New ''write encrypted function not supported''), s)"

subsection \<open>Key handles\<close>

text \<open>
  A \<open>keyset.Handle\<close> of Tink wraps a keyset. \<open>Handle_Public\<close> follows Tink's
  \<open>Handle.Public\<close>: each key must hold private key material, from which the key
  manager derives the public key data (\<open>derive\<close>, Tink's registry); the first key of
  another material type ends the call with Tink's error.
\<close>

fun publicKeyData :: "(KeyData \<Rightarrow> error + KeyData) \<Rightarrow> KeyData \<Rightarrow> error + KeyData" where
  "publicKeyData derive privKeyData =
     (if KeyMaterialType privKeyData \<noteq> ASYMMETRIC_PRIVATE
      then Inl (New ''keyset.Handle: keyset contains a non-private key'')
      else derive privKeyData)"

fun public_keys ::
  "(KeyData \<Rightarrow> error + KeyData) \<Rightarrow> Keyset_Key list \<Rightarrow> error + Keyset_Key list" where
  "public_keys derive [] = Inr []"
| "public_keys derive (k # ks) =
     (case publicKeyData derive (KeyData k) of
        Inl err \<Rightarrow> Inl (New (''keyset.Handle: '' @ Error err))
      | Inr pubKeyData \<Rightarrow>
          (case public_keys derive ks of
             Inl err \<Rightarrow> Inl err
           | Inr pubKeys \<Rightarrow> Inr (k\<lparr>KeyData := pubKeyData\<rparr> # pubKeys)))"

definition Handle_Public :: "(KeyData \<Rightarrow> error + KeyData) \<Rightarrow> Keyset \<Rightarrow> error + Keyset" where
  "Handle_Public derive h =
     (case public_keys derive (Key h) of
        Inl err \<Rightarrow> Inl err
      | Inr pubKeys \<Rightarrow> Inr (h\<lparr>Key := pubKeys\<rparr>))"

definition hasSecrets :: "Keyset \<Rightarrow> bool" where
  "hasSecrets h =
     list_ex (\<lambda>k. KeyMaterialType (KeyData k) \<in> {UNKNOWN_KEYMATERIAL, SYMMETRIC, ASYMMETRIC_PRIVATE})
       (Key h)"

definition WriteWithNoSecrets :: "'w Writer \<Rightarrow> Keyset \<Rightarrow> 'w \<Rightarrow> (error + unit) \<times> 'w" where
  "WriteWithNoSecrets w h s =
     (if hasSecrets h
      then (Inl (New ''keyset.Handle: exporting unencrypted secret key material is forbidden''), s)
      else PubKeyWriter_Write w h s)"

text \<open>\<open>insecurecleartextkeyset.Read\<close> of a \<open>MemReaderWriter\<close>: a keyset with no key is refused.\<close>

definition insecurecleartextkeyset_Read :: "Keyset \<Rightarrow> error + Keyset" where
  "insecurecleartextkeyset_Read ks =
     (if Key ks = [] then Inl (New ''insecurecleartextkeyset: invalid keyset'') else Inr ks)"

definition writePubKeyFromKeyHandle ::
  "(KeyData \<Rightarrow> error + KeyData) \<Rightarrow> Keyset \<Rightarrow> error + Buffer" where
  "writePubKeyFromKeyHandle derive handle =
     (case (case Handle_Public derive handle of
              Inl err \<Rightarrow>
                if HasSuffix (Error err) ''keyset contains a non-private key''
                then Inr handle else Inl err
            | Inr pubKH \<Rightarrow> Inr pubKH) of
        Inl err \<Rightarrow> Inl err
      | Inr pubKH \<Rightarrow>
          (case WriteWithNoSecrets Buffer_Write pubKH [] of
             (Inl err, buf) \<Rightarrow> Inl err
           | (Inr _, buf) \<Rightarrow> Inr buf))"

text \<open>
  \<open>json.Unmarshal(keyBytes, ecPubKey)\<close> reads the one JSON text the buffer holds; a
  buffer that is not one JSON text is a syntax error of the decoder.
\<close>

definition ExtractPrimaryPublicKey ::
  "(KeyData \<Rightarrow> error + KeyData) \<Rightarrow> Keyset \<Rightarrow> error + PublicKey" where
  "ExtractPrimaryPublicKey derive kh =
     (case writePubKeyFromKeyHandle derive kh of
        Inl err \<Rightarrow> Inl (Wrap ''extractPrimaryPublicKey: failed to get public key content'' err)
      | Inr keyBytes \<Rightarrow>
          (case keyBytes of
             [b] \<Rightarrow>
               (case json_Unmarshal b of
                  Inl err \<Rightarrow> Inl (Wrap ''extractPrimaryPublicKey: unmarshal key failed'' err)
                | Inr ecPubKey \<Rightarrow> Inr ecPubKey)
           | _ \<Rightarrow> Inl (Wrap ''extractPrimaryPublicKey: unmarshal key failed''
                        (New ''unexpected end of JSON input''))))"

definition getCurveProto :: "string \<Rightarrow> error + EllipticCurveType" where
  "getCurveProto c =
     (if c \<in> {''secp256r1'', ''NIST_P256'', ''P-256'', ''EllipticCurveType_NIST_P256''}
      then Inr NIST_P256
      else if c \<in> {''secp384r1'', ''NIST_P384'', ''P-384'', ''EllipticCurveType_NIST_P384''}
      then Inr NIST_P384
      else if c \<in> {''secp521r1'', ''NIST_P521'', ''P-521'', ''EllipticCurveType_NIST_P521''}
      then Inr NIST_P521
      else Inl (New ''unsupported curve''))"

definition newKeySet :: "string \<Rightarrow> proto_bytes \<Rightarrow> KeyMaterialType \<Rightarrow> Keyset" where
  "newKeySet tURL marshalledKey keyMaterialType =
     (let keyData = \<lparr>TypeUrl = tURL, Value = marshalledKey, KeyMaterialType = keyMaterialType\<rparr>
      in \<lparr>PrimaryKeyId = 1,
          Key = [\<lparr>KeyData = keyData, Status = ENABLED, KeyId = 1, OutputPrefixType = RAW\<rparr>]\<rparr>)"

definition PublicKeyToKeysetHandle :: "PublicKey \<Rightarrow> error + Keyset" where
  "PublicKeyToKeysetHandle pubKey =
     (case getCurveProto (Curve pubKey) of
        Inl err \<Rightarrow> Inl (Wrap ''publicKeyToKeysetHandle: failed to convert curve string to proto'' err)
      | Inr cp \<Rightarrow>
          (let protoKey =
                 \<lparr>Version = 0,
                  Params = Some \<lparr>KwParams = Some \<lparr>CurveType = cp, KeyType = EC\<rparr>,
                                 EncParams = Some \<lparr>AeadEnc = AES256GCMKeyTemplate\<rparr>,
                                 EcPointFormat = UNCOMPRESSED\<rparr>,
                  pb_KID = KID pubKey, pb_X = X pubKey, pb_Y = Y pubKey\<rparr>
           in case proto_Marshal protoKey of
                Inl err \<Rightarrow> Inl (Wrap ''publicKeyToKeysetHandle: failed to marshal proto'' err)
              | Inr marshalledKey \<Rightarrow>
                  (case insecurecleartextkeyset_Read
                          (newKeySet ecdhAESPublicKeyTypeURL marshalledKey ASYMMETRIC_PUBLIC) of
                     Inl err \<Rightarrow> Inl (Wrap ''publicKeyToKeysetHandle: failed to create key handle'' err)
                   | Inr parsedHandle \<Rightarrow> Inr parsedHandle)))"

text \<open>
  The round trip of the claims: the handle built from a key record, and the primary
  public key extracted from it.
\<close>

definition extract_of_handle ::
  "(KeyData \<Rightarrow> error + KeyData) \<Rightarrow> PublicKey \<Rightarrow> error + PublicKey" where
  "extract_of_handle derive pk =
     (case PublicKeyToKeysetHandle pk of
        Inl err \<Rightarrow> Inl err
      | Inr kh \<Rightarrow> ExtractPrimaryPublicKey derive kh)"

text \<open>A registry of key managers that holds none: every derivation fails.\<close>

definition no_key_manager :: "KeyData \<Rightarrow> error + KeyData" where
  "no_key_manager kd = Inl (New ''registry.GetKeyManager: unsupported key type'')"

section \<open>Verifiable credentials (package verifiable)\<close>

subsection \<open>JSON values, time\<close>

text \<open>
  A JSON value as \<open>encoding/json\<close> decodes it into an \<open>interface{}\<close>: \<open>JNull\<close> is
  the nil interface, \<open>JStr\<close> a Go \<open>string\<close>, \<open>JArr\<close> a \<open>[]interface{}\<close>,
  \<open>JObj\<close> a \<open>map[string]interface{}\<close> (an association list, read with
  \<open>map_of\<close>; a document is taken with distinct keys). A typed Go value that is only
  ever marshalled (a \<open>[]string\<close>, a \<open>*compositeIssuer\<close>, a \<open>[]TypedID\<close>) is
  represented by the JSON value it marshals to; a nil slice is not told from an empty
  one. Numbers are integers here.
\<close>

datatype json =
    JNull
  | JBool bool
  | JNum int
  | JStr string
  | JArr "json list"
  | JObj "(string \<times> json) list"

text \<open>
  An instant of \<open>time.Time\<close>, in nanoseconds since the Unix epoch; a \<open>time.Duration\<close>
  is a count of nanoseconds. \<open>Unix\<close> is the method \<open>Time.Unix()\<close> (whole seconds,
  an \<open>int64\<close>), \<open>Add\<close> the method \<open>Time.Add\<close>.
\<close>

type_synonym time = int
type_synonym Duration = int

definition Unix :: "time \<Rightarrow> 64 word" where
  "Unix t = word_of_int (t div 1000000000)"

definition Add :: "time \<Rightarrow> Duration \<Rightarrow> time" where
  "Add t d = t + d"

subsection \<open>Constants\<close>

definition jsonSchema2018Type :: string where
  "jsonSchema2018Type = ''JsonSchemaValidator2018''"

definition baseContext :: string where
  "baseContext = ''https://www.w3.org/2018/credentials/v1''"

definition vcType :: string where
  "vcType = ''VerifiableCredential''"

definition vpType :: string where
  "vpType = ''VerifiablePresentation''"

text \<open>\<open>vcModelValidationMode\<close> is an \<open>int\<close> with three named values (\<open>iota\<close>).\<close>

type_synonym vcModelValidationMode = int

definition baseContextValidation :: vcModelValidationMode where
  "baseContextValidation = 0"

definition baseContextExtendedValidation :: vcModelValidationMode where
  "baseContextExtendedValidation = 1"

definition jsonldValidation :: vcModelValidationMode where
  "jsonldValidation = 2"

subsection \<open>The schema cache\<close>

text \<open>
  \<open>fastcache.Cache\<close> (the library behind the cache) is taken by its documented
  contract, as a map from keys to values. \<open>Set\<close> stores an entry only when it fits
  one chunk of 64 KB: an entry whose key or value is 64 KB long or longer, or whose
  header of four bytes, key and value together reach the size of a chunk, is left out
  and the cache stays as it was. \<open>HasGet\<close> reads an entry and \<open>Del\<close> removes it.
  The eviction of old entries when the cache is full is not modelled; it does not
  touch an entry that is read right after it is stored.
\<close>

type_synonym fastcache = "string \<rightharpoonup> bytes"

definition chunkSize :: nat where
  "chunkSize = 64 * 1024"

definition fastcache_Set :: "string \<Rightarrow> bytes \<Rightarrow> fastcache \<Rightarrow> fastcache" where
  "fastcache_Set k v c =
     (if length k \<ge> 2 ^ 16 \<or> length v \<ge> 2 ^ 16 then c
      else if 4 + length k + length v \<ge> chunkSize then c
      else c(k \<mapsto> v))"

definition fastcache_HasGet :: "string \<Rightarrow> fastcache \<Rightarrow> bytes option" where
  "fastcache_HasGet k c = c k"

definition fastcache_Del :: "string \<Rightarrow> fastcache \<Rightarrow> fastcache" where
  "fastcache_Del k c = c(k := None)"

record ExpirableSchemaCache =
  sc_cache :: fastcache
  sc_expiration :: Duration

text \<open>\<open>binary.LittleEndian\<close>: the eight bytes of a \<open>uint64\<close>, lowest first.\<close>

definition PutUint64 :: "64 word \<Rightarrow> bytes" where
  "PutUint64 v =
     [ucast v, ucast (drop_bit 8 v), ucast (drop_bit 16 v), ucast (drop_bit 24 v),
      ucast (drop_bit 32 v), ucast (drop_bit 40 v), ucast (drop_bit 48 v),
      ucast (drop_bit 56 v)]"

definition Uint64 :: "bytes \<Rightarrow> 64 word" where
  "Uint64 b =
     ucast (b ! 0) OR push_bit 8 (ucast (b ! 1)) OR push_bit 16 (ucast (b ! 2))
       OR push_bit 24 (ucast (b ! 3)) OR push_bit 32 (ucast (b ! 4))
       OR push_bit 40 (ucast (b ! 5)) OR push_bit 48 (ucast (b ! 6))
       OR push_bit 56 (ucast (b ! 7))"

text \<open>
  \<open>Put\<close> at the instant \<open>now\<close> that \<open>time.Now()\<close> reads. The conversion
  \<open>uint64(expires)\<close> keeps the bits of the \<open>int64\<close>.
\<close>

definition ExpirableSchemaCache_Put ::
  "time \<Rightarrow> string \<Rightarrow> bytes \<Rightarrow> ExpirableSchemaCache \<Rightarrow> ExpirableSchemaCache" where
  "ExpirableSchemaCache_Put now k v sc =
     (let expires = Unix (Add now (sc_expiration sc));
          b = PutUint64 expires;
          ve = b @ v
      in sc\<lparr>sc_cache := fastcache_Set k ve (sc_cache sc)\<rparr>)"

text \<open>
  \<open>Get\<close> at the instant \<open>now\<close>. The slice \<open>b[:8]\<close> of an entry shorter than eight
  bytes panics (\<open>Put\<close> stores no such entry). The comparison
  \<open>expires < time.Now().Unix()\<close> is one of \<open>int64\<close>.
\<close>

definition ExpirableSchemaCache_Get ::
  "time \<Rightarrow> string \<Rightarrow> ExpirableSchemaCache \<Rightarrow> (error + bytes \<times> bool) \<times> ExpirableSchemaCache" where
  "ExpirableSchemaCache_Get now k sc =
     (case fastcache_HasGet k (sc_cache sc) of
        None \<Rightarrow> (Inr ([], False), sc)
      | Some b \<Rightarrow>
          if length b < 8 then (Inl (Panic ''slice bounds out of range''), sc)
          else
            let expires = Uint64 (take 8 b)
            in if expires <s Unix now
               then (Inr ([], False), sc\<lparr>sc_cache := fastcache_Del k (sc_cache sc)\<rparr>)
               else (Inr (drop 8 b, True), sc))"

subsection \<open>The credential\<close>

text \<open>
  Modelled from the spec: the type \<open>TypedID\<close> (declared in another file of the
  package): \<open>{ id: URI, type: string | sequence<string> }\<close>, the type kept as the
  JSON value it has.
\<close>

record TypedID =
  TypedID_ID :: string
  TypedID_Type :: json

record Issuer =
  Issuer_ID :: string
  Issuer_Name :: string

text \<open>
  Modelled from the spec: the types \<open>Proof\<close> and \<open>CustomFields\<close> (declared in
  other files of the package). \<open>proof\<close>: an optional opaque object preserved
  verbatim, here the members of a JSON object; \<open>custom_fields\<close>: a mapping from
  string to arbitrary JSON value.
\<close>

type_synonym Proof = "(string \<times> json) list"
type_synonym CustomFields = "(string \<times> json) list"

text \<open>
  A \<open>Subject\<close> is an \<open>interface{}\<close> on whose dynamic type \<open>subjectID\<close> switches:
  \<open>Value j\<close> is a value as the JSON decoder makes it (a JSON object is a
  \<open>map[string]interface{}\<close>, a JSON array a \<open>[]interface{}\<close>), \<open>Maps ms\<close> a
  \<open>[]map[string]interface{}\<close>, which only a caller builds. Subjects of other Go
  types (structs) are not modelled.
\<close>

datatype Subject = Value json | Maps "(string \<times> json) list list"

record Credential =
  vc_Context :: "string list"
  vc_CustomContext :: "json list"
  vc_ID :: string
  vc_Types :: "string list"
  vc_Subject :: Subject
  vc_Issuer :: Issuer
  vc_Issued :: "time option"
  vc_Expired :: "time option"
  vc_Proof :: "Proof option"
  vc_Status :: "TypedID option"
  vc_Schemas :: "TypedID list"
  vc_Evidence :: "json option"
  vc_TermsOfUse :: "TypedID list"
  vc_RefreshService :: "TypedID option"
  vc_CustomFields :: CustomFields

record rawCredential =
  raw_Context :: json
  raw_ID :: string
  raw_Type :: json
  raw_Subject :: Subject
  raw_Issued :: "time option"
  raw_Expired :: "time option"
  raw_Proof :: "Proof option"
  raw_Status :: "TypedID option"
  raw_Issuer :: json
  raw_Schema :: json
  raw_Evidence :: "json option"
  raw_TermsOfUse :: "TypedID list"
  raw_RefreshService :: "TypedID option"
  raw_CustomFields :: CustomFields

record compositeIssuer =
  ci_ID :: string
  ci_Name :: string

subsection \<open>Decoding the polymorphic fields\<close>

definition getStringEntry :: "(string \<times> json) list \<Rightarrow> string \<Rightarrow> error + string" where
  "getStringEntry m k =
     (case map_of m k of
        None \<Rightarrow> Inr ''''
      | Some v \<Rightarrow>
          (case v of
             JStr s \<Rightarrow> Inr s
           | _ \<Rightarrow> Inl (New (''value of key '' @ [CHR 0x27] @ k @ [CHR 0x27] @ '' is not a string''))))"

definition decodeIssuer :: "json \<Rightarrow> error + Issuer" where
  "decodeIssuer issuer =
     (case issuer of
        JStr iss \<Rightarrow> Inr \<lparr>Issuer_ID = iss, Issuer_Name = ''''\<rparr>
      | JObj iss \<Rightarrow>
          (case getStringEntry iss ''id'' of
             Inl err \<Rightarrow> Inl err
           | Inr id' \<Rightarrow>
               if id' = '''' then Inl (New ''issuer ID is not defined'')
               else
                 (case getStringEntry iss ''name'' of
                    Inl err \<Rightarrow> Inl err
                  | Inr name \<Rightarrow> Inr \<lparr>Issuer_ID = id', Issuer_Name = name\<rparr>))
      | _ \<Rightarrow> Inl (New ''unsupported format of issuer''))"

text \<open>
  Modelled from the spec: \<open>decodeType\<close> and \<open>decodeContext\<close> (in another file of the
  package). \<open>type\<close>: a string or a non-empty array of strings, decoded to the sequence
  of strings in order; any element that is no string is an error. \<open>@context\<close>: a
  string or a non-empty array of strings and objects; the strings go to \<open>context\<close> in
  order, the first must equal the base context; the elements that are no strings go to
  \<open>custom_context\<close>; an empty array, a missing base and an element of another type
  are errors.
\<close>

fun stringSlice :: "json list \<Rightarrow> string list option" where
  "stringSlice [] = Some []"
| "stringSlice (JStr s # xs) = map_option ((#) s) (stringSlice xs)"
| "stringSlice (_ # xs) = None"

definition decodeType :: "json \<Rightarrow> error + string list" where
  "decodeType t =
     (case t of
        JStr rType \<Rightarrow> Inr [rType]
      | JArr rType \<Rightarrow>
          if rType = [] then Inl (New ''credential type is empty'')
          else (case stringSlice rType of
                  None \<Rightarrow> Inl (New ''vc types: array element is not a string'')
                | Some types \<Rightarrow> Inr types)
      | _ \<Rightarrow> Inl (New ''credential type of unknown type''))"

fun is_JStr :: "json \<Rightarrow> bool" where
  "is_JStr (JStr s) = True"
| "is_JStr _ = False"

fun is_JObj :: "json \<Rightarrow> bool" where
  "is_JObj (JObj m) = True"
| "is_JObj _ = False"

fun the_JStr :: "json \<Rightarrow> string" where
  "the_JStr (JStr s) = s"
| "the_JStr _ = ''''"

definition decodeContext :: "json \<Rightarrow> error + string list \<times> json list" where
  "decodeContext c =
     (case c of
        JStr rContext \<Rightarrow>
          if rContext = baseContext then Inr ([rContext], [])
          else Inl (New ''credential context: base context is missing'')
      | JArr rContext \<Rightarrow>
          if rContext = [] then Inl (New ''credential context is empty'')
          else if \<not> list_all (\<lambda>x. is_JStr x \<or> is_JObj x) rContext
          then Inl (New ''credential context: unexpected element type'')
          else
            let s = map the_JStr (filter is_JStr rContext);
                custom = filter (\<lambda>x. \<not> is_JStr x) rContext
            in if s = [] \<or> hd s \<noteq> baseContext
               then Inl (New ''credential context: base context is missing'')
               else Inr (s, custom)
      | _ \<Rightarrow> Inl (New ''credential context of unknown type''))"

subsection \<open>Structural validation\<close>

text \<open>
  \<open>validateBaseOnlyContextType\<close>: \<open>None\<close> is the nil error. The index expressions
  \<open>vc.Types[0]\<close> and \<open>vc.Context[0]\<close> panic on an empty slice; \<open>||\<close> evaluates its
  right operand only when the left one is false, so each condition of the source is
  two tests here, with the test for the panic between them.
\<close>

definition validateBaseOnlyContextType :: "Credential \<Rightarrow> error option" where
  "validateBaseOnlyContextType vc =
     (if length (vc_Types vc) > 1
      then Some (New ''violated type constraint: not base only type defined'')
      else if vc_Types vc = []
      then Some (Panic ''index out of range [0] with length 0'')
      else if vc_Types vc ! 0 \<noteq> vcType
      then Some (New ''violated type constraint: not base only type defined'')
      else if length (vc_Context vc) > 1
      then Some (New ''violated @context constraint: not base only @context defined'')
      else if vc_Context vc = []
      then Some (Panic ''index out of range [0] with length 0'')
      else if vc_Context vc ! 0 \<noteq> baseContext
      then Some (New ''violated @context constraint: not base only @context defined'')
      else None)"

subsection \<open>Serializing the polymorphic fields\<close>

text \<open>
  \<open>json.Marshal\<close> of a \<open>*compositeIssuer\<close>: both fields are tagged \<open>omitempty\<close>.
\<close>

definition compositeIssuer_json :: "compositeIssuer \<Rightarrow> json" where
  "compositeIssuer_json ci =
     JObj ((if ci_ID ci = '''' then [] else [(''id'', JStr (ci_ID ci))])
           @ (if ci_Name ci = '''' then [] else [(''name'', JStr (ci_Name ci))]))"

definition issuerToSerialize :: "Issuer \<Rightarrow> json" where
  "issuerToSerialize issuer =
     (if Issuer_Name issuer \<noteq> ''''
      then compositeIssuer_json \<lparr>ci_ID = Issuer_ID issuer, ci_Name = Issuer_Name issuer\<rparr>
      else JStr (Issuer_ID issuer))"

definition typesToSerialize :: "string list \<Rightarrow> json" where
  "typesToSerialize types =
     (if length types = 1 then JStr (types ! 0)
      else JArr (map JStr types))"

definition contextToSerialize :: "string list \<Rightarrow> json list \<Rightarrow> json" where
  "contextToSerialize context cContext =
     (if length cContext > 0 then JArr (map JStr context @ cContext)
      else if length context = 1 then JStr (context ! 0)
      else JArr (map JStr context))"


subsection \<open>JSON Schema validation (the library gojsonschema)\<close>

text \<open>
  A schema document is a list of keywords, all of which a value must satisfy. Only the
  keywords of the embedded schema are modelled, with the meaning gojsonschema gives
  them: a keyword constrains the values of the JSON type it is about and accepts
  every other value. A \<open>$ref\<close> to a definition is the definition itself.
\<close>

datatype keyword =
    Required "string list"
  | Properties "(string \<times> keyword list) list"
  | SType string
  | Items "keyword list list"
  | ItemsAll "keyword list"
  | AdditionalItems "keyword list"
  | UniqueItems bool
  | OneOf "keyword list list"
  | AnyOf "keyword list list"
  | Pattern string
  | Format string
  | MinItems nat

type_synonym schema = "keyword list"

fun json_type :: "json \<Rightarrow> string" where
  "json_type JNull = ''null''"
| "json_type (JBool b) = ''boolean''"
| "json_type (JNum n) = ''integer''"
| "json_type (JStr s) = ''string''"
| "json_type (JArr xs) = ''array''"
| "json_type (JObj m) = ''object''"

definition valid_type :: "string \<Rightarrow> json \<Rightarrow> bool" where
  "valid_type t j = (json_type j = t \<or> (t = ''number'' \<and> json_type j = ''integer''))"

text \<open>
  \<open>regexp.MatchString\<close> for the patterns the embedded schema uses: literal
  characters, \<open>.\<close> for any character but a newline, \<open>^\<close> in front and \<open>$\<close> at the
  end. \<open>match_at e p s\<close>: \<open>p\<close> matches a prefix of \<open>s\<close> (all of \<open>s\<close> when \<open>e\<close>).
\<close>

fun match_at :: "bool \<Rightarrow> string \<Rightarrow> string \<Rightarrow> bool" where
  "match_at e [] cs = (\<not> e \<or> cs = [])"
| "match_at e (p # ps) [] = False"
| "match_at e (p # ps) (c # cs) =
     ((p = c \<or> (p = CHR ''.'' \<and> c \<noteq> CHR 0x0A)) \<and> match_at e ps cs)"

fun match_from :: "bool \<Rightarrow> string \<Rightarrow> string \<Rightarrow> bool" where
  "match_from e ps [] = match_at e ps []"
| "match_from e ps (c # cs) = (match_at e ps (c # cs) \<or> match_from e ps cs)"

definition MatchString :: "string \<Rightarrow> string \<Rightarrow> bool" where
  "MatchString pattern s =
     (let a = (pattern \<noteq> [] \<and> hd pattern = CHR ''^'');
          p1 = (if a then tl pattern else pattern);
          e = (p1 \<noteq> [] \<and> last p1 = CHR ''$'');
          p2 = (if e then butlast p1 else p1)
      in if a then match_at e p2 s else match_from e p2 s)"

fun tuple_len :: "keyword list \<Rightarrow> nat option" where
  "tuple_len [] = None"
| "tuple_len (Items ss # ks) = Some (length ss)"
| "tuple_len (k # ks) = tuple_len ks"

text \<open>
  \<open>valid_kw fmt n kw j\<close>: the value \<open>j\<close> satisfies the keyword \<open>kw\<close> of a schema
  whose \<open>items\<close> keyword, if it has one in the array form, lists \<open>n\<close> schemas
  (\<open>additionalItems\<close> constrains the elements after those, and nothing in a schema
  without such an \<open>items\<close>). \<open>fmt\<close> are the format checkers. \<open>properties\<close>
  constrains the members that are present; \<open>oneOf\<close> asks for exactly one schema to
  hold, \<open>anyOf\<close> for at least one; \<open>uniqueItems\<close> compares the elements as values.
\<close>

function valid_kw :: "(string \<Rightarrow> string \<Rightarrow> bool) \<Rightarrow> nat option \<Rightarrow> keyword \<Rightarrow> json \<Rightarrow> bool" where
  "valid_kw fmt n kw j =
     (case kw of
        Required names \<Rightarrow>
          (case j of JObj m \<Rightarrow> list_all (\<lambda>k. map_of m k \<noteq> None) names | _ \<Rightarrow> True)
      | Properties ps \<Rightarrow>
          (case j of
             JObj m \<Rightarrow>
               list_all (\<lambda>(k, s). case map_of m k of
                                     None \<Rightarrow> True
                                   | Some v \<Rightarrow> list_all (\<lambda>kw'. valid_kw fmt (tuple_len s) kw' v) s) ps
           | _ \<Rightarrow> True)
      | SType t \<Rightarrow> valid_type t j
      | Items ss \<Rightarrow>
          (case j of
             JArr xs \<Rightarrow>
               list_all (\<lambda>(s, x). list_all (\<lambda>kw'. valid_kw fmt (tuple_len s) kw' x) s) (zip ss xs)
           | _ \<Rightarrow> True)
      | ItemsAll s \<Rightarrow>
          (case j of
             JArr xs \<Rightarrow> list_all (\<lambda>x. list_all (\<lambda>kw'. valid_kw fmt (tuple_len s) kw' x) s) xs
           | _ \<Rightarrow> True)
      | AdditionalItems s \<Rightarrow>
          (case j of
             JArr xs \<Rightarrow>
               (case n of
                  None \<Rightarrow> True
                | Some k \<Rightarrow>
                    list_all (\<lambda>x. list_all (\<lambda>kw'. valid_kw fmt (tuple_len s) kw' x) s) (drop k xs))
           | _ \<Rightarrow> True)
      | UniqueItems u \<Rightarrow>
          (case j of JArr xs \<Rightarrow> (u \<longrightarrow> distinct xs) | _ \<Rightarrow> True)
      | OneOf ss \<Rightarrow>
          (length (filter (\<lambda>s. list_all (\<lambda>kw'. valid_kw fmt (tuple_len s) kw' j) s) ss) = 1)
      | AnyOf ss \<Rightarrow>
          (length (filter (\<lambda>s. list_all (\<lambda>kw'. valid_kw fmt (tuple_len s) kw' j) s) ss) > 0)
      | Pattern p \<Rightarrow>
          (case j of JStr s \<Rightarrow> MatchString p s | _ \<Rightarrow> True)
      | Format f \<Rightarrow>
          (case j of JStr s \<Rightarrow> fmt f s | _ \<Rightarrow> True)
      | MinItems k \<Rightarrow>
          (case j of JArr xs \<Rightarrow> k \<le> length xs | _ \<Rightarrow> True))"
  by pat_completeness auto

lemma size_in_schemas:
  "kw \<in> set s \<Longrightarrow> s \<in> set ss \<Longrightarrow> size kw < Suc (size_list (size_list size) ss)"
proof -
  assume a: "kw \<in> set s" and b: "s \<in> set ss"
  have "size kw \<le> size_list size s" using a by (induction s) auto
  moreover have "size_list size s \<le> size_list (size_list size) ss" using b by (induction ss) auto
  ultimately show ?thesis by simp
qed

lemma size_in_schema: "kw \<in> set s \<Longrightarrow> size kw < Suc (size_list size s)"
  by (induction s) auto

lemma size_in_props:
  "kw \<in> set s \<Longrightarrow> (k, s) \<in> set ps \<Longrightarrow>
     size kw < Suc (size_list (size_prod (\<lambda>x. 0) (size_list size)) ps)"
proof -
  assume a: "kw \<in> set s" and b: "(k, s) \<in> set ps"
  have "size kw \<le> size_list size s" using a by (induction s) auto
  moreover have "size_list size s \<le> size_list (size_prod (\<lambda>x. 0) (size_list size)) ps"
    using b by (induction ps) auto
  ultimately show ?thesis by simp
qed

termination valid_kw
  apply (relation "measure (\<lambda>(fmt, n, kw, j). size kw)")
  apply (auto simp add: size_in_schemas size_in_schema size_in_props dest: set_zip_leftD)
  done


declare valid_kw.simps [simp del]

definition valid_schema :: "(string \<Rightarrow> string \<Rightarrow> bool) \<Rightarrow> schema \<Rightarrow> json \<Rightarrow> bool" where
  "valid_schema fmt s j = list_all (\<lambda>kw. valid_kw fmt (tuple_len s) kw j) s"

text \<open>
  The embedded schema \<open>defaultSchema\<close>, keyword by keyword, and the two schemas of
  its \<open>definitions\<close>.
\<close>

definition typedID_schema :: schema where
  "typedID_schema =
     [SType ''object'',
      Required [''id'', ''type''],
      Properties
        [(''id'', [SType ''string'', Format ''uri'']),
         (''type'', [AnyOf [[SType ''string''],
                            [SType ''array'', ItemsAll [SType ''string'']]]])]]"

definition typedIDs_schema :: schema where
  "typedIDs_schema =
     [AnyOf [typedID_schema, [SType ''array'', ItemsAll typedID_schema]]]"

definition defaultSchema :: schema where
  "defaultSchema =
     [Required [''@context'', ''type'', ''credentialSubject'', ''issuer'', ''issuanceDate''],
      Properties
        [(''@context'',
            [SType ''array'',
             Items [[SType ''string'', Pattern ''^https://www.w3.org/2018/credentials/v1$'']],
             UniqueItems True,
             AdditionalItems [OneOf [[SType ''object''], [SType ''string'']]]]),
         (''id'', [SType ''string'', Format ''uri'']),
         (''type'',
            [OneOf [[SType ''array'',
                     Items [[SType ''string'', Pattern ''^VerifiableCredential$'']]],
                    [SType ''string'', Pattern ''^VerifiableCredential$'']],
             AdditionalItems [SType ''string''],
             MinItems 2]),
         (''credentialSubject'', [AnyOf [[SType ''array''], [SType ''object'']]]),
         (''issuer'',
            [AnyOf [[SType ''string'', Format ''uri''],
                    [SType ''object'', Required [''id''],
                     Properties [(''id'', [SType ''string''])]]]]),
         (''issuanceDate'', [SType ''string'', Format ''date-time'']),
         (''proof'',
            [SType ''object'', Required [''type''],
             Properties [(''type'', [SType ''string''])]]),
         (''expirationDate'', [SType ''string'', Format ''date-time'']),
         (''credentialStatus'', typedID_schema),
         (''credentialSchema'', typedIDs_schema),
         (''evidence'', typedIDs_schema),
         (''refreshService'', typedID_schema)]]"

subsection \<open>The collaborators outside the package's file\<close>

text \<open>
  \<open>env\<close> holds what \<open>NewCredential\<close> calls and this file does not define: the
  detection and decoding of JWS and JWT (\<open>isJWS\<close>, \<open>isJWTUnsecured\<close>,
  \<open>decodeCredJWS\<close>, \<open>decodeCredJWTUnsecured\<close>, in other files of the package),
  \<open>toMap\<close> (another file of the package), the reader of JSON text and the reader and
  printer of RFC 3339 times (standard library), the format checkers and the compiler
  of schema documents (gojsonschema), and the HTTP client \<open>http.Client{}\<close> of the
  default loader. The bytes of a credential are a \<open>string\<close>, the bytes of a schema
  document are \<open>bytes\<close>.
\<close>

type_synonym PublicKeyFetcher = "string \<Rightarrow> string \<Rightarrow> error + bytes"

record http_Response =
  StatusCode :: int
  Body :: "error + bytes"

type_synonym http_Client = "string \<Rightarrow> error + http_Response"

record env =
  isJWS :: "string \<Rightarrow> bool"
  isJWTUnsecured :: "string \<Rightarrow> bool"
  decodeCredJWS :: "string \<Rightarrow> PublicKeyFetcher \<Rightarrow> error + string"
  decodeCredJWTUnsecured :: "string \<Rightarrow> error + string"
  toMap :: "json \<Rightarrow> error + (string \<times> json) list"
  json_Parse :: "string \<Rightarrow> error + json"
  time_Parse :: "string \<Rightarrow> error + time"
  time_Format :: "time \<Rightarrow> string"
  IsFormat :: "string \<Rightarrow> string \<Rightarrow> bool"
  schema_Compile :: "bytes \<Rightarrow> error + schema"
  default_Client :: http_Client

subsection \<open>The raw credential codec\<close>

text \<open>
  Modelled from the spec: \<open>unmarshalWithCustomFields\<close> and
  \<open>marshalWithCustomFields\<close> (in another file of the package), with what
  \<open>encoding/json\<close> does for the fields of \<open>rawCredential\<close>. On decode every mapped
  field is consumed and all remaining top-level members are deposited into the custom
  fields; on encode the mapped fields are emitted first (a field tagged \<open>omitempty\<close>
  only when it is not empty), then the custom fields are merged, and a custom key that
  collides with a reserved name is not emitted. Member names are matched exactly.
\<close>

definition reservedNames :: "string list" where
  "reservedNames =
     [''@context'', ''id'', ''type'', ''credentialSubject'', ''issuanceDate'',
      ''expirationDate'', ''proof'', ''credentialStatus'', ''issuer'', ''credentialSchema'',
      ''evidence'', ''termsOfUse'', ''refreshService'']"

definition member :: "(string \<times> json) list \<Rightarrow> string \<Rightarrow> json" where
  "member m k = (case map_of m k of None \<Rightarrow> JNull | Some v \<Rightarrow> v)"

definition string_field :: "(string \<times> json) list \<Rightarrow> string \<Rightarrow> error + string" where
  "string_field m k =
     (case member m k of
        JNull \<Rightarrow> Inr ''''
      | JStr s \<Rightarrow> Inr s
      | _ \<Rightarrow> Inl (New (''json: cannot unmarshal into Go struct field '' @ k @ '' of type string'')))"

definition time_field :: "env \<Rightarrow> (string \<times> json) list \<Rightarrow> string \<Rightarrow> error + time option" where
  "time_field env m k =
     (case member m k of
        JNull \<Rightarrow> Inr None
      | JStr s \<Rightarrow> bind_err (time_Parse env s) (\<lambda>t. Inr (Some t))
      | _ \<Rightarrow> Inl (New ''Time.UnmarshalJSON: input is not a JSON string''))"

definition proof_field :: "(string \<times> json) list \<Rightarrow> string \<Rightarrow> error + Proof option" where
  "proof_field m k =
     (case member m k of
        JNull \<Rightarrow> Inr None
      | JObj p \<Rightarrow> Inr (Some p)
      | _ \<Rightarrow> Inl (New (''json: cannot unmarshal into Go struct field '' @ k @ '' of type Proof'')))"

definition TypedID_UnmarshalJSON :: "json \<Rightarrow> error + TypedID" where
  "TypedID_UnmarshalJSON j =
     (case j of
        JObj m \<Rightarrow>
          bind_err (string_field m ''id'') (\<lambda>id'.
            case member m ''type'' of
              JNull \<Rightarrow> Inr \<lparr>TypedID_ID = id', TypedID_Type = JNull\<rparr>
            | JStr t \<Rightarrow> Inr \<lparr>TypedID_ID = id', TypedID_Type = JStr t\<rparr>
            | JArr ts \<Rightarrow>
                if list_all is_JStr ts then Inr \<lparr>TypedID_ID = id', TypedID_Type = JArr ts\<rparr>
                else Inl (New ''json: cannot unmarshal into Go struct field type of TypedID'')
            | _ \<Rightarrow> Inl (New ''json: cannot unmarshal into Go struct field type of TypedID''))
      | _ \<Rightarrow> Inl (New ''json: cannot unmarshal into Go value of type TypedID''))"

definition typedID_field :: "(string \<times> json) list \<Rightarrow> string \<Rightarrow> error + TypedID option" where
  "typedID_field m k =
     (case member m k of
        JNull \<Rightarrow> Inr None
      | j \<Rightarrow> bind_err (TypedID_UnmarshalJSON j) (\<lambda>t. Inr (Some t)))"

fun TypedIDs_UnmarshalJSON :: "json list \<Rightarrow> error + TypedID list" where
  "TypedIDs_UnmarshalJSON [] = Inr []"
| "TypedIDs_UnmarshalJSON (j # js) =
     bind_err (TypedID_UnmarshalJSON j) (\<lambda>t.
       bind_err (TypedIDs_UnmarshalJSON js) (\<lambda>ts. Inr (t # ts)))"

definition typedIDs_field :: "(string \<times> json) list \<Rightarrow> string \<Rightarrow> error + TypedID list" where
  "typedIDs_field m k =
     (case member m k of
        JNull \<Rightarrow> Inr []
      | JArr js \<Rightarrow> TypedIDs_UnmarshalJSON js
      | _ \<Rightarrow> Inl (New (''json: cannot unmarshal into Go struct field '' @ k @ '' of type []TypedID'')))"

definition evidence_field :: "(string \<times> json) list \<Rightarrow> string \<Rightarrow> json option" where
  "evidence_field m k = (case member m k of JNull \<Rightarrow> None | j \<Rightarrow> Some j)"

definition customFields_of :: "(string \<times> json) list \<Rightarrow> CustomFields" where
  "customFields_of m = filter (\<lambda>(k, v). k \<notin> set reservedNames) m"

definition rawCredential_UnmarshalJSON :: "env \<Rightarrow> string \<Rightarrow> error + rawCredential" where
  "rawCredential_UnmarshalJSON env data =
     bind_err (json_Parse env data) (\<lambda>doc.
       case doc of
         JObj m \<Rightarrow>
           bind_err (string_field m ''id'') (\<lambda>id'.
           bind_err (time_field env m ''issuanceDate'') (\<lambda>issued.
           bind_err (time_field env m ''expirationDate'') (\<lambda>expired.
           bind_err (proof_field m ''proof'') (\<lambda>prf.
           bind_err (typedID_field m ''credentialStatus'') (\<lambda>status.
           bind_err (typedIDs_field m ''termsOfUse'') (\<lambda>termsOfUse.
           bind_err (typedID_field m ''refreshService'') (\<lambda>refreshService.
             Inr \<lparr>raw_Context = member m ''@context'',
                  raw_ID = id',
                  raw_Type = member m ''type'',
                  raw_Subject = Value (member m ''credentialSubject''),
                  raw_Issued = issued,
                  raw_Expired = expired,
                  raw_Proof = prf,
                  raw_Status = status,
                  raw_Issuer = member m ''issuer'',
                  raw_Schema = member m ''credentialSchema'',
                  raw_Evidence = evidence_field m ''evidence'',
                  raw_TermsOfUse = termsOfUse,
                  raw_RefreshService = refreshService,
                  raw_CustomFields = customFields_of m\<rparr>)))))))
       | _ \<Rightarrow> Inl (New ''json: cannot unmarshal into Go value of type verifiable.rawCredential''))"

definition TypedID_json :: "TypedID \<Rightarrow> json" where
  "TypedID_json t =
     JObj ((if TypedID_ID t = '''' then [] else [(''id'', JStr (TypedID_ID t))])
           @ (if TypedID_Type t = JNull then [] else [(''type'', TypedID_Type t)]))"

definition Subject_json :: "Subject \<Rightarrow> json" where
  "Subject_json s = (case s of Value j \<Rightarrow> j | Maps ms \<Rightarrow> JArr (map JObj ms))"

text \<open>
  \<open>emit k v\<close> is the member that a field tagged \<open>omitempty\<close> contributes: none
  when the field is empty (\<open>None\<close>). \<open>nonnil\<close> reads an \<open>interface{}\<close>, which is
  empty when it is nil.
\<close>

definition emit :: "string \<Rightarrow> json option \<Rightarrow> (string \<times> json) list" where
  "emit k v = (case v of None \<Rightarrow> [] | Some j \<Rightarrow> [(k, j)])"

definition nonnil :: "json \<Rightarrow> json option" where
  "nonnil j = (if j = JNull then None else Some j)"

definition mapped_fields :: "env \<Rightarrow> rawCredential \<Rightarrow> (string \<times> json) list" where
  "mapped_fields env rc =
     emit ''@context'' (nonnil (raw_Context rc))
     @ emit ''id'' (if raw_ID rc = '''' then None else Some (JStr (raw_ID rc)))
     @ emit ''type'' (nonnil (raw_Type rc))
     @ emit ''credentialSubject''
         (if raw_Subject rc = Value JNull then None else Some (Subject_json (raw_Subject rc)))
     @ emit ''issuanceDate'' (map_option (\<lambda>t. JStr (time_Format env t)) (raw_Issued rc))
     @ emit ''expirationDate'' (map_option (\<lambda>t. JStr (time_Format env t)) (raw_Expired rc))
     @ emit ''proof'' (map_option JObj (raw_Proof rc))
     @ emit ''credentialStatus'' (map_option TypedID_json (raw_Status rc))
     @ emit ''issuer'' (nonnil (raw_Issuer rc))
     @ emit ''credentialSchema'' (nonnil (raw_Schema rc))
     @ emit ''evidence'' (raw_Evidence rc)
     @ emit ''termsOfUse''
         (if raw_TermsOfUse rc = [] then None
          else Some (JArr (map TypedID_json (raw_TermsOfUse rc))))
     @ emit ''refreshService'' (map_option TypedID_json (raw_RefreshService rc))"

definition rawCredential_MarshalJSON :: "env \<Rightarrow> rawCredential \<Rightarrow> error + json" where
  "rawCredential_MarshalJSON env rc =
     Inr (JObj (mapped_fields env rc @ customFields_of (raw_CustomFields rc)))"

subsection \<open>The schema loader\<close>

text \<open>
  A \<open>SchemaCache\<close> is an interface with \<open>Put\<close> and \<open>Get\<close> over the state \<open>'c\<close> of
  the cache behind it; \<open>Get\<close> returns the bytes and whether the key was present (or
  panics). \<open>ExpirableSchemaCache_at now\<close> is the \<open>ExpirableSchemaCache\<close> behind the
  interface, with the clock at \<open>now\<close>.
\<close>

record 'c SchemaCache =
  Put :: "string \<Rightarrow> bytes \<Rightarrow> 'c \<Rightarrow> 'c"
  Get :: "string \<Rightarrow> 'c \<Rightarrow> (error + bytes \<times> bool) \<times> 'c"

definition ExpirableSchemaCache_at :: "time \<Rightarrow> ExpirableSchemaCache SchemaCache" where
  "ExpirableSchemaCache_at now =
     \<lparr>Put = ExpirableSchemaCache_Put now, Get = ExpirableSchemaCache_Get now\<rparr>"

text \<open>
  \<open>CredentialSchemaLoader\<close>: the HTTP client and the cache, \<open>None\<close> for the nil
  interface. (Its field \<open>jsonLoader\<close> is read by no function of the file.)
\<close>

record 'c CredentialSchemaLoader =
  schemaDownloadClient :: http_Client
  loader_cache :: "'c SchemaCache option"

record 'c credentialOpts =
  issuerPublicKeyFetcher :: "PublicKeyFetcher option"
  disabledCustomSchema :: bool
  schemaLoader :: "'c CredentialSchemaLoader option"
  modelValidationMode :: vcModelValidationMode
  allowedCustomContexts :: "string set"
  allowedCustomTypes :: "string set"

text \<open>
  The options a caller can pass: the six constructors of \<open>CredentialOpt\<close>. The maps
  of allowed contexts and types are read for the presence of a key only, so they are
  sets.
\<close>

datatype 'c CredentialOpt =
    WithNoCustomSchemaCheck
  | WithPublicKeyFetcher "PublicKeyFetcher option"
  | WithCredentialSchemaLoader "'c CredentialSchemaLoader option"
  | WithJSONLDValidation
  | WithBaseContextValidation
  | WithBaseContextExtendedValidation "string list" "string list"

fun apply_opt :: "'c CredentialOpt \<Rightarrow> 'c credentialOpts \<Rightarrow> 'c credentialOpts" where
  "apply_opt WithNoCustomSchemaCheck opts = opts\<lparr>disabledCustomSchema := True\<rparr>"
| "apply_opt (WithPublicKeyFetcher fetcher) opts = opts\<lparr>issuerPublicKeyFetcher := fetcher\<rparr>"
| "apply_opt (WithCredentialSchemaLoader loader) opts = opts\<lparr>schemaLoader := loader\<rparr>"
| "apply_opt WithJSONLDValidation opts = opts\<lparr>modelValidationMode := jsonldValidation\<rparr>"
| "apply_opt WithBaseContextValidation opts =
     opts\<lparr>modelValidationMode := baseContextValidation\<rparr>"
| "apply_opt (WithBaseContextExtendedValidation customContexts customTypes) opts =
     opts\<lparr>modelValidationMode := baseContextExtendedValidation,
          allowedCustomContexts := insert baseContext (set customContexts),
          allowedCustomTypes := insert vcType (set customTypes)\<rparr>"

definition newDefaultSchemaLoader :: "env \<Rightarrow> 'c CredentialSchemaLoader" where
  "newDefaultSchemaLoader env =
     \<lparr>schemaDownloadClient = default_Client env, loader_cache = None\<rparr>"

definition parseCredentialOpts :: "env \<Rightarrow> 'c CredentialOpt list \<Rightarrow> 'c credentialOpts" where
  "parseCredentialOpts env opts =
     (let crOpts = fold apply_opt opts
                     \<lparr>issuerPublicKeyFetcher = None, disabledCustomSchema = False,
                      schemaLoader = None, modelValidationMode = jsonldValidation,
                      allowedCustomContexts = {}, allowedCustomTypes = {}\<rparr>
      in if schemaLoader crOpts = None
         then crOpts\<lparr>schemaLoader := Some (newDefaultSchemaLoader env)\<rparr>
         else crOpts)"

text \<open>
  What a call changes outside its result: the state of the schema cache, and the URLs
  requested over HTTP, in order.
\<close>

record 'c world =
  cache_state :: 'c
  requests :: "string list"

definition loadJSONSchema ::
  "string \<Rightarrow> http_Client \<Rightarrow> 'c world \<Rightarrow> (error + bytes) \<times> 'c world" where
  "loadJSONSchema url client w =
     (let w' = w\<lparr>requests := requests w @ [url]\<rparr>
      in case client url of
           Inl err \<Rightarrow> (Inl (Wrap ''load credential schema'' err), w')
         | Inr resp \<Rightarrow>
             if StatusCode resp \<noteq> 200
             then (Inl (HTTPFailure (StatusCode resp)), w')
             else (case Body resp of
                     Inl err \<Rightarrow> (Inl (Wrap ''credential schema: read response body'' err), w')
                   | Inr gotBody \<Rightarrow> (Inr gotBody, w')))"

definition getJSONSchema ::
  "string \<Rightarrow> 'c credentialOpts \<Rightarrow> 'c world \<Rightarrow> (error + bytes) \<times> 'c world" where
  "getJSONSchema url opts w =
     (case schemaLoader opts of
        None \<Rightarrow> (Inl (Panic ''nil pointer dereference''), w)
      | Some loader \<Rightarrow>
          (case loader_cache loader of
             None \<Rightarrow> loadJSONSchema url (schemaDownloadClient loader) w
           | Some cache \<Rightarrow>
               (case Get cache url (cache_state w) of
                  (Inl err, c') \<Rightarrow> (Inl err, w\<lparr>cache_state := c'\<rparr>)
                | (Inr (cachedBytes, ok), c') \<Rightarrow>
                    if ok then (Inr cachedBytes, w\<lparr>cache_state := c'\<rparr>)
                    else
                      (case loadJSONSchema url (schemaDownloadClient loader)
                              (w\<lparr>cache_state := c'\<rparr>) of
                         (Inl err, w') \<Rightarrow> (Inl err, w')
                       | (Inr schemaBytes, w') \<Rightarrow>
                           (Inr schemaBytes,
                            w'\<lparr>cache_state := Put cache url schemaBytes (cache_state w')\<rparr>)))))"

text \<open>
  A \<open>gojsonschema.JSONLoader\<close>: \<open>DefaultSchemaLoader\<close> is
  \<open>gojsonschema.NewStringLoader(defaultSchema)\<close>, \<open>BytesLoader b\<close> is
  \<open>gojsonschema.NewBytesLoader(b)\<close>.
\<close>

datatype JSONLoader = DefaultSchemaLoader | BytesLoader bytes

definition defaultSchemaLoader :: JSONLoader where
  "defaultSchemaLoader = DefaultSchemaLoader"

text \<open>
  The loop of \<open>getSchemaLoader\<close> over the declared schemas; a type that is not
  supported is logged and the loop goes on.
\<close>

fun getSchemaLoader_loop ::
  "TypedID list \<Rightarrow> 'c credentialOpts \<Rightarrow> 'c world \<Rightarrow> (error + JSONLoader) \<times> 'c world" where
  "getSchemaLoader_loop [] opts w = (Inr defaultSchemaLoader, w)"
| "getSchemaLoader_loop (schema # schemas) opts w =
     (if TypedID_Type schema = JStr jsonSchema2018Type
      then (case getJSONSchema (TypedID_ID schema) opts w of
              (Inl err, w') \<Rightarrow>
                (Inl (Wrap (''load of custom credential schema from '' @ TypedID_ID schema) err), w')
            | (Inr customSchemaData, w') \<Rightarrow> (Inr (BytesLoader customSchemaData), w'))
      else getSchemaLoader_loop schemas opts w)"

definition getSchemaLoader ::
  "TypedID list \<Rightarrow> 'c credentialOpts \<Rightarrow> 'c world \<Rightarrow> (error + JSONLoader) \<times> 'c world" where
  "getSchemaLoader schemas opts w =
     (if disabledCustomSchema opts then (Inr defaultSchemaLoader, w)
      else getSchemaLoader_loop schemas opts w)"

text \<open>
  \<open>gojsonschema.Validate\<close>: an error when the schema does not compile or the document
  is no JSON, else whether the document is valid.
\<close>

definition gojsonschema_Validate :: "env \<Rightarrow> JSONLoader \<Rightarrow> string \<Rightarrow> error + bool" where
  "gojsonschema_Validate env ls data =
     bind_err (case ls of
                 DefaultSchemaLoader \<Rightarrow> Inr defaultSchema
               | BytesLoader b \<Rightarrow> schema_Compile env b) (\<lambda>s.
       bind_err (json_Parse env data) (\<lambda>doc.
         Inr (valid_schema (IsFormat env) s doc)))"

text \<open>
  \<open>validate\<close>; the message of \<open>describeSchemaValidationError\<close> (another file of the
  package) is kept without the list of the failures.
\<close>

definition validate ::
  "env \<Rightarrow> string \<Rightarrow> TypedID list \<Rightarrow> 'c credentialOpts \<Rightarrow> 'c world \<Rightarrow> error option \<times> 'c world" where
  "validate env data schemas opts w =
     (case getSchemaLoader schemas opts w of
        (Inl err, w') \<Rightarrow> (Some err, w')
      | (Inr schemaLoader', w') \<Rightarrow>
          (case gojsonschema_Validate env schemaLoader' data of
             Inl err \<Rightarrow> (Some (Wrap ''validation of verifiable credential'' err), w')
           | Inr result \<Rightarrow>
               if \<not> result then (Some (New ''verifiable credential is not valid''), w')
               else (None, w')))"

subsection \<open>Building the credential\<close>

definition decodeRaw :: "env \<Rightarrow> string \<Rightarrow> PublicKeyFetcher option \<Rightarrow> error + string" where
  "decodeRaw env vcData pubKeyFetcher =
     (if isJWS env vcData
      then (case pubKeyFetcher of
              None \<Rightarrow> Inl (New ''public key fetcher is not defined'')
            | Some fetcher \<Rightarrow>
                (case decodeCredJWS env vcData fetcher of
                   Inl err \<Rightarrow> Inl (Wrap ''JWS decoding'' err)
                 | Inr vcDecodedBytes \<Rightarrow> Inr vcDecodedBytes))
      else if isJWTUnsecured env vcData
      then (case decodeCredJWTUnsecured env vcData of
              Inl err \<Rightarrow> Inl (Wrap ''unsecured JWT decoding'' err)
            | Inr vcDecodedBytes \<Rightarrow> Inr vcDecodedBytes)
      else Inr vcData)"

text \<open>
  \<open>decodeCredentialSchema\<close> unmarshals the whole document twice: into a struct whose
  field \<open>credentialSchema\<close> is a \<open>TypedID\<close>, and, when that fails, into one whose
  field is a \<open>[]TypedID\<close>. A member that is absent or null leaves the field at its
  zero value.
\<close>

definition decodeCredentialSchema :: "env \<Rightarrow> string \<Rightarrow> error + TypedID list" where
  "decodeCredentialSchema env data =
     (case json_Parse env data of
        Inr (JObj m) \<Rightarrow>
          (case (case member m ''credentialSchema'' of
                   JNull \<Rightarrow> Inr \<lparr>TypedID_ID = '''', TypedID_Type = JNull\<rparr>
                 | j \<Rightarrow> TypedID_UnmarshalJSON j) of
             Inr single \<Rightarrow> Inr [single]
           | Inl _ \<Rightarrow>
               (case typedIDs_field m ''credentialSchema'' of
                  Inr multiple \<Rightarrow> Inr multiple
                | Inl _ \<Rightarrow> Inl (New ''verifiable credential schema of unsupported format'')))
      | _ \<Rightarrow> Inl (New ''verifiable credential schema of unsupported format''))"

definition loadCredentialSchemas :: "env \<Rightarrow> string \<Rightarrow> error + TypedID list" where
  "loadCredentialSchemas env vcBytes =
     (case decodeCredentialSchema env vcBytes of
        Inl err \<Rightarrow> Inl (Wrap ''load credential schema'' err)
      | Inr schemas \<Rightarrow> Inr schemas)"

definition newCredential :: "rawCredential \<Rightarrow> TypedID list \<Rightarrow> error + Credential" where
  "newCredential raw schemas =
     (case decodeType (raw_Type raw) of
        Inl err \<Rightarrow> Inl (Wrap ''fill credential types from raw'' err)
      | Inr types \<Rightarrow>
          (case decodeIssuer (raw_Issuer raw) of
             Inl err \<Rightarrow> Inl (Wrap ''fill credential issuer from raw'' err)
           | Inr issuer \<Rightarrow>
               (case decodeContext (raw_Context raw) of
                  Inl err \<Rightarrow> Inl (Wrap ''fill credential context from raw'' err)
                | Inr (context, customContext) \<Rightarrow>
                    Inr \<lparr>vc_Context = context,
                         vc_CustomContext = customContext,
                         vc_ID = raw_ID raw,
                         vc_Types = types,
                         vc_Subject = raw_Subject raw,
                         vc_Issuer = issuer,
                         vc_Issued = raw_Issued raw,
                         vc_Expired = raw_Expired raw,
                         vc_Proof = raw_Proof raw,
                         vc_Status = raw_Status raw,
                         vc_Schemas = schemas,
                         vc_Evidence = raw_Evidence raw,
                         vc_TermsOfUse = raw_TermsOfUse raw,
                         vc_RefreshService = raw_RefreshService raw,
                         vc_CustomFields = raw_CustomFields raw\<rparr>)))"

fun first_not_in :: "string set \<Rightarrow> string list \<Rightarrow> string option" where
  "first_not_in allowed [] = None"
| "first_not_in allowed (x # xs) = (if x \<notin> allowed then Some x else first_not_in allowed xs)"

definition validateCustomContextType :: "Credential \<Rightarrow> 'c credentialOpts \<Rightarrow> error option" where
  "validateCustomContextType vc vcOpts =
     (case first_not_in (allowedCustomContexts vcOpts) (vc_Context vc) of
        Some vcContext \<Rightarrow> Some (New (''not allowed @context: '' @ vcContext))
      | None \<Rightarrow>
          (case first_not_in (allowedCustomTypes vcOpts) (vc_Types vc) of
             Some vcType' \<Rightarrow> Some (New (''not allowed type: '' @ vcType'))
           | None \<Rightarrow> None))"

definition postValidateCredential :: "Credential \<Rightarrow> 'c credentialOpts \<Rightarrow> error option" where
  "postValidateCredential vc vcOpts =
     (if modelValidationMode vcOpts = jsonldValidation then None
      else if modelValidationMode vcOpts = baseContextValidation
      then validateBaseOnlyContextType vc
      else if modelValidationMode vcOpts = baseContextExtendedValidation
      then validateCustomContextType vc vcOpts
      else Some (UnsupportedMode (modelValidationMode vcOpts)))"

definition NewCredential ::
  "env \<Rightarrow> string \<Rightarrow> 'c CredentialOpt list \<Rightarrow> 'c world
     \<Rightarrow> (error + Credential \<times> string) \<times> 'c world" where
  "NewCredential env vcData opts w =
     (let vcOpts = parseCredentialOpts env opts
      in case decodeRaw env vcData (issuerPublicKeyFetcher vcOpts) of
           Inl err \<Rightarrow> (Inl (Wrap ''decode new credential'' err), w)
         | Inr vcDataDecoded \<Rightarrow>
             (case rawCredential_UnmarshalJSON env vcDataDecoded of
                Inl err \<Rightarrow> (Inl (Wrap ''unmarshal new credential'' err), w)
              | Inr raw \<Rightarrow>
                  (case (if raw_Schema raw \<noteq> JNull
                         then loadCredentialSchemas env vcDataDecoded
                         else Inr []) of
                     Inl err \<Rightarrow> (Inl (Wrap ''load schemas of new credential'' err), w)
                   | Inr schemas \<Rightarrow>
                       (case validate env vcDataDecoded schemas vcOpts w of
                          (Some err, w') \<Rightarrow> (Inl (Wrap ''validate new credential'' err), w')
                        | (None, w') \<Rightarrow>
                            (case newCredential raw schemas of
                               Inl err \<Rightarrow> (Inl (Wrap ''build new credential'' err), w')
                             | Inr vc \<Rightarrow>
                                 (case postValidateCredential vc vcOpts of
                                    Some err \<Rightarrow> (Inl err, w')
                                  | None \<Rightarrow> (Inr (vc, vcDataDecoded), w')))))))"

subsection \<open>The subject's id\<close>

definition subjectIDFn :: "(string \<times> json) list \<Rightarrow> error + string" where
  "subjectIDFn subject =
     (case map_of subject ''id'' of
        None \<Rightarrow> Inl (New ''subject id is not defined'')
      | Some subjectWithID \<Rightarrow>
          (case subjectWithID of
             JStr subjectID \<Rightarrow> Inr subjectID
           | _ \<Rightarrow> Inl (New ''subject id is not string'')))"

text \<open>
  The default case converts with \<open>toMap\<close> and calls \<open>subjectID\<close> again on the map,
  which then takes the first case.
\<close>

definition subjectID :: "env \<Rightarrow> Subject \<Rightarrow> error + string" where
  "subjectID env subject =
     (case subject of
        Value (JObj m) \<Rightarrow> subjectIDFn m
      | Maps ms \<Rightarrow>
          if length ms = 0 then Inl (New ''no subject is defined'')
          else if length ms > 1 then Inl (New ''more than one subject is defined'')
          else subjectIDFn (ms ! 0)
      | Value j \<Rightarrow>
          (case toMap env j of
             Inl err \<Rightarrow> Inl (New ''subject of unknown structure'')
           | Inr sMap \<Rightarrow> subjectIDFn sMap))"

subsection \<open>Serializing the credential\<close>

definition raw :: "Credential \<Rightarrow> rawCredential" where
  "raw vc =
     \<lparr>raw_Context = contextToSerialize (vc_Context vc) (vc_CustomContext vc),
      raw_ID = vc_ID vc,
      raw_Type = typesToSerialize (vc_Types vc),
      raw_Subject = vc_Subject vc,
      raw_Issued = vc_Issued vc,
      raw_Expired = vc_Expired vc,
      raw_Proof = vc_Proof vc,
      raw_Status = vc_Status vc,
      raw_Issuer = issuerToSerialize (vc_Issuer vc),
      raw_Schema = JArr (map TypedID_json (vc_Schemas vc)),
      raw_Evidence = vc_Evidence vc,
      raw_TermsOfUse = vc_TermsOfUse vc,
      raw_RefreshService = vc_RefreshService vc,
      raw_CustomFields = vc_CustomFields vc\<rparr>"

text \<open>
  \<open>Credential.MarshalJSON\<close>; the result is the JSON value whose text
  \<open>json.Marshal\<close> prints.
\<close>

definition MarshalJSON :: "env \<Rightarrow> Credential \<Rightarrow> error + json" where
  "MarshalJSON env vc =
     (case rawCredential_MarshalJSON env (raw vc) of
        Inl err \<Rightarrow> Inl (Wrap ''JSON marshalling of verifiable credential'' err)
      | Inr byteCred \<Rightarrow> Inr byteCred)"

subsection \<open>Example documents and an example environment\<close>

text \<open>
  The minimal credential of the spec's first scenario, with the \<open>type\<close> and the
  \<open>issuer\<close> left open, and three JSON texts of it: with the type as an array of one
  element, with the type as a string, and with the type as a string and the issuer as
  an object without a name.
\<close>

definition minimal_vc :: "json \<Rightarrow> json \<Rightarrow> json" where
  "minimal_vc ty iss =
     JObj [(''@context'', JArr [JStr ''https://www.w3.org/2018/credentials/v1'']),
           (''type'', ty),
           (''issuer'', iss),
           (''issuanceDate'', JStr ''2010-01-01T19:23:24Z''),
           (''credentialSubject'', JObj [(''id'', JStr ''did:example:abc'')])]"

definition vc_text_type_array :: string where
  \<open>vc_text_type_array =
     ''{"@context":["https://www.w3.org/2018/credentials/v1"],"type":["VerifiableCredential"],"issuer":"did:example:123","issuanceDate":"2010-01-01T19:23:24Z","credentialSubject":{"id":"did:example:abc"}}''\<close>

definition vc_text_type_string :: string where
  \<open>vc_text_type_string =
     ''{"@context":["https://www.w3.org/2018/credentials/v1"],"type":"VerifiableCredential","issuer":"did:example:123","issuanceDate":"2010-01-01T19:23:24Z","credentialSubject":{"id":"did:example:abc"}}''\<close>

definition vc_text_issuer_object :: string where
  \<open>vc_text_issuer_object =
     ''{"@context":["https://www.w3.org/2018/credentials/v1"],"type":"VerifiableCredential","issuer":{"id":"did:example:123"},"issuanceDate":"2010-01-01T19:23:24Z","credentialSubject":{"id":"did:example:abc"}}''\<close>

text \<open>
  A fourth document: two types, an issuer with a name, and the unknown member
  \<open>referenceNumber\<close> of the spec's fourth scenario; its members and its text.
\<close>

definition reference_members :: "(string \<times> json) list" where
  "reference_members =
     [(''@context'', JArr [JStr ''https://www.w3.org/2018/credentials/v1'']),
      (''type'', JArr [JStr ''VerifiableCredential'', JStr ''UniversityDegreeCredential'']),
      (''issuer'', JObj [(''id'', JStr ''did:example:123''), (''name'', JStr ''Acme'')]),
      (''issuanceDate'', JStr ''2010-01-01T19:23:24Z''),
      (''credentialSubject'', JObj [(''id'', JStr ''did:example:abc'')]),
      (''referenceNumber'', JNum 83294847)]"

definition vc_text_reference_number :: string where
  \<open>vc_text_reference_number =
     ''{"@context":["https://www.w3.org/2018/credentials/v1"],"type":["VerifiableCredential","UniversityDegreeCredential"],"issuer":{"id":"did:example:123","name":"Acme"},"issuanceDate":"2010-01-01T19:23:24Z","credentialSubject":{"id":"did:example:abc"},"referenceNumber":83294847}''\<close>

definition example_documents :: "(string \<times> json) list" where
  "example_documents =
     [(vc_text_type_array,
         minimal_vc (JArr [JStr ''VerifiableCredential'']) (JStr ''did:example:123'')),
      (vc_text_type_string,
         minimal_vc (JStr ''VerifiableCredential'') (JStr ''did:example:123'')),
      (vc_text_issuer_object,
         minimal_vc (JStr ''VerifiableCredential'') (JObj [(''id'', JStr ''did:example:123'')])),
      (vc_text_reference_number, JObj reference_members)]"

text \<open>
  An environment that reads these four texts as the standard library reads them, and
  the one time stamp they hold; it knows one JWS (a text of three parts between dots),
  no unsecured JWT, and has no network.
\<close>

definition example_jws :: string where
  "example_jws = ''eyJhbGciOiJFZERTQSJ9.eyJ2YyI6e319.c2lnbmF0dXJl''"

definition example_env :: env where
  "example_env =
     \<lparr>isJWS = (\<lambda>b. b = example_jws),
      isJWTUnsecured = (\<lambda>b. False),
      decodeCredJWS = (\<lambda>b fetcher. Inl (New ''signature verification failed'')),
      decodeCredJWTUnsecured = (\<lambda>b. Inl (New ''not an unsecured JWT'')),
      toMap = (\<lambda>j. case j of JObj m \<Rightarrow> Inr m
                     | _ \<Rightarrow> Inl (New ''json: cannot unmarshal into Go value of type map'')),
      json_Parse = (\<lambda>b. case map_of example_documents b of
                           Some doc \<Rightarrow> Inr doc
                         | None \<Rightarrow> Inl (New ''invalid character'')),
      time_Parse = (\<lambda>s. if s = ''2010-01-01T19:23:24Z'' then Inr 1262373804000000000
                         else Inl (New ''parsing time'')),
      time_Format = (\<lambda>t. if t = 1262373804000000000 then ''2010-01-01T19:23:24Z'' else ''''),
      IsFormat = (\<lambda>f s. if f = ''date-time'' then s = ''2010-01-01T19:23:24Z''
                         else if f = ''uri'' then CHR '':'' \<in> set s
                         else True),
      schema_Compile = (\<lambda>b. Inl (New ''unexpected end of JSON input'')),
      default_Client = (\<lambda>url. Inl (New ''dial tcp: no network''))\<rparr>"

definition empty_world :: "unit world" where
  "empty_world = \<lparr>cache_state = (), requests = []\<rparr>"

text \<open>
  The raw credential that \<open>json.Unmarshal\<close> reads from the minimal document, with
  the \<open>type\<close> and the \<open>issuer\<close> left open.
\<close>

definition minimal_raw :: "json \<Rightarrow> json \<Rightarrow> rawCredential" where
  "minimal_raw ty iss =
     \<lparr>raw_Context = JArr [JStr ''https://www.w3.org/2018/credentials/v1''],
      raw_ID = '''',
      raw_Type = ty,
      raw_Subject = Value (JObj [(''id'', JStr ''did:example:abc'')]),
      raw_Issued = Some 1262373804000000000,
      raw_Expired = None,
      raw_Proof = None,
      raw_Status = None,
      raw_Issuer = iss,
      raw_Schema = JNull,
      raw_Evidence = None,
      raw_TermsOfUse = [],
      raw_RefreshService = None,
      raw_CustomFields = []\<rparr>"

text \<open>
  An HTTP client for the examples: one URL answers 200 with the body \<open>{}\<close>, every
  other URL answers 404. Two declared schemas, the second of the supported type, and
  options with a loader on that client and a given cache.
\<close>

definition example_client :: http_Client where
  "example_client url =
     (if url = ''https://schema.example/v1''
      then Inr \<lparr>StatusCode = 200, Body = Inr [123, 125]\<rparr>
      else Inr \<lparr>StatusCode = 404, Body = Inr []\<rparr>)"

definition example_schemas :: "TypedID list" where
  "example_schemas =
     [\<lparr>TypedID_ID = ''https://schema.example/other'', TypedID_Type = JStr ''OtherValidator''\<rparr>,
      \<lparr>TypedID_ID = ''https://schema.example/v1'',
       TypedID_Type = JStr ''JsonSchemaValidator2018''\<rparr>]"

definition example_opts :: "'c SchemaCache option \<Rightarrow> 'c credentialOpts" where
  "example_opts c =
     \<lparr>issuerPublicKeyFetcher = None, disabledCustomSchema = False,
      schemaLoader = Some \<lparr>schemaDownloadClient = example_client, loader_cache = c\<rparr>,
      modelValidationMode = jsonldValidation,
      allowedCustomContexts = {}, allowedCustomTypes = {}\<rparr>"

text \<open>
  A world whose cache holds, for the URL of the example, the bytes \<open>1, 2, 3\<close> under
  an expiry stamp of 1262377404 seconds.
\<close>

definition cached_world :: "ExpirableSchemaCache world" where
  "cached_world =
     \<lparr>cache_state =
        \<lparr>sc_cache = [''https://schema.example/v1'' \<mapsto> [188, 89, 62, 75, 0, 0, 0, 0, 1, 2, 3]],
         sc_expiration = 3600000000000\<rparr>,
      requests = []\<rparr>"

text \<open>The credential that the minimal document decodes to.\<close>

definition minimal_credential :: Credential where
  "minimal_credential =
     \<lparr>vc_Context = [''https://www.w3.org/2018/credentials/v1''],
      vc_CustomContext = [],
      vc_ID = '''',
      vc_Types = [''VerifiableCredential''],
      vc_Subject = Value (JObj [(''id'', JStr ''did:example:abc'')]),
      vc_Issuer = \<lparr>Issuer_ID = ''did:example:123'', Issuer_Name = ''''\<rparr>,
      vc_Issued = Some 1262373804000000000,
      vc_Expired = None,
      vc_Proof = None,
      vc_Status = None,
      vc_Schemas = [],
      vc_Evidence = None,
      vc_TermsOfUse = [],
      vc_RefreshService = None,
      vc_CustomFields = []\<rparr>"

text \<open>
  The normalization of the spec's data model, in its words: a single-element array is
  collapsed to its element.
\<close>

definition collapse_single :: "json \<Rightarrow> json" where
  "collapse_single j = (case j of JArr [x] \<Rightarrow> x | _ \<Rightarrow> j)"

text \<open>
  What \<open>json.Unmarshal\<close> into a \<open>TypedID\<close> followed by \<open>json.Marshal\<close> keeps of
  a JSON object: its \<open>id\<close> (when it is not the empty string) and its \<open>type\<close>, in
  this order. A value that is no object is left as it is.
\<close>

definition id_and_type :: "json \<Rightarrow> json" where
  "id_and_type j =
     (case j of
        JObj m \<Rightarrow>
          JObj (emit ''id'' (if member m ''id'' = JStr '''' then None else nonnil (member m ''id''))
                @ emit ''type'' (nonnil (member m ''type'')))
      | _ \<Rightarrow> j)"

text \<open>
  What reading a time stamp and printing it again gives: the text that the printer of
  the environment prints for the instant that its reader reads.
\<close>

definition reprinted :: "env \<Rightarrow> json \<Rightarrow> json" where
  "reprinted env j =
     (case j of
        JStr s \<Rightarrow> (case time_Parse env s of Inr t \<Rightarrow> JStr (time_Format env t) | Inl err \<Rightarrow> JNull)
      | _ \<Rightarrow> j)"

text \<open>
  Two more documents. The first is the minimal credential with an object after the
  base context and the unknown member \<open>referenceNumber\<close>. The second uses every
  member that \<open>rawCredential\<close> maps, and one that it does not.
\<close>

definition extension_members :: "(string \<times> json) list" where
  "extension_members =
     [(''@context'', JArr [JStr ''https://www.w3.org/2018/credentials/v1'',
                           JObj [(''ex'', JStr ''https://example.org/vocab#'')]]),
      (''type'', JStr ''VerifiableCredential''),
      (''issuer'', JStr ''did:example:123''),
      (''issuanceDate'', JStr ''2010-01-01T19:23:24Z''),
      (''credentialSubject'', JObj [(''id'', JStr ''did:example:abc'')]),
      (''referenceNumber'', JNum 83294847)]"

definition vc_text_extension :: string where
  \<open>vc_text_extension =
     ''{"@context":["https://www.w3.org/2018/credentials/v1",{"ex":"https://example.org/vocab#"}],"type":"VerifiableCredential","issuer":"did:example:123","issuanceDate":"2010-01-01T19:23:24Z","credentialSubject":{"id":"did:example:abc"},"referenceNumber":83294847}''\<close>

definition extension_credential :: Credential where
  "extension_credential =
     \<lparr>vc_Context = [''https://www.w3.org/2018/credentials/v1''],
      vc_CustomContext = [JObj [(''ex'', JStr ''https://example.org/vocab#'')]],
      vc_ID = '''',
      vc_Types = [''VerifiableCredential''],
      vc_Subject = Value (JObj [(''id'', JStr ''did:example:abc'')]),
      vc_Issuer = \<lparr>Issuer_ID = ''did:example:123'', Issuer_Name = ''''\<rparr>,
      vc_Issued = Some 1262373804000000000,
      vc_Expired = None,
      vc_Proof = None,
      vc_Status = None,
      vc_Schemas = [],
      vc_Evidence = None,
      vc_TermsOfUse = [],
      vc_RefreshService = None,
      vc_CustomFields = [(''referenceNumber'', JNum 83294847)]\<rparr>"

definition full_members :: "(string \<times> json) list" where
  "full_members =
     [(''@context'', JArr [JStr ''https://www.w3.org/2018/credentials/v1'',
                           JStr ''https://www.w3.org/2018/credentials/examples/v1'']),
      (''id'', JStr ''http://example.edu/credentials/1872''),
      (''type'', JArr [JStr ''VerifiableCredential'', JStr ''UniversityDegreeCredential'']),
      (''issuer'', JObj [(''id'', JStr ''did:example:123''), (''name'', JStr ''Acme'')]),
      (''issuanceDate'', JStr ''2010-01-01T19:23:24Z''),
      (''expirationDate'', JStr ''2020-01-01T19:23:24Z''),
      (''credentialSubject'', JObj [(''id'', JStr ''did:example:abc'')]),
      (''credentialStatus'', JObj [(''id'', JStr ''https://example.edu/status/24''),
                                   (''type'', JStr ''CredentialStatusList2017'')]),
      (''credentialSchema'', JObj [(''id'', JStr ''https://example.org/examples/degree.json''),
                                   (''type'', JStr ''OtherValidator'')]),
      (''termsOfUse'', JArr [JObj [(''id'', JStr ''http://example.com/policies/credential/4''),
                                   (''type'', JStr ''IssuerPolicy'')]]),
      (''refreshService'', JObj [(''id'', JStr ''https://example.edu/refresh/3732''),
                                 (''type'', JStr ''ManualRefreshService2018'')]),
      (''evidence'', JObj [(''id'', JStr ''https://example.edu/evidence/f2aeec97''),
                           (''type'', JArr [JStr ''DocumentVerification''])]),
      (''proof'', JObj [(''type'', JStr ''Ed25519Signature2018'')]),
      (''referenceNumber'', JNum 83294847)]"

definition vc_text_full :: string where
  \<open>vc_text_full =
     ''{"@context":["https://www.w3.org/2018/credentials/v1","https://www.w3.org/2018/credentials/examples/v1"],"id":"http://example.edu/credentials/1872","type":["VerifiableCredential","UniversityDegreeCredential"],"issuer":{"id":"did:example:123","name":"Acme"},"issuanceDate":"2010-01-01T19:23:24Z","expirationDate":"2020-01-01T19:23:24Z","credentialSubject":{"id":"did:example:abc"},"credentialStatus":{"id":"https://example.edu/status/24","type":"CredentialStatusList2017"},"credentialSchema":{"id":"https://example.org/examples/degree.json","type":"OtherValidator"},"termsOfUse":[{"id":"http://example.com/policies/credential/4","type":"IssuerPolicy"}],"refreshService":{"id":"https://example.edu/refresh/3732","type":"ManualRefreshService2018"},"evidence":{"id":"https://example.edu/evidence/f2aeec97","type":["DocumentVerification"]},"proof":{"type":"Ed25519Signature2018"},"referenceNumber":83294847}''\<close>

definition full_credential :: Credential where
  "full_credential =
     \<lparr>vc_Context = [''https://www.w3.org/2018/credentials/v1'',
                    ''https://www.w3.org/2018/credentials/examples/v1''],
      vc_CustomContext = [],
      vc_ID = ''http://example.edu/credentials/1872'',
      vc_Types = [''VerifiableCredential'', ''UniversityDegreeCredential''],
      vc_Subject = Value (JObj [(''id'', JStr ''did:example:abc'')]),
      vc_Issuer = \<lparr>Issuer_ID = ''did:example:123'', Issuer_Name = ''Acme''\<rparr>,
      vc_Issued = Some 1262373804000000000,
      vc_Expired = Some 1577906604000000000,
      vc_Proof = Some [(''type'', JStr ''Ed25519Signature2018'')],
      vc_Status = Some \<lparr>TypedID_ID = ''https://example.edu/status/24'',
                         TypedID_Type = JStr ''CredentialStatusList2017''\<rparr>,
      vc_Schemas = [\<lparr>TypedID_ID = ''https://example.org/examples/degree.json'',
                      TypedID_Type = JStr ''OtherValidator''\<rparr>],
      vc_Evidence = Some (JObj [(''id'', JStr ''https://example.edu/evidence/f2aeec97''),
                                (''type'', JArr [JStr ''DocumentVerification''])]),
      vc_TermsOfUse = [\<lparr>TypedID_ID = ''http://example.com/policies/credential/4'',
                         TypedID_Type = JStr ''IssuerPolicy''\<rparr>],
      vc_RefreshService = Some \<lparr>TypedID_ID = ''https://example.edu/refresh/3732'',
                                 TypedID_Type = JStr ''ManualRefreshService2018''\<rparr>,
      vc_CustomFields = [(''referenceNumber'', JNum 83294847)]\<rparr>"

text \<open>
  The environment of the examples, extended to read these two texts and the second
  time stamp.
\<close>

definition more_documents :: "(string \<times> json) list" where
  "more_documents =
     [(vc_text_extension, JObj extension_members), (vc_text_full, JObj full_members)]"

definition more_env :: env where
  "more_env =
     example_env
       \<lparr>json_Parse := (\<lambda>b. case map_of more_documents b of
                              Some doc \<Rightarrow> Inr doc
                            | None \<Rightarrow> json_Parse example_env b),
        time_Parse := (\<lambda>s. if s = ''2020-01-01T19:23:24Z'' then Inr 1577906604000000000
                            else time_Parse example_env s),
        time_Format := (\<lambda>t. if t = 1577906604000000000 then ''2020-01-01T19:23:24Z''
                             else time_Format example_env t),
        IsFormat := (\<lambda>f s. (f = ''date-time'' \<and> s = ''2020-01-01T19:23:24Z'')
                            \<or> IsFormat example_env f s)\<rparr>"

text \<open>
  The round trip of the claims: the JSON value that \<open>MarshalJSON\<close> gives for the
  credential that \<open>NewCredential\<close> decodes.
\<close>

definition reemit ::
  "env \<Rightarrow> string \<Rightarrow> 'c CredentialOpt list \<Rightarrow> 'c world \<Rightarrow> error + json" where
  "reemit env vcData opts w =
     (case NewCredential env vcData opts w of
        (Inl err, w') \<Rightarrow> Inl err
      | (Inr (vc, vcDataDecoded), w') \<Rightarrow> MarshalJSON env vc)"


section \<open>Properties of the key export and import\<close>

subsection \<open>Helper facts: what is written for the handle of a key record\<close>

lemma GetCurve_String:
  "cp \<noteq> UNKNOWN_CURVE \<Longrightarrow> GetCurve (EllipticCurveType_String cp) = Inr cp"
  by (cases cp) (simp_all add: GetCurve_def)

lemma getCurveProto_P256:
  "(getCurveProto c = Inr NIST_P256) =
     (c \<in> {''secp256r1'', ''NIST_P256'', ''P-256'', ''EllipticCurveType_NIST_P256''})"
  by (simp add: getCurveProto_def)

lemma getCurveProto_P384:
  "(getCurveProto c = Inr NIST_P384) =
     (c \<in> {''secp384r1'', ''NIST_P384'', ''P-384'', ''EllipticCurveType_NIST_P384''})"
  by (auto simp add: getCurveProto_def)

lemma getCurveProto_P521:
  "(getCurveProto c = Inr NIST_P521) =
     (c \<in> {''secp521r1'', ''NIST_P521'', ''P-521'', ''EllipticCurveType_NIST_P521''})"
  by (auto simp add: getCurveProto_def)

lemma getCurveProto_known: "getCurveProto c \<noteq> Inr UNKNOWN_CURVE"
  by (simp add: getCurveProto_def)

lemma getCurveProto_canonical:
  assumes "getCurveProto c = Inr cp"
  shows "(EllipticCurveType_String cp = c) = (c \<in> {''NIST_P256'', ''NIST_P384'', ''NIST_P521''})"
proof (cases cp)
  case UNKNOWN_CURVE
  with assms show ?thesis by (simp add: getCurveProto_known)
next
  case NIST_P256
  with assms have "c \<in> {''secp256r1'', ''NIST_P256'', ''P-256'', ''EllipticCurveType_NIST_P256''}"
    by (simp only: getCurveProto_P256)
  with NIST_P256 show ?thesis by auto
next
  case NIST_P384
  with assms have "c \<in> {''secp384r1'', ''NIST_P384'', ''P-384'', ''EllipticCurveType_NIST_P384''}"
    by (simp only: getCurveProto_P384)
  with NIST_P384 show ?thesis by auto
next
  case NIST_P521
  with assms have "c \<in> {''secp521r1'', ''NIST_P521'', ''P-521'', ''EllipticCurveType_NIST_P521''}"
    by (simp only: getCurveProto_P521)
  with NIST_P521 show ?thesis by auto
qed

lemma PublicKeyToKeysetHandle_Inr:
  "getCurveProto (Curve pk) = Inr cp \<Longrightarrow>
     PublicKeyToKeysetHandle pk =
       Inr (newKeySet ecdhAESPublicKeyTypeURL
             (Encoded \<lparr>Version = 0,
                       Params = Some \<lparr>KwParams = Some \<lparr>CurveType = cp, KeyType = EC\<rparr>,
                                      EncParams = Some \<lparr>AeadEnc = AES256GCMKeyTemplate\<rparr>,
                                      EcPointFormat = UNCOMPRESSED\<rparr>,
                       pb_KID = KID pk, pb_X = X pk, pb_Y = Y pk\<rparr>)
             ASYMMETRIC_PUBLIC)"
  by (simp add: PublicKeyToKeysetHandle_def proto_Marshal_def insecurecleartextkeyset_Read_def
      newKeySet_def Let_def)

lemma protoToCompositeKey_public:
  "cp \<noteq> UNKNOWN_CURVE \<Longrightarrow>
     protoToCompositeKey
       \<lparr>TypeUrl = ecdhAESPublicKeyTypeURL,
        Value = Encoded \<lparr>Version = v,
                  Params = Some \<lparr>KwParams = Some \<lparr>CurveType = cp, KeyType = EC\<rparr>,
                                 EncParams = enc, EcPointFormat = fmt\<rparr>,
                  pb_KID = kid, pb_X = x, pb_Y = y\<rparr>,
        KeyMaterialType = m\<rparr>
     = Inr \<lparr>KID = kid, X = x, Y = y, Curve = EllipticCurveType_String cp, Type = ''EC''\<rparr>"
  by (simp add: protoToCompositeKey_def newECDHKey_def buildKey_def buildCompositeKey_def
      keyType_def curveName_def kwParams_def bind_err_def GetCurve_String)

lemma Write_newKeySet:
  "protoToCompositeKey \<lparr>TypeUrl = u, Value = b, KeyMaterialType = m\<rparr> = Inr pk \<Longrightarrow>
     PubKeyWriter_Write Buffer_Write (newKeySet u b m) buf = (Inr (), buf @ [JSONText pk])"
  by (simp add: PubKeyWriter_Write_def writeKeyset_def newKeySet_def Let_def writePubKey_def
      json_Marshal_def Buffer_Write_def len_json_def)

lemma Handle_Public_newKeySet:
  "Handle_Public derive (newKeySet u b ASYMMETRIC_PUBLIC) =
     Inl (New ''keyset.Handle: keyset.Handle: keyset contains a non-private key'')"
  by (simp add: Handle_Public_def newKeySet_def Let_def)

lemma ExtractPrimaryPublicKey_newKeySet:
  assumes "protoToCompositeKey \<lparr>TypeUrl = u, Value = b, KeyMaterialType = ASYMMETRIC_PUBLIC\<rparr> = Inr pk"
  shows "ExtractPrimaryPublicKey derive (newKeySet u b ASYMMETRIC_PUBLIC) = Inr pk"
proof -
  have nosecret: "\<not> hasSecrets (newKeySet u b ASYMMETRIC_PUBLIC)"
    by (simp add: hasSecrets_def newKeySet_def Let_def)
  have "writePubKeyFromKeyHandle derive (newKeySet u b ASYMMETRIC_PUBLIC) = Inr [JSONText pk]"
    using Write_newKeySet [OF assms, of "[]"] nosecret
    by (simp add: writePubKeyFromKeyHandle_def Handle_Public_newKeySet HasSuffix_def
        WriteWithNoSecrets_def)
  then show ?thesis
    by (simp add: ExtractPrimaryPublicKey_def)
qed

lemma extract_of_handle_supported:
  assumes "getCurveProto (Curve pk) = Inr cp"
  shows "extract_of_handle derive pk =
           Inr \<lparr>KID = KID pk, X = X pk, Y = Y pk,
                Curve = EllipticCurveType_String cp, Type = ''EC''\<rparr>"
proof -
  from assms have known: "cp \<noteq> UNKNOWN_CURVE"
    using getCurveProto_known [of "Curve pk"] by auto
  show ?thesis
  unfolding extract_of_handle_def PublicKeyToKeysetHandle_Inr [OF assms]
  using ExtractPrimaryPublicKey_newKeySet
          [OF protoToCompositeKey_public [OF known]]
  by simp
qed

subsection \<open>The claims\<close>

text \<open>
  C9. \<open>PubKeyWriter.WriteEncrypted\<close> returns an error for every encrypted keyset and
  every writer, and writes nothing, so no encrypted keyset is exported through this
  writer; \<open>Write\<close> on a cleartext keyset can succeed (here on the keyset that
  \<open>PublicKeyToKeysetHandle\<close> builds for a P-256 key).
\<close>

theorem WriteEncrypted_not_supported:
  "PubKeyWriter_WriteEncrypted p eks s = (Inl (New ''write encrypted function not supported''), s)
   \<and> (\<exists>ks pk. PubKeyWriter_Write Buffer_Write ks [] = (Inr (), [JSONText pk]))"
proof
  show "PubKeyWriter_WriteEncrypted p eks s
          = (Inl (New ''write encrypted function not supported''), s)"
    by (simp add: PubKeyWriter_WriteEncrypted_def)
next
  have "NIST_P256 \<noteq> UNKNOWN_CURVE" by simp
  from Write_newKeySet [OF protoToCompositeKey_public [OF this], of 0 None UNCOMPRESSED "[]" "[]" "[]" ASYMMETRIC_PUBLIC "[]"]
  show "\<exists>ks pk. PubKeyWriter_Write Buffer_Write ks [] = (Inr (), [JSONText pk])"
    by auto
qed

text \<open>
  C5, as the code has it. For every key record \<open>pk\<close> whose curve name the alias table
  accepts, the handle is built and the primary public key extracted from it has the
  \<open>kid\<close>, \<open>x\<close> and \<open>y\<close> of \<open>pk\<close>, the canonical name of its curve and the type
  \<open>EC\<close>; it is \<open>pk\<close> itself exactly when \<open>pk\<close> already carries a canonical curve
  name and the type \<open>EC\<close>.
\<close>

theorem extract_of_handle_canonical:
  assumes "getCurveProto (Curve pk) = Inr cp"
  shows "extract_of_handle derive pk =
           Inr \<lparr>KID = KID pk, X = X pk, Y = Y pk,
                Curve = EllipticCurveType_String cp, Type = ''EC''\<rparr>
         \<and> ((extract_of_handle derive pk = Inr pk) =
              (Curve pk \<in> {''NIST_P256'', ''NIST_P384'', ''NIST_P521''} \<and> Type pk = ''EC''))"
proof -
  have r: "extract_of_handle derive pk =
           Inr \<lparr>KID = KID pk, X = X pk, Y = Y pk,
                Curve = EllipticCurveType_String cp, Type = ''EC''\<rparr>"
    by (rule extract_of_handle_supported [OF assms])
  have "(\<lparr>KID = KID pk, X = X pk, Y = Y pk,
          Curve = EllipticCurveType_String cp, Type = ''EC''\<rparr> = pk)
        = (EllipticCurveType_String cp = Curve pk \<and> Type pk = ''EC'')"
    by (cases pk) auto
  with r getCurveProto_canonical [OF assms] show ?thesis
    by simp
qed

theorem extract_of_handle_canonical_witness:
  "getCurveProto (Curve \<lparr>KID = ''key-1'', X = [1, 2], Y = [3, 4], Curve = ''secp384r1'', Type = ''OKP''\<rparr>)
     = Inr NIST_P384
   \<and> extract_of_handle no_key_manager
       \<lparr>KID = ''key-1'', X = [1, 2], Y = [3, 4], Curve = ''secp384r1'', Type = ''OKP''\<rparr>
     = Inr \<lparr>KID = ''key-1'', X = [1, 2], Y = [3, 4], Curve = ''NIST_P384'', Type = ''EC''\<rparr>"
proof -
  have h: "getCurveProto (Curve \<lparr>KID = ''key-1'', X = [1, 2], Y = [3, 4], Curve = ''secp384r1'', Type = ''OKP''\<rparr>)
            = Inr NIST_P384"
    by (simp add: getCurveProto_def)
  from extract_of_handle_canonical [OF h, of no_key_manager] h show ?thesis
    by simp
qed

text \<open>
  The claim as the spec states it fails: the record with the supported curve name
  \<open>P-256\<close> comes back with the curve name \<open>NIST_P256\<close>.
\<close>

theorem extract_of_handle_alias_counterexample:
  "getCurveProto ''P-256'' = Inr NIST_P256
   \<and> extract_of_handle no_key_manager
       \<lparr>KID = ''key-1'', X = [1, 2], Y = [3, 4], Curve = ''P-256'', Type = ''EC''\<rparr>
     = Inr \<lparr>KID = ''key-1'', X = [1, 2], Y = [3, 4], Curve = ''NIST_P256'', Type = ''EC''\<rparr>
   \<and> extract_of_handle no_key_manager
       \<lparr>KID = ''key-1'', X = [1, 2], Y = [3, 4], Curve = ''P-256'', Type = ''EC''\<rparr>
     \<noteq> Inr \<lparr>KID = ''key-1'', X = [1, 2], Y = [3, 4], Curve = ''P-256'', Type = ''EC''\<rparr>"
proof -
  have h: "getCurveProto (Curve \<lparr>KID = ''key-1'', X = [1, 2], Y = [3, 4], Curve = ''P-256'', Type = ''EC''\<rparr>)
            = Inr NIST_P256"
    by (simp add: getCurveProto_def)
  from extract_of_handle_supported [OF h, of no_key_manager] h show ?thesis
    by simp
qed

text \<open>
  C10. The alias table of \<open>getCurveProto\<close> accepts, beyond the secp, NIST and P-
  spellings, the long enum spellings \<open>EllipticCurveType_NIST_P256\<close>,
  \<open>EllipticCurveType_NIST_P384\<close> and \<open>EllipticCurveType_NIST_P521\<close>, each for its
  curve; a string is accepted exactly when it is one of the twelve names, and every
  other string fails with the error \<open>unsupported curve\<close>.
\<close>

theorem getCurveProto_alias_table:
  "getCurveProto ''EllipticCurveType_NIST_P256'' = Inr NIST_P256
   \<and> getCurveProto ''EllipticCurveType_NIST_P384'' = Inr NIST_P384
   \<and> getCurveProto ''EllipticCurveType_NIST_P521'' = Inr NIST_P521
   \<and> ((\<exists>cp. getCurveProto c = Inr cp) \<longleftrightarrow>
        c \<in> {''secp256r1'', ''NIST_P256'', ''P-256'', ''EllipticCurveType_NIST_P256'',
             ''secp384r1'', ''NIST_P384'', ''P-384'', ''EllipticCurveType_NIST_P384'',
             ''secp521r1'', ''NIST_P521'', ''P-521'', ''EllipticCurveType_NIST_P521''})
   \<and> ((\<forall>cp. getCurveProto c \<noteq> Inr cp) \<longleftrightarrow> getCurveProto c = Inl (New ''unsupported curve''))"
  by (auto simp add: getCurveProto_def)

section \<open>Properties of the credential code\<close>

subsection \<open>Helper facts: the cache's expiry stamp\<close>

lemma byte_of0: "(ucast (ucast (v::64 word) :: 8 word) :: 64 word) = v AND mask 8"
  by (rule bit_word_eqI) (auto simp add: bit_simps)

lemma byte_of:
  "push_bit k (drop_bit k (v::64 word) AND mask 8) = v AND push_bit k (mask 8)"
  by (rule bit_word_eqI) (auto simp add: bit_simps)

lemma Uint64_PutUint64: "Uint64 (PutUint64 v @ p) = v"
proof -
  have "Uint64 (PutUint64 v @ p) =
        (v AND mask 8) OR (v AND push_bit 8 (mask 8)) OR (v AND push_bit 16 (mask 8))
        OR (v AND push_bit 24 (mask 8)) OR (v AND push_bit 32 (mask 8))
        OR (v AND push_bit 40 (mask 8)) OR (v AND push_bit 48 (mask 8))
        OR (v AND push_bit 56 (mask 8))"
    by (simp add: Uint64_def PutUint64_def byte_of0 byte_of del: push_bit_and)
  also have "\<dots> = v AND (mask 8 OR push_bit 8 (mask 8) OR push_bit 16 (mask 8)
        OR push_bit 24 (mask 8) OR push_bit 32 (mask 8)
        OR push_bit 40 (mask 8) OR push_bit 48 (mask 8) OR push_bit 56 (mask 8))"
    by (simp only: bit.conj_disj_distrib)
  also have "(mask 8 OR push_bit 8 (mask 8) OR push_bit 16 (mask 8)
        OR push_bit 24 (mask 8) OR push_bit 32 (mask 8)
        OR push_bit 40 (mask 8) OR push_bit 48 (mask 8) OR push_bit 56 (mask 8)) = (- 1 :: 64 word)"
    by (simp add: mask_eq_exp_minus_1 push_bit_eq_mult)
  finally show ?thesis by simp
qed

lemma Uint64_PutUint64_only: "Uint64 (PutUint64 v) = v"
  using Uint64_PutUint64 [of v "[]"] by simp

lemma length_PutUint64: "length (PutUint64 v) = 8"
  by (simp add: PutUint64_def)

lemma sint_Unix:
  "- (2 ^ 63) \<le> t div 1000000000 \<Longrightarrow> t div 1000000000 < 2 ^ 63 \<Longrightarrow>
     sint (Unix t) = t div 1000000000"
  by (simp add: Unix_def sint_sbintrunc' signed_take_bit_int_eq_self)

lemma Put_stored:
  "4 + length k + (8 + length v) < 65536 \<Longrightarrow>
     ExpirableSchemaCache_Put now k v sc
       = sc\<lparr>sc_cache := (sc_cache sc)(k \<mapsto> PutUint64 (Unix (now + sc_expiration sc)) @ v)\<rparr>"
  by (simp add: ExpirableSchemaCache_Put_def fastcache_Set_def chunkSize_def Let_def Add_def
      length_PutUint64)

lemma Put_left_out:
  "65536 \<le> 4 + length k + (8 + length v) \<Longrightarrow> ExpirableSchemaCache_Put now k v sc = sc"
  by (simp add: ExpirableSchemaCache_Put_def fastcache_Set_def chunkSize_def Let_def
      length_PutUint64)

lemma Get_stamped:
  "sc_cache sc k = Some (PutUint64 e @ v) \<Longrightarrow>
     ExpirableSchemaCache_Get now' k sc =
       (if e <s Unix now'
        then (Inr ([], False), sc\<lparr>sc_cache := (sc_cache sc)(k := None)\<rparr>)
        else (Inr (v, True), sc))"
  by (simp add: ExpirableSchemaCache_Get_def fastcache_HasGet_def fastcache_Del_def Let_def
      length_PutUint64 Uint64_PutUint64_only)

lemma Get_after_Put:
  assumes fit: "4 + length k + (8 + length v) < 65536"
    and later: "now \<le> now'" "now' \<le> now + sc_expiration sc"
    and lo: "- (2 ^ 63) \<le> now div 1000000000"
    and hi: "(now + sc_expiration sc) div 1000000000 < 2 ^ 63"
  shows "ExpirableSchemaCache_Get now' k (ExpirableSchemaCache_Put now k v sc)
           = (Inr (v, True), ExpirableSchemaCache_Put now k v sc)"
proof -
  let ?e = "now + sc_expiration sc"
  have m1: "now div 1000000000 \<le> now' div 1000000000"
    using later(1) by (rule zdiv_mono1) simp
  have m2: "now' div 1000000000 \<le> ?e div 1000000000"
    using later(2) by (rule zdiv_mono1) simp
  have se: "sint (Unix ?e) = ?e div 1000000000"
    using lo hi m1 m2 by (intro sint_Unix) linarith+
  have sn: "sint (Unix now') = now' div 1000000000"
    using lo hi m1 m2 by (intro sint_Unix) linarith+
  have n: "\<not> Unix ?e <s Unix now'"
    using se sn m2 by (simp add: word_sless_alt)
  show ?thesis
    unfolding Put_stored [OF fit]
    by (subst Get_stamped [where e = "Unix ?e" and v = v]) (simp_all add: n)
qed

lemma Get_past_expiry:
  assumes fit: "4 + length k + (8 + length v) < 65536"
    and past: "(now + sc_expiration sc) div 1000000000 < now' div 1000000000"
    and lo: "- (2 ^ 63) \<le> (now + sc_expiration sc) div 1000000000"
    and hi: "now' div 1000000000 < 2 ^ 63"
  shows "ExpirableSchemaCache_Get now' k (ExpirableSchemaCache_Put now k v sc)
           = (Inr ([], False), sc\<lparr>sc_cache := (sc_cache sc)(k := None)\<rparr>)"
proof -
  let ?e = "now + sc_expiration sc"
  have se: "sint (Unix ?e) = ?e div 1000000000"
    using lo hi past by (intro sint_Unix) linarith+
  have sn: "sint (Unix now') = now' div 1000000000"
    using lo hi past by (intro sint_Unix) linarith+
  have n: "Unix ?e <s Unix now'"
    using se sn past by (simp add: word_sless_alt)
  show ?thesis
    unfolding Put_stored [OF fit]
    by (subst Get_stamped [where e = "Unix ?e" and v = v]) (simp_all add: n)
qed

subsection \<open>The schema cache\<close>

text \<open>
  C6, as the code has it. For a cache with a non-negative TTL and an entry that the
  byte cache stores (its header of four bytes, its key, its stamp of eight bytes and
  its value together stay under 64 KB): \<open>Get(k)\<close> after \<open>Put(k, v)\<close> returns
  \<open>(v, true)\<close> and leaves the cache as it is, immediately and as long as the clock
  has not passed the TTL; once the Unix second of the clock is past the second of
  \<open>now + TTL\<close> that \<open>Put\<close> stamped, \<open>Get(k)\<close> returns \<open>(_, false)\<close> and the
  entry is gone (the Unix seconds of the instants being \<open>int64\<close> values). A larger
  entry is not stored: \<open>Put\<close> leaves the cache as it was. \<open>Get(k)\<close> returns
  \<open>(_, false)\<close> when the key is absent; and when the stored expiry stamp is strictly
  less than the current Unix time it returns \<open>(_, false)\<close> and the entry is removed
  from the cache that the call leaves.
\<close>

theorem ExpirableSchemaCache_Put_Get:
  "(0 \<le> sc_expiration sc \<and> 4 + length k + (8 + length v) < 65536
      \<and> now \<le> now' \<and> now' \<le> now + sc_expiration sc
      \<and> - (2 ^ 63) \<le> now div 1000000000
      \<and> (now + sc_expiration sc) div 1000000000 < 2 ^ 63
    \<longrightarrow> ExpirableSchemaCache_Get now k (ExpirableSchemaCache_Put now k v sc)
          = (Inr (v, True), ExpirableSchemaCache_Put now k v sc)
        \<and> ExpirableSchemaCache_Get now' k (ExpirableSchemaCache_Put now k v sc)
          = (Inr (v, True), ExpirableSchemaCache_Put now k v sc))
   \<and> (4 + length k + (8 + length v) < 65536
      \<and> (now + sc_expiration sc) div 1000000000 < later div 1000000000
      \<and> - (2 ^ 63) \<le> (now + sc_expiration sc) div 1000000000
      \<and> later div 1000000000 < 2 ^ 63
    \<longrightarrow> ExpirableSchemaCache_Get later k (ExpirableSchemaCache_Put now k v sc)
          = (Inr ([], False), sc\<lparr>sc_cache := (sc_cache sc)(k := None)\<rparr>)
        \<and> sc_cache (snd (ExpirableSchemaCache_Get later k
                            (ExpirableSchemaCache_Put now k v sc))) k = None)
   \<and> (65536 \<le> 4 + length k + (8 + length v)
    \<longrightarrow> ExpirableSchemaCache_Put now k v sc = sc)
   \<and> (sc_cache sc k = None
    \<longrightarrow> ExpirableSchemaCache_Get now k sc = (Inr ([], False), sc))
   \<and> (sc_cache sc k = Some b \<and> 8 \<le> length b \<and> Uint64 (take 8 b) <s Unix now
    \<longrightarrow> ExpirableSchemaCache_Get now k sc
          = (Inr ([], False), sc\<lparr>sc_cache := (sc_cache sc)(k := None)\<rparr>)
        \<and> sc_cache (snd (ExpirableSchemaCache_Get now k sc)) k = None)"
proof (intro conjI impI)
  assume a: "0 \<le> sc_expiration sc \<and> 4 + length k + (8 + length v) < 65536
      \<and> now \<le> now' \<and> now' \<le> now + sc_expiration sc
      \<and> - (2 ^ 63) \<le> now div 1000000000
      \<and> (now + sc_expiration sc) div 1000000000 < 2 ^ 63"
  then show "ExpirableSchemaCache_Get now' k (ExpirableSchemaCache_Put now k v sc)
          = (Inr (v, True), ExpirableSchemaCache_Put now k v sc)"
    by (intro Get_after_Put) simp_all
  from a show "ExpirableSchemaCache_Get now k (ExpirableSchemaCache_Put now k v sc)
          = (Inr (v, True), ExpirableSchemaCache_Put now k v sc)"
    by (intro Get_after_Put) simp_all
next
  assume a: "4 + length k + (8 + length v) < 65536
      \<and> (now + sc_expiration sc) div 1000000000 < later div 1000000000
      \<and> - (2 ^ 63) \<le> (now + sc_expiration sc) div 1000000000
      \<and> later div 1000000000 < 2 ^ 63"
  then show g: "ExpirableSchemaCache_Get later k (ExpirableSchemaCache_Put now k v sc)
          = (Inr ([], False), sc\<lparr>sc_cache := (sc_cache sc)(k := None)\<rparr>)"
    by (intro Get_past_expiry) simp_all
  show "sc_cache (snd (ExpirableSchemaCache_Get later k
                         (ExpirableSchemaCache_Put now k v sc))) k = None"
    unfolding g by simp
next
  assume "65536 \<le> 4 + length k + (8 + length v)"
  then show "ExpirableSchemaCache_Put now k v sc = sc"
    by (rule Put_left_out)
next
  assume "sc_cache sc k = None"
  then show "ExpirableSchemaCache_Get now k sc = (Inr ([], False), sc)"
    by (simp add: ExpirableSchemaCache_Get_def fastcache_HasGet_def)
next
  assume b: "sc_cache sc k = Some b \<and> 8 \<le> length b \<and> Uint64 (take 8 b) <s Unix now"
  then show g: "ExpirableSchemaCache_Get now k sc
          = (Inr ([], False), sc\<lparr>sc_cache := (sc_cache sc)(k := None)\<rparr>)"
    by (simp add: ExpirableSchemaCache_Get_def fastcache_HasGet_def fastcache_Del_def Let_def)
  show "sc_cache (snd (ExpirableSchemaCache_Get now k sc)) k = None"
    unfolding g by simp
qed

theorem ExpirableSchemaCache_Put_Get_witness:
  "ExpirableSchemaCache_Get 1262373804000000000 ''https://schema.example/v1''
     (ExpirableSchemaCache_Put 1262373804000000000 ''https://schema.example/v1'' [1, 2, 3]
        \<lparr>sc_cache = Map.empty, sc_expiration = 3600000000000\<rparr>)
   = (Inr ([1, 2, 3], True),
      ExpirableSchemaCache_Put 1262373804000000000 ''https://schema.example/v1'' [1, 2, 3]
        \<lparr>sc_cache = Map.empty, sc_expiration = 3600000000000\<rparr>)
   \<and> ExpirableSchemaCache_Get 1262381004000000000 ''https://schema.example/v1''
       (ExpirableSchemaCache_Put 1262373804000000000 ''https://schema.example/v1'' [1, 2, 3]
          \<lparr>sc_cache = Map.empty, sc_expiration = 3600000000000\<rparr>)
     = (Inr ([], False), \<lparr>sc_cache = Map.empty, sc_expiration = 3600000000000\<rparr>)
   \<and> ExpirableSchemaCache_Put 1262373804000000000 ''https://schema.example/v1''
       (replicate 70000 0) \<lparr>sc_cache = Map.empty, sc_expiration = 3600000000000\<rparr>
     = \<lparr>sc_cache = Map.empty, sc_expiration = 3600000000000\<rparr>
   \<and> ExpirableSchemaCache_Get 1262373804000000000 ''https://schema.example/v1''
         \<lparr>sc_cache = Map.empty, sc_expiration = 3600000000000\<rparr>
       = (Inr ([], False), \<lparr>sc_cache = Map.empty, sc_expiration = 3600000000000\<rparr>)
   \<and> sc_cache (snd (ExpirableSchemaCache_Get 1262373804000000000 ''https://schema.example/v1''
         \<lparr>sc_cache = [''https://schema.example/v1'' \<mapsto> [100, 0, 0, 0, 0, 0, 0, 0, 7]],
          sc_expiration = 3600000000000\<rparr>)) ''https://schema.example/v1'' = None"
proof -
  have stamp: "Uint64 (take 8 [100, 0, 0, 0, 0, 0, 0, 0, 7]) <s Unix 1262373804000000000"
    by (simp add: Uint64_def Unix_def word_sless_alt)
  have 1: "ExpirableSchemaCache_Get 1262373804000000000 ''https://schema.example/v1''
     (ExpirableSchemaCache_Put 1262373804000000000 ''https://schema.example/v1'' [1, 2, 3]
        \<lparr>sc_cache = Map.empty, sc_expiration = 3600000000000\<rparr>)
   = (Inr ([1, 2, 3], True),
      ExpirableSchemaCache_Put 1262373804000000000 ''https://schema.example/v1'' [1, 2, 3]
        \<lparr>sc_cache = Map.empty, sc_expiration = 3600000000000\<rparr>)"
    and 2: "ExpirableSchemaCache_Get 1262381004000000000 ''https://schema.example/v1''
       (ExpirableSchemaCache_Put 1262373804000000000 ''https://schema.example/v1'' [1, 2, 3]
          \<lparr>sc_cache = Map.empty, sc_expiration = 3600000000000\<rparr>)
     = (Inr ([], False), \<lparr>sc_cache = Map.empty, sc_expiration = 3600000000000\<rparr>)"
    and 4: "ExpirableSchemaCache_Get 1262373804000000000 ''https://schema.example/v1''
         \<lparr>sc_cache = Map.empty, sc_expiration = 3600000000000\<rparr>
       = (Inr ([], False), \<lparr>sc_cache = Map.empty, sc_expiration = 3600000000000\<rparr>)"
    using ExpirableSchemaCache_Put_Get
            [where sc = "\<lparr>sc_cache = Map.empty, sc_expiration = 3600000000000\<rparr>"
               and k = "''https://schema.example/v1''" and v = "[1, 2, 3]"
               and now = 1262373804000000000 and now' = 1262373804000000000
               and later = 1262381004000000000 and b = "[]"]
    by simp_all
  have 3: "ExpirableSchemaCache_Put 1262373804000000000 ''https://schema.example/v1''
       (replicate 70000 0) \<lparr>sc_cache = Map.empty, sc_expiration = 3600000000000\<rparr>
     = \<lparr>sc_cache = Map.empty, sc_expiration = 3600000000000\<rparr>"
    using ExpirableSchemaCache_Put_Get
            [where sc = "\<lparr>sc_cache = Map.empty, sc_expiration = 3600000000000\<rparr>"
               and k = "''https://schema.example/v1''" and v = "replicate 70000 0"
               and now = 1262373804000000000 and now' = 1262373804000000000
               and later = 1262381004000000000 and b = "[]"]
    by simp
  have 5: "sc_cache (snd (ExpirableSchemaCache_Get 1262373804000000000 ''https://schema.example/v1''
         \<lparr>sc_cache = [''https://schema.example/v1'' \<mapsto> [100, 0, 0, 0, 0, 0, 0, 0, 7]],
          sc_expiration = 3600000000000\<rparr>)) ''https://schema.example/v1'' = None"
    using ExpirableSchemaCache_Put_Get
            [where sc = "\<lparr>sc_cache = [''https://schema.example/v1'' \<mapsto> [100, 0, 0, 0, 0, 0, 0, 0, 7]],
                           sc_expiration = 3600000000000\<rparr>"
               and k = "''https://schema.example/v1''" and v = "[]"
               and now = 1262373804000000000 and now' = 1262373804000000000
               and later = 1262381004000000000 and b = "[100, 0, 0, 0, 0, 0, 0, 0, 7]"]
          stamp
    by simp
  from 1 2 3 4 5 show ?thesis by simp
qed

text \<open>
  The claim as the spec states it fails: a value of 70000 bytes is not stored, and
  \<open>Get(k)\<close> immediately after \<open>Put(k, v)\<close> returns \<open>(_, false)\<close>.
\<close>

theorem ExpirableSchemaCache_large_entry_counterexample:
  "0 \<le> sc_expiration \<lparr>sc_cache = Map.empty, sc_expiration = 3600000000000\<rparr>
   \<and> ExpirableSchemaCache_Get 1262373804000000000 ''https://schema.example/v1''
       (ExpirableSchemaCache_Put 1262373804000000000 ''https://schema.example/v1''
          (replicate 70000 0) \<lparr>sc_cache = Map.empty, sc_expiration = 3600000000000\<rparr>)
     = (Inr ([], False), \<lparr>sc_cache = Map.empty, sc_expiration = 3600000000000\<rparr>)"
  by (simp add: ExpirableSchemaCache_Get_def ExpirableSchemaCache_Put_def fastcache_Set_def
      fastcache_HasGet_def chunkSize_def Let_def length_PutUint64)

subsection \<open>The issuer\<close>

lemma newCredential_Inr:
  assumes "newCredential r schemas = Inr vc"
  shows "decodeType (raw_Type r) = Inr (vc_Types vc)"
    and "decodeIssuer (raw_Issuer r) = Inr (vc_Issuer vc)"
    and "decodeContext (raw_Context r) = Inr (vc_Context vc, vc_CustomContext vc)"
    and "vc_ID vc = raw_ID r" and "vc_Subject vc = raw_Subject r"
    and "vc_Issued vc = raw_Issued r" and "vc_Expired vc = raw_Expired r"
    and "vc_Proof vc = raw_Proof r" and "vc_Status vc = raw_Status r"
    and "vc_Schemas vc = schemas" and "vc_Evidence vc = raw_Evidence r"
    and "vc_TermsOfUse vc = raw_TermsOfUse r"
    and "vc_RefreshService vc = raw_RefreshService r"
    and "vc_CustomFields vc = raw_CustomFields r"
  using assms by (auto simp add: newCredential_def split: sum.splits prod.splits)


lemma decodeIssuer_JObj:
  assumes "decodeIssuer (JObj m) = Inr iss"
  shows "Issuer_ID iss \<noteq> ''''"
    and "map_of m ''id'' = Some (JStr (Issuer_ID iss))"
    and "Issuer_Name iss \<noteq> '''' \<Longrightarrow> map_of m ''name'' = Some (JStr (Issuer_Name iss))"
    and "Issuer_Name iss = '''' \<Longrightarrow> map_of m ''name'' \<in> {None, Some (JStr '''')}"
  using assms
  by (auto simp add: decodeIssuer_def getStringEntry_def
      split: sum.splits option.splits json.splits if_splits)

lemma decodeIssuer_shapes:
  "decodeIssuer src = Inr iss \<Longrightarrow> (\<exists>s. src = JStr s) \<or> (\<exists>m. src = JObj m)"
  by (cases src) (simp_all add: decodeIssuer_def)





subsection \<open>The base-only structural check\<close>

text \<open>
  What holds of the check. Every credential that \<open>newCredential\<close> builds has a type
  and a context (the decoders refuse an empty \<open>type\<close> and an empty \<open>@context\<close>),
  so the index expressions \<open>Types[0]\<close> and \<open>Context[0]\<close> of the check are within
  bounds; the check then returns nil exactly when the types are
  \<open>[VerifiableCredential]\<close> and the context is \<open>[baseContext]\<close>, and an error of
  the type or context constraint otherwise. It reads no other field: neither the
  custom context nor the custom fields.
\<close>

lemma stringSlice_Some: "stringSlice xs = Some ss \<Longrightarrow> map JStr ss = xs"
proof (induction xs arbitrary: ss)
  case Nil
  then show ?case by simp
next
  case (Cons x xs)
  then show ?case by (cases x) auto
qed

lemma decodeType_nonempty:
  assumes "decodeType t = Inr types"
  shows "types \<noteq> []"
proof (cases t)
  case (JStr s)
  with assms show ?thesis by (auto simp add: decodeType_def)
next
  case (JArr xs)
  with assms have s: "stringSlice xs = Some types" and ne: "xs \<noteq> []"
    by (auto simp add: decodeType_def split: if_splits option.splits)
  from stringSlice_Some [OF s] ne show ?thesis by auto
qed (use assms in \<open>simp_all add: decodeType_def\<close>)

lemma decodeContext_nonempty:
  assumes "decodeContext c = Inr (ctx, custom)"
  shows "ctx \<noteq> []" and "hd ctx = baseContext"
  using assms
  by (cases c; auto simp add: decodeContext_def Let_def split: if_splits)+

lemma newCredential_nonempty:
  assumes "newCredential r schemas = Inr vc"
  shows "vc_Types vc \<noteq> []" and "vc_Context vc \<noteq> []" and "hd (vc_Context vc) = baseContext"
  using decodeType_nonempty [OF newCredential_Inr(1) [OF assms]]
    decodeContext_nonempty [OF newCredential_Inr(3) [OF assms]]
  by simp_all

lemma validateBaseOnlyContextType_nonempty:
  assumes "vc_Types vc \<noteq> []" and "vc_Context vc \<noteq> []"
  shows "(validateBaseOnlyContextType vc = None)
           = (vc_Types vc = [vcType] \<and> vc_Context vc = [baseContext])"
    and "validateBaseOnlyContextType vc
           \<in> {None,
              Some (New ''violated type constraint: not base only type defined''),
              Some (New ''violated @context constraint: not base only @context defined'')}"
proof -
  obtain t ts where t: "vc_Types vc = t # ts"
    using assms(1) by (cases "vc_Types vc") auto
  obtain c cs where c: "vc_Context vc = c # cs"
    using assms(2) by (cases "vc_Context vc") auto
  show "(validateBaseOnlyContextType vc = None)
           = (vc_Types vc = [vcType] \<and> vc_Context vc = [baseContext])"
    by (auto simp add: validateBaseOnlyContextType_def t c)
  show "validateBaseOnlyContextType vc
           \<in> {None,
              Some (New ''violated type constraint: not base only type defined''),
              Some (New ''violated @context constraint: not base only @context defined'')}"
    by (auto simp add: validateBaseOnlyContextType_def t c)
qed

lemma validateBaseOnlyContextType_after_decoding:
  assumes "newCredential r schemas = Inr vc"
  shows "(validateBaseOnlyContextType vc = None)
           = (vc_Types vc = [vcType] \<and> vc_Context vc = [baseContext])"
    and "validateBaseOnlyContextType vc
           \<in> {None,
              Some (New ''violated type constraint: not base only type defined''),
              Some (New ''violated @context constraint: not base only @context defined'')}"
  using validateBaseOnlyContextType_nonempty
          [OF newCredential_nonempty(1) [OF assms] newCredential_nonempty(2) [OF assms]]
  by simp_all

lemma validateBaseOnlyContextType_reads:
  "validateBaseOnlyContextType (vc\<lparr>vc_CustomContext := cc, vc_CustomFields := cf\<rparr>)
     = validateBaseOnlyContextType vc"
  by (simp add: validateBaseOnlyContextType_def)

lemma NewCredential_stages:
  assumes "NewCredential env vcData opts w = (Inr (vc, decoded), w')"
  shows "\<exists>r. rawCredential_UnmarshalJSON env decoded = Inr r
             \<and> newCredential r (vc_Schemas vc) = Inr vc
             \<and> (if raw_Schema r \<noteq> JNull
                 then loadCredentialSchemas env decoded = Inr (vc_Schemas vc)
                 else vc_Schemas vc = [])
             \<and> postValidateCredential vc (parseCredentialOpts env opts) = None"
proof -
  from assms obtain r schemas
    where u: "rawCredential_UnmarshalJSON env decoded = Inr r"
      and s: "(if raw_Schema r \<noteq> JNull then loadCredentialSchemas env decoded else Inr [])
                = Inr schemas"
      and n: "newCredential r schemas = Inr vc"
      and p: "postValidateCredential vc (parseCredentialOpts env opts) = None"
    unfolding NewCredential_def Let_def
    by (auto split: sum.splits prod.splits option.splits if_splits)
  from newCredential_Inr(10) [OF n] have e: "schemas = vc_Schemas vc" by simp
  from u s n p show ?thesis
    unfolding e by (auto split: if_splits)
qed

lemma NewCredential_nonempty:
  assumes "NewCredential env vcData opts w = (Inr (vc, decoded), w')"
  shows "vc_Types vc \<noteq> []" and "vc_Context vc \<noteq> []"
proof -
  from NewCredential_stages [OF assms] obtain r
    where n: "newCredential r (vc_Schemas vc) = Inr vc"
    by blast
  show "vc_Types vc \<noteq> []" and "vc_Context vc \<noteq> []"
    by (rule newCredential_nonempty(1) [OF n], rule newCredential_nonempty(2) [OF n])
qed

lemma NewCredential_base_only:
  assumes "NewCredential env vcData opts w = (Inr (vc, decoded), w')"
    and "modelValidationMode (parseCredentialOpts env opts) = baseContextValidation"
  shows "vc_Types vc = [vcType]" and "vc_Context vc = [baseContext]"
proof -
  from NewCredential_stages [OF assms(1)] obtain r
    where n: "newCredential r (vc_Schemas vc) = Inr vc"
      and p: "postValidateCredential vc (parseCredentialOpts env opts) = None"
    by blast
  from p assms(2) have v: "validateBaseOnlyContextType vc = None"
    by (simp add: postValidateCredential_def baseContextValidation_def jsonldValidation_def)
  from validateBaseOnlyContextType_after_decoding(1) [OF n] v
  show "vc_Types vc = [vcType]" and "vc_Context vc = [baseContext]"
    by simp_all
qed

text \<open>
  C4. The claim holds as far as the lemmas above go: after decoding the check is
  within bounds and decides on the types and the context. Its last part, that any
  extension is rejected, fails on the code: the document
  \<open>{"@context": [base, {"ex": ...}], "type": "VerifiableCredential", ...,
  "referenceNumber": 83294847}\<close>, with an object in the context and a member outside
  the data model, is accepted by \<open>NewCredential\<close> under the option
  \<open>WithBaseContextValidation\<close>, whose documentation says that no extra fields are
  allowed. The object is in the custom context and the member in the custom fields of
  the credential returned.
\<close>

theorem NewCredential_base_only_accepts_extension:
  "json_Parse more_env vc_text_extension = Inr (JObj extension_members)
   \<and> NewCredential more_env vc_text_extension [WithBaseContextValidation] empty_world
       = (Inr (extension_credential, vc_text_extension), empty_world)
   \<and> validateBaseOnlyContextType extension_credential = None
   \<and> vc_CustomContext extension_credential = [JObj [(''ex'', JStr ''https://example.org/vocab#'')]]
   \<and> vc_CustomFields extension_credential = [(''referenceNumber'', JNum 83294847)]"
  by code_simp

subsection \<open>JWS input without a key fetcher\<close>

lemma fold_apply_opt_fetcher:
  "\<forall>f. WithPublicKeyFetcher f \<notin> set opts \<Longrightarrow>
     issuerPublicKeyFetcher (fold apply_opt opts crOpts) = issuerPublicKeyFetcher crOpts"
proof (induction opts arbitrary: crOpts)
  case Nil
  then show ?case by simp
next
  case (Cons o1 opts)
  then have "issuerPublicKeyFetcher (apply_opt o1 crOpts) = issuerPublicKeyFetcher crOpts"
    by (cases o1) auto
  with Cons show ?case by simp
qed

lemma parseCredentialOpts_no_fetcher:
  "\<forall>f. WithPublicKeyFetcher f \<notin> set opts \<Longrightarrow>
     issuerPublicKeyFetcher (parseCredentialOpts env opts) = None"
  by (simp add: parseCredentialOpts_def Let_def fold_apply_opt_fetcher)

text \<open>
  C8. For every input that \<open>isJWS\<close> recognizes, \<open>NewCredential\<close> called with no
  \<open>WithPublicKeyFetcher\<close> option fails in the decode stage with the error that the
  public key fetcher is not defined. The result is the same whatever the rest of the
  environment does (the JSON reader, the schema compiler, the HTTP client), and the
  cache and the list of HTTP requests are as before the call: unmarshalling, schema
  loading and validation are not reached.
\<close>

theorem NewCredential_JWS_without_fetcher:
  assumes "isJWS env vcData" and "\<forall>f. WithPublicKeyFetcher f \<notin> set opts"
  shows "NewCredential env vcData opts w
           = (Inl (Wrap ''decode new credential'' (New ''public key fetcher is not defined'')), w)"
  using assms
  by (simp add: NewCredential_def Let_def decodeRaw_def parseCredentialOpts_no_fetcher)

theorem NewCredential_JWS_without_fetcher_witness:
  "isJWS example_env example_jws
   \<and> (\<forall>f. WithPublicKeyFetcher f \<notin> set [WithNoCustomSchemaCheck, WithBaseContextValidation])
   \<and> NewCredential example_env example_jws
        [WithNoCustomSchemaCheck, WithBaseContextValidation] empty_world
     = (Inl (Wrap ''decode new credential'' (New ''public key fetcher is not defined'')),
        empty_world)"
proof -
  have a: "isJWS example_env example_jws"
    by (simp add: example_env_def)
  have b: "\<forall>f. WithPublicKeyFetcher f \<notin> set [WithNoCustomSchemaCheck, WithBaseContextValidation :: unit CredentialOpt]"
    by simp
  from NewCredential_JWS_without_fetcher [OF a b, of empty_world] a show ?thesis
    by simp
qed


subsection \<open>Schema resolution\<close>

lemma getSchemaLoader_loop_skip:
  "\<forall>x \<in> set pre. TypedID_Type x \<noteq> JStr jsonSchema2018Type \<Longrightarrow>
     getSchemaLoader_loop (pre @ rest) opts w = getSchemaLoader_loop rest opts w"
  by (induction pre) simp_all

lemma getSchemaLoader_none_supported:
  "\<forall>x \<in> set schemas. TypedID_Type x \<noteq> JStr jsonSchema2018Type \<Longrightarrow>
     getSchemaLoader_loop schemas opts w = (Inr defaultSchemaLoader, w)"
  using getSchemaLoader_loop_skip [of schemas "[]" opts w] by simp

lemma loadJSONSchema_failed:
  "client url = Inl err \<Longrightarrow>
     loadJSONSchema url client w =
       (Inl (Wrap ''load credential schema'' err), w\<lparr>requests := requests w @ [url]\<rparr>)"
  by (simp add: loadJSONSchema_def Let_def)

lemma loadJSONSchema_status:
  "client url = Inr resp \<Longrightarrow>
     loadJSONSchema url client w =
       (if StatusCode resp \<noteq> 200
        then (Inl (HTTPFailure (StatusCode resp)), w\<lparr>requests := requests w @ [url]\<rparr>)
        else (case Body resp of
                Inl err \<Rightarrow> (Inl (Wrap ''credential schema: read response body'' err),
                             w\<lparr>requests := requests w @ [url]\<rparr>)
              | Inr gotBody \<Rightarrow> (Inr gotBody, w\<lparr>requests := requests w @ [url]\<rparr>)))"
  by (simp add: loadJSONSchema_def Let_def)

lemma loadJSONSchema_succeeds:
  "(fst (loadJSONSchema url client w) = Inr gotBody)
     = (\<exists>resp. client url = Inr resp \<and> StatusCode resp = 200 \<and> Body resp = Inr gotBody)"
  by (cases "client url")
     (auto simp add: loadJSONSchema_failed loadJSONSchema_status split: sum.splits)

text \<open>
  C7. When custom schema checks are disabled the default embedded schema is
  returned. Otherwise the declared schemas are scanned in order: schemas of a type
  other than \<open>JsonSchemaValidator2018\<close> are skipped, and the first of that type has
  its id fetched, the outcome of the fetch being the outcome of the resolution (the
  bytes as a loader, or the error wrapped); if no schema is of that type the default
  schema is returned. The fetch returns the cached bytes, with no HTTP request, when
  the cache holds the URL; without a cache, or when the cache does not hold the URL,
  it goes over HTTP (and puts the bytes it gets into the cache), where a response of
  status 200 gives its body and a response of any other status gives an error that
  carries the status code. A request that fails, and a body of a response of status
  200 that cannot be read, give the error wrapped: the fetch over HTTP succeeds
  exactly when there is a response, its status is 200 and its body is read.
\<close>

theorem getSchemaLoader_resolution:
  "(disabledCustomSchema opts \<longrightarrow>
      getSchemaLoader schemas opts w = (Inr defaultSchemaLoader, w))
   \<and> (\<not> disabledCustomSchema opts
        \<and> (\<forall>x \<in> set schemas. TypedID_Type x \<noteq> JStr jsonSchema2018Type) \<longrightarrow>
      getSchemaLoader schemas opts w = (Inr defaultSchemaLoader, w))
   \<and> (\<not> disabledCustomSchema opts
        \<and> (\<forall>x \<in> set pre. TypedID_Type x \<noteq> JStr jsonSchema2018Type)
        \<and> TypedID_Type s = JStr jsonSchema2018Type \<longrightarrow>
      getSchemaLoader (pre @ s # post) opts w =
        (case getJSONSchema (TypedID_ID s) opts w of
           (Inl err, w') \<Rightarrow>
             (Inl (Wrap (''load of custom credential schema from '' @ TypedID_ID s) err), w')
         | (Inr customSchemaData, w') \<Rightarrow> (Inr (BytesLoader customSchemaData), w')))
   \<and> (schemaLoader opts = Some loader \<and> loader_cache loader = Some c
        \<and> Get c url (cache_state w) = (Inr (b, True), cs) \<longrightarrow>
      getJSONSchema url opts w = (Inr b, w\<lparr>cache_state := cs\<rparr>)
      \<and> requests (snd (getJSONSchema url opts w)) = requests w)
   \<and> (schemaLoader opts = Some loader \<and> loader_cache loader = None \<longrightarrow>
      getJSONSchema url opts w = loadJSONSchema url (schemaDownloadClient loader) w)
   \<and> (schemaLoader opts = Some loader \<and> loader_cache loader = Some c
        \<and> Get c url (cache_state w) = (Inr (b, False), cs) \<longrightarrow>
      getJSONSchema url opts w =
        (case loadJSONSchema url (schemaDownloadClient loader) (w\<lparr>cache_state := cs\<rparr>) of
           (Inl err, w') \<Rightarrow> (Inl err, w')
         | (Inr schemaBytes, w') \<Rightarrow>
             (Inr schemaBytes, w'\<lparr>cache_state := Put c url schemaBytes (cache_state w')\<rparr>)))
   \<and> (client url = Inr resp \<and> StatusCode resp = 200 \<and> Body resp = Inr gotBody \<longrightarrow>
      loadJSONSchema url client w = (Inr gotBody, w\<lparr>requests := requests w @ [url]\<rparr>))
   \<and> (client url = Inr resp \<and> StatusCode resp \<noteq> 200 \<longrightarrow>
      loadJSONSchema url client w
        = (Inl (HTTPFailure (StatusCode resp)), w\<lparr>requests := requests w @ [url]\<rparr>))
   \<and> (client url = Inl err \<longrightarrow>
      loadJSONSchema url client w
        = (Inl (Wrap ''load credential schema'' err), w\<lparr>requests := requests w @ [url]\<rparr>))
   \<and> (client url = Inr resp \<and> StatusCode resp = 200 \<and> Body resp = Inl err \<longrightarrow>
      loadJSONSchema url client w
        = (Inl (Wrap ''credential schema: read response body'' err),
           w\<lparr>requests := requests w @ [url]\<rparr>))
   \<and> ((fst (loadJSONSchema url client w) = Inr gotBody)
        = (\<exists>r. client url = Inr r \<and> StatusCode r = 200 \<and> Body r = Inr gotBody))"
proof (intro conjI impI)
  assume "disabledCustomSchema opts"
  then show "getSchemaLoader schemas opts w = (Inr defaultSchemaLoader, w)"
    by (simp add: getSchemaLoader_def)
next
  assume "\<not> disabledCustomSchema opts
        \<and> (\<forall>x \<in> set schemas. TypedID_Type x \<noteq> JStr jsonSchema2018Type)"
  then show "getSchemaLoader schemas opts w = (Inr defaultSchemaLoader, w)"
    by (simp add: getSchemaLoader_def getSchemaLoader_none_supported)
next
  assume a: "\<not> disabledCustomSchema opts
        \<and> (\<forall>x \<in> set pre. TypedID_Type x \<noteq> JStr jsonSchema2018Type)
        \<and> TypedID_Type s = JStr jsonSchema2018Type"
  then have "getSchemaLoader_loop (pre @ s # post) opts w
               = getSchemaLoader_loop (s # post) opts w"
    by (intro getSchemaLoader_loop_skip) simp
  with a show "getSchemaLoader (pre @ s # post) opts w =
        (case getJSONSchema (TypedID_ID s) opts w of
           (Inl err, w') \<Rightarrow>
             (Inl (Wrap (''load of custom credential schema from '' @ TypedID_ID s) err), w')
         | (Inr customSchemaData, w') \<Rightarrow> (Inr (BytesLoader customSchemaData), w'))"
    by (simp add: getSchemaLoader_def)
next
  assume a: "schemaLoader opts = Some loader \<and> loader_cache loader = Some c
        \<and> Get c url (cache_state w) = (Inr (b, True), cs)"
  then show g: "getJSONSchema url opts w = (Inr b, w\<lparr>cache_state := cs\<rparr>)"
    by (simp add: getJSONSchema_def)
  show "requests (snd (getJSONSchema url opts w)) = requests w"
    unfolding g by simp
next
  assume "schemaLoader opts = Some loader \<and> loader_cache loader = None"
  then show "getJSONSchema url opts w = loadJSONSchema url (schemaDownloadClient loader) w"
    by (simp add: getJSONSchema_def)
next
  assume "schemaLoader opts = Some loader \<and> loader_cache loader = Some c
        \<and> Get c url (cache_state w) = (Inr (b, False), cs)"
  then show "getJSONSchema url opts w =
        (case loadJSONSchema url (schemaDownloadClient loader) (w\<lparr>cache_state := cs\<rparr>) of
           (Inl err, w') \<Rightarrow> (Inl err, w')
         | (Inr schemaBytes, w') \<Rightarrow>
             (Inr schemaBytes, w'\<lparr>cache_state := Put c url schemaBytes (cache_state w')\<rparr>))"
    by (simp add: getJSONSchema_def)
next
  assume "client url = Inr resp \<and> StatusCode resp = 200 \<and> Body resp = Inr gotBody"
  then show "loadJSONSchema url client w = (Inr gotBody, w\<lparr>requests := requests w @ [url]\<rparr>)"
    by (simp add: loadJSONSchema_status)
next
  assume "client url = Inr resp \<and> StatusCode resp \<noteq> 200"
  then show "loadJSONSchema url client w
        = (Inl (HTTPFailure (StatusCode resp)), w\<lparr>requests := requests w @ [url]\<rparr>)"
    by (simp add: loadJSONSchema_status)
next
  assume "client url = Inl err"
  then show "loadJSONSchema url client w
        = (Inl (Wrap ''load credential schema'' err), w\<lparr>requests := requests w @ [url]\<rparr>)"
    by (rule loadJSONSchema_failed)
next
  assume "client url = Inr resp \<and> StatusCode resp = 200 \<and> Body resp = Inl err"
  then show "loadJSONSchema url client w
        = (Inl (Wrap ''credential schema: read response body'' err),
           w\<lparr>requests := requests w @ [url]\<rparr>)"
    by (simp add: loadJSONSchema_status)
next
  show "(fst (loadJSONSchema url client w) = Inr gotBody)
        = (\<exists>r. client url = Inr r \<and> StatusCode r = 200 \<and> Body r = Inr gotBody)"
    by (rule loadJSONSchema_succeeds)
qed

theorem getSchemaLoader_resolution_witness:
  "getSchemaLoader example_schemas ((example_opts None)\<lparr>disabledCustomSchema := True\<rparr>) empty_world
     = (Inr defaultSchemaLoader, empty_world)
   \<and> getSchemaLoader example_schemas (example_opts None) empty_world
     = (Inr (BytesLoader [123, 125]), empty_world\<lparr>requests := [''https://schema.example/v1'']\<rparr>)
   \<and> getSchemaLoader
        [\<lparr>TypedID_ID = ''https://schema.example/v2'',
          TypedID_Type = JStr ''JsonSchemaValidator2018''\<rparr>] (example_opts None) empty_world
     = (Inl (Wrap ''load of custom credential schema from https://schema.example/v2''
               (HTTPFailure 404)),
        empty_world\<lparr>requests := [''https://schema.example/v2'']\<rparr>)
   \<and> getSchemaLoader example_schemas
        (example_opts (Some (ExpirableSchemaCache_at 1262373804000000000))) cached_world
     = (Inr (BytesLoader [1, 2, 3]), cached_world)
   \<and> getSchemaLoader
        [\<lparr>TypedID_ID = ''https://schema.example/v1'',
          TypedID_Type = JStr ''JsonSchemaValidator2018''\<rparr>]
        (parseCredentialOpts example_env []) empty_world
     = (Inl (Wrap ''load of custom credential schema from https://schema.example/v1''
               (Wrap ''load credential schema'' (New ''dial tcp: no network''))),
        empty_world\<lparr>requests := [''https://schema.example/v1'']\<rparr>)"
proof -
  let ?v1 = "\<lparr>TypedID_ID = ''https://schema.example/v1'',
              TypedID_Type = JStr ''JsonSchemaValidator2018''\<rparr>"
  let ?v2 = "\<lparr>TypedID_ID = ''https://schema.example/v2'',
              TypedID_Type = JStr ''JsonSchemaValidator2018''\<rparr>"
  let ?other = "\<lparr>TypedID_ID = ''https://schema.example/other'',
                 TypedID_Type = JStr ''OtherValidator''\<rparr>"
  let ?loader = "\<lparr>schemaDownloadClient = example_client, loader_cache = None\<rparr>"
  let ?cache = "ExpirableSchemaCache_at 1262373804000000000"
  let ?cloader = "\<lparr>schemaDownloadClient = example_client, loader_cache = Some ?cache\<rparr>"
  have s: "example_schemas = [?other] @ ?v1 # []"
    by (simp add: example_schemas_def)
  have stamp: "\<not> Uint64 [188, 89, 62, 75, 0, 0, 0, 0] <s Unix 1262373804000000000"
    by (simp add: Uint64_def Unix_def word_sless_alt)
  have hit: "Get ?cache ''https://schema.example/v1'' (cache_state cached_world)
               = (Inr ([1, 2, 3], True), cache_state cached_world)"
    using stamp
    by (simp add: ExpirableSchemaCache_at_def ExpirableSchemaCache_Get_def
        fastcache_HasGet_def cached_world_def)
  have 1: "getSchemaLoader example_schemas ((example_opts None)\<lparr>disabledCustomSchema := True\<rparr>)
             empty_world = (Inr defaultSchemaLoader, empty_world)"
    using getSchemaLoader_resolution
            [of "(example_opts None)\<lparr>disabledCustomSchema := True\<rparr>" example_schemas empty_world]
    by (simp add: example_opts_def)
  have 2: "getSchemaLoader example_schemas (example_opts None) empty_world
     = (Inr (BytesLoader [123, 125]), empty_world\<lparr>requests := [''https://schema.example/v1'']\<rparr>)"
    using getSchemaLoader_resolution
            [of "example_opts None" "[]" empty_world "[?other]" ?v1 "[]" ?loader _
                "''https://schema.example/v1''" _ _ example_client
                "\<lparr>StatusCode = 200, Body = Inr [123, 125]\<rparr>" "[123, 125]"]
    by (simp add: s example_opts_def jsonSchema2018Type_def example_client_def empty_world_def)
  have 3: "getSchemaLoader [?v2] (example_opts None) empty_world
     = (Inl (Wrap ''load of custom credential schema from https://schema.example/v2''
               (HTTPFailure 404)),
        empty_world\<lparr>requests := [''https://schema.example/v2'']\<rparr>)"
    using getSchemaLoader_resolution
            [of "example_opts None" "[]" empty_world "[]" ?v2 "[]" ?loader _
                "''https://schema.example/v2''" _ _ example_client
                "\<lparr>StatusCode = 404, Body = Inr []\<rparr>" "[]"]
    by (simp add: example_opts_def jsonSchema2018Type_def example_client_def empty_world_def)
  have 4: "getSchemaLoader example_schemas (example_opts (Some ?cache)) cached_world
     = (Inr (BytesLoader [1, 2, 3]), cached_world)"
    using getSchemaLoader_resolution
            [of "example_opts (Some ?cache)" "[]" cached_world "[?other]" ?v1 "[]" ?cloader ?cache
                "''https://schema.example/v1''" "[1, 2, 3]" "cache_state cached_world"]
          hit
    by (simp add: s example_opts_def jsonSchema2018Type_def)
  have 5: "getSchemaLoader [?v1] (parseCredentialOpts example_env []) empty_world
     = (Inl (Wrap ''load of custom credential schema from https://schema.example/v1''
               (Wrap ''load credential schema'' (New ''dial tcp: no network''))),
        empty_world\<lparr>requests := [''https://schema.example/v1'']\<rparr>)"
    using getSchemaLoader_resolution
            [of "parseCredentialOpts example_env []" "[]" empty_world "[]" ?v1 "[]"
                "newDefaultSchemaLoader example_env" _
                "''https://schema.example/v1''" _ _ "default_Client example_env" _ _
                "New ''dial tcp: no network''"]
    by (simp add: parseCredentialOpts_def Let_def newDefaultSchemaLoader_def
        jsonSchema2018Type_def example_env_def empty_world_def)
  from 1 2 3 4 5 show ?thesis by simp
qed


subsection \<open>Helper facts: the keywords of a schema, one by one\<close>

lemma valid_kw_Required:
  "valid_kw fmt n (Required names) j =
     (case j of JObj m \<Rightarrow> list_all (\<lambda>k. map_of m k \<noteq> None) names | _ \<Rightarrow> True)"
  by (subst valid_kw.simps) simp

lemma valid_kw_Properties:
  "valid_kw fmt n (Properties ps) j =
     (case j of
        JObj m \<Rightarrow>
          list_all (\<lambda>(k, s). case map_of m k of
                                None \<Rightarrow> True
                              | Some v \<Rightarrow> valid_schema fmt s v) ps
      | _ \<Rightarrow> True)"
  unfolding valid_schema_def by (subst valid_kw.simps) simp

lemma valid_kw_SType: "valid_kw fmt n (SType t) j = valid_type t j"
  by (subst valid_kw.simps) simp

lemma valid_kw_Items:
  "valid_kw fmt n (Items ss) j =
     (case j of
        JArr xs \<Rightarrow> list_all (\<lambda>(s, x). valid_schema fmt s x) (zip ss xs)
      | _ \<Rightarrow> True)"
  unfolding valid_schema_def by (subst valid_kw.simps) simp

lemma valid_kw_ItemsAll:
  "valid_kw fmt n (ItemsAll s) j =
     (case j of JArr xs \<Rightarrow> list_all (valid_schema fmt s) xs | _ \<Rightarrow> True)"
  unfolding valid_schema_def by (subst valid_kw.simps) simp

lemma valid_kw_AdditionalItems:
  "valid_kw fmt n (AdditionalItems s) j =
     (case j of
        JArr xs \<Rightarrow>
          (case n of None \<Rightarrow> True | Some k \<Rightarrow> list_all (valid_schema fmt s) (drop k xs))
      | _ \<Rightarrow> True)"
  unfolding valid_schema_def by (subst valid_kw.simps) simp

lemma valid_kw_UniqueItems:
  "valid_kw fmt n (UniqueItems u) j =
     (case j of JArr xs \<Rightarrow> (u \<longrightarrow> distinct xs) | _ \<Rightarrow> True)"
  by (subst valid_kw.simps) simp

lemma valid_kw_OneOf:
  "valid_kw fmt n (OneOf ss) j = (length (filter (\<lambda>s. valid_schema fmt s j) ss) = 1)"
  unfolding valid_schema_def by (subst valid_kw.simps) simp

lemma valid_kw_AnyOf:
  "valid_kw fmt n (AnyOf ss) j = (length (filter (\<lambda>s. valid_schema fmt s j) ss) > 0)"
  unfolding valid_schema_def by (subst valid_kw.simps) simp

lemma valid_kw_Pattern:
  "valid_kw fmt n (Pattern p) j = (case j of JStr s \<Rightarrow> MatchString p s | _ \<Rightarrow> True)"
  by (subst valid_kw.simps) simp

lemma valid_kw_Format:
  "valid_kw fmt n (Format f) j = (case j of JStr s \<Rightarrow> fmt f s | _ \<Rightarrow> True)"
  by (subst valid_kw.simps) simp

lemma valid_kw_MinItems:
  "valid_kw fmt n (MinItems k) j = (case j of JArr xs \<Rightarrow> k \<le> length xs | _ \<Rightarrow> True)"
  by (subst valid_kw.simps) simp

lemmas valid_kw_keywords =
  valid_kw_Required valid_kw_Properties valid_kw_SType valid_kw_Items valid_kw_ItemsAll
  valid_kw_AdditionalItems valid_kw_UniqueItems valid_kw_OneOf valid_kw_AnyOf
  valid_kw_Pattern valid_kw_Format valid_kw_MinItems

lemma valid_schema_Nil: "valid_schema fmt [] j = True"
  by (simp add: valid_schema_def)

lemma valid_schema_Cons:
  "valid_schema fmt (k # ks) j = list_all (\<lambda>kw. valid_kw fmt (tuple_len (k # ks)) kw j) (k # ks)"
  by (simp add: valid_schema_def)

subsection \<open>Helper facts: the minimal credential through the stages of NewCredential\<close>

lemma MatchString_vcType: "MatchString ''^VerifiableCredential$'' ''VerifiableCredential''"
  by (simp add: MatchString_def)

lemma MatchString_baseContext:
  "MatchString ''^https://www.w3.org/2018/credentials/v1$''
     ''https://www.w3.org/2018/credentials/v1''"
  by (simp add: MatchString_def)

lemma type_property_string:
  "valid_schema fmt
     [OneOf [[SType ''array'', Items [[SType ''string'', Pattern ''^VerifiableCredential$'']]],
             [SType ''string'', Pattern ''^VerifiableCredential$'']],
      AdditionalItems [SType ''string''],
      MinItems 2]
     (JStr ''VerifiableCredential'')"
  by (simp add: valid_schema_Cons valid_schema_Nil valid_kw_keywords valid_type_def
      MatchString_vcType)

lemma type_property_array:
  "\<not> valid_schema fmt
     [OneOf [[SType ''array'', Items [[SType ''string'', Pattern ''^VerifiableCredential$'']]],
             [SType ''string'', Pattern ''^VerifiableCredential$'']],
      AdditionalItems [SType ''string''],
      MinItems 2]
     (JArr [JStr ''VerifiableCredential''])"
  by (simp add: valid_schema_Cons valid_schema_Nil valid_kw_keywords valid_type_def)

lemma context_property:
  "valid_schema fmt
     [SType ''array'',
      Items [[SType ''string'', Pattern ''^https://www.w3.org/2018/credentials/v1$'']],
      UniqueItems True,
      AdditionalItems [OneOf [[SType ''object''], [SType ''string'']]]]
     (JArr [JStr ''https://www.w3.org/2018/credentials/v1''])"
  by (simp add: valid_schema_Cons valid_schema_Nil valid_kw_keywords valid_type_def
      MatchString_baseContext)

lemma issuer_property:
  "fmt ''uri'' ''did:example:123'' \<Longrightarrow>
   valid_schema fmt
     [AnyOf [[SType ''string'', Format ''uri''],
             [SType ''object'', Required [''id''], Properties [(''id'', [SType ''string''])]]]]
     (JStr ''did:example:123'')"
  by (simp add: valid_schema_Cons valid_schema_Nil valid_kw_keywords valid_type_def)

lemma valid_defaultSchema_minimal:
  assumes "fmt ''uri'' ''did:example:123''" and "fmt ''date-time'' ''2010-01-01T19:23:24Z''"
  shows "valid_schema fmt defaultSchema (minimal_vc ty (JStr ''did:example:123''))
           = valid_schema fmt
               [OneOf [[SType ''array'',
                        Items [[SType ''string'', Pattern ''^VerifiableCredential$'']]],
                       [SType ''string'', Pattern ''^VerifiableCredential$'']],
                AdditionalItems [SType ''string''],
                MinItems 2] ty"
  using assms context_property [of fmt] issuer_property [of fmt]
  by (simp add: defaultSchema_def minimal_vc_def valid_schema_Cons [of _ "Required x" for x]
      valid_kw_Required valid_kw_Properties
      valid_schema_Cons [of _ "SType x" for x] valid_schema_Cons [of _ "AnyOf x" for x]
      valid_schema_Nil valid_kw_SType valid_kw_AnyOf valid_kw_Format valid_type_def)

lemma rawCredential_UnmarshalJSON_minimal:
  assumes "json_Parse env vcData = Inr (minimal_vc ty iss)"
    and "time_Parse env ''2010-01-01T19:23:24Z'' = Inr t"
  shows "rawCredential_UnmarshalJSON env vcData
           = Inr ((minimal_raw ty iss)\<lparr>raw_Issued := Some t\<rparr>)"
  using assms
  by (simp add: rawCredential_UnmarshalJSON_def bind_err_def minimal_vc_def minimal_raw_def
      member_def string_field_def time_field_def proof_field_def typedID_field_def
      typedIDs_field_def evidence_field_def customFields_of_def reservedNames_def)

lemma parseCredentialOpts_Nil:
  "parseCredentialOpts env [] =
     \<lparr>issuerPublicKeyFetcher = None, disabledCustomSchema = False,
      schemaLoader = Some (newDefaultSchemaLoader env),
      modelValidationMode = jsonldValidation,
      allowedCustomContexts = {}, allowedCustomTypes = {}\<rparr>"
  by (simp add: parseCredentialOpts_def Let_def)

lemma validate_no_schemas:
  assumes "json_Parse env vcData = Inr doc"
  shows "validate env vcData [] opts w =
           (if valid_schema (IsFormat env) defaultSchema doc then (None, w)
            else (Some (New ''verifiable credential is not valid''), w))"
  using assms
  by (simp add: validate_def getSchemaLoader_def
      gojsonschema_Validate_def defaultSchemaLoader_def bind_err_def)

lemma newCredential_minimal_raw_at:
  "newCredential ((minimal_raw (JStr ''VerifiableCredential'') (JStr ''did:example:123''))
                    \<lparr>raw_Issued := Some t\<rparr>) []
     = Inr (minimal_credential\<lparr>vc_Issued := Some t\<rparr>)"
  by (simp add: newCredential_def minimal_raw_def minimal_credential_def decodeType_def
      decodeContext_def decodeIssuer_def baseContext_def)

lemma NewCredential_minimal_string:
  assumes "\<not> isJWS env vcData" and "\<not> isJWTUnsecured env vcData"
    and "json_Parse env vcData
           = Inr (minimal_vc (JStr ''VerifiableCredential'') (JStr ''did:example:123''))"
    and "time_Parse env ''2010-01-01T19:23:24Z'' = Inr t"
    and "IsFormat env ''uri'' ''did:example:123''"
    and "IsFormat env ''date-time'' ''2010-01-01T19:23:24Z''"
  shows "NewCredential env vcData [] w
           = (Inr (minimal_credential\<lparr>vc_Issued := Some t\<rparr>, vcData), w)"
proof -
  have v: "valid_schema (IsFormat env) defaultSchema
             (minimal_vc (JStr ''VerifiableCredential'') (JStr ''did:example:123''))"
    by (simp add: valid_defaultSchema_minimal [OF assms(5,6)] type_property_string)
  have d: "decodeRaw env vcData None = Inr vcData"
    using assms(1,2) by (simp add: decodeRaw_def)
  show ?thesis
    by (simp add: NewCredential_def Let_def d
        rawCredential_UnmarshalJSON_minimal [OF assms(3,4)]
        validate_no_schemas [OF assms(3)] v newCredential_minimal_raw_at
        postValidateCredential_def parseCredentialOpts_Nil)
      (simp add: minimal_raw_def)
qed

lemma NewCredential_minimal_array:
  assumes "\<not> isJWS env vcData" and "\<not> isJWTUnsecured env vcData"
    and "json_Parse env vcData
           = Inr (minimal_vc (JArr [JStr ''VerifiableCredential'']) (JStr ''did:example:123''))"
    and "time_Parse env ''2010-01-01T19:23:24Z'' = Inr t"
    and "IsFormat env ''uri'' ''did:example:123''"
    and "IsFormat env ''date-time'' ''2010-01-01T19:23:24Z''"
  shows "NewCredential env vcData [] w
           = (Inl (Wrap ''validate new credential''
                     (New ''verifiable credential is not valid'')), w)"
proof -
  have v: "\<not> valid_schema (IsFormat env) defaultSchema
             (minimal_vc (JArr [JStr ''VerifiableCredential'']) (JStr ''did:example:123''))"
    by (simp add: valid_defaultSchema_minimal [OF assms(5,6)] type_property_array)
  have d: "decodeRaw env vcData None = Inr vcData"
    using assms(1,2) by (simp add: decodeRaw_def)
  show ?thesis
    by (simp add: NewCredential_def Let_def d parseCredentialOpts_Nil
        rawCredential_UnmarshalJSON_minimal [OF assms(3,4)]
        validate_no_schemas [OF assms(3)] v)
      (simp add: minimal_raw_def)
qed

lemma subjectID_minimal:
  "subjectID env (vc_Subject (minimal_credential\<lparr>vc_Issued := x\<rparr>)) = Inr ''did:example:abc''"
  by (simp add: subjectID_def subjectIDFn_def minimal_credential_def)

lemma example_env_reads:
  "\<not> isJWS example_env vc_text_type_array"
  "\<not> isJWS example_env vc_text_type_string"
  "\<not> isJWS example_env vc_text_issuer_object"
  "\<not> isJWTUnsecured example_env b"
  "json_Parse example_env vc_text_type_array
     = Inr (minimal_vc (JArr [JStr ''VerifiableCredential'']) (JStr ''did:example:123''))"
  "json_Parse example_env vc_text_type_string
     = Inr (minimal_vc (JStr ''VerifiableCredential'') (JStr ''did:example:123''))"
  "json_Parse example_env vc_text_issuer_object
     = Inr (minimal_vc (JStr ''VerifiableCredential'') (JObj [(''id'', JStr ''did:example:123'')]))"
  "time_Parse example_env ''2010-01-01T19:23:24Z'' = Inr 1262373804000000000"
  "IsFormat example_env ''uri'' ''did:example:123''"
  "IsFormat example_env ''date-time'' ''2010-01-01T19:23:24Z''"
  by (simp_all add: example_env_def example_documents_def example_jws_def
      vc_text_type_array_def vc_text_type_string_def vc_text_issuer_object_def)

subsection \<open>The minimal credential\<close>

text \<open>
  C3, as the code has it. For the minimal input with
  \<open>@context = ["https://www.w3.org/2018/credentials/v1"]\<close>,
  \<open>issuer = "did:example:123"\<close>, \<open>issuanceDate = "2010-01-01T19:23:24Z"\<close> and
  \<open>credentialSubject = {"id": "did:example:abc"}\<close>, read in an environment that
  takes it for JSON and accepts its time stamp and its issuer URI, \<open>NewCredential\<close>
  with no option, hence under the embedded schema: with \<open>type\<close> given as the string
  \<open>"VerifiableCredential"\<close> it succeeds and returns the input bytes and the
  credential with \<open>issuer.id = "did:example:123"\<close>, an empty \<open>issuer.name\<close> and the
  subject id \<open>"did:example:abc"\<close>; with \<open>type\<close> given as the array of the one
  element \<open>"VerifiableCredential"\<close> it fails in the validate stage, since the
  embedded schema asks a \<open>type\<close> array for at least two items.
\<close>

theorem NewCredential_minimal:
  assumes "\<not> isJWS env vcData" and "\<not> isJWTUnsecured env vcData"
    and "time_Parse env ''2010-01-01T19:23:24Z'' = Inr t"
    and "IsFormat env ''uri'' ''did:example:123''"
    and "IsFormat env ''date-time'' ''2010-01-01T19:23:24Z''"
  shows "(json_Parse env vcData
            = Inr (minimal_vc (JStr ''VerifiableCredential'') (JStr ''did:example:123''))
          \<longrightarrow> NewCredential env vcData [] w
                = (Inr (minimal_credential\<lparr>vc_Issued := Some t\<rparr>, vcData), w)
              \<and> Issuer_ID (vc_Issuer (minimal_credential\<lparr>vc_Issued := Some t\<rparr>))
                  = ''did:example:123''
              \<and> Issuer_Name (vc_Issuer (minimal_credential\<lparr>vc_Issued := Some t\<rparr>)) = ''''
              \<and> subjectID env (vc_Subject (minimal_credential\<lparr>vc_Issued := Some t\<rparr>))
                  = Inr ''did:example:abc'')
       \<and> (json_Parse env vcData
            = Inr (minimal_vc (JArr [JStr ''VerifiableCredential'']) (JStr ''did:example:123''))
          \<longrightarrow> NewCredential env vcData [] w
                = (Inl (Wrap ''validate new credential''
                          (New ''verifiable credential is not valid'')), w))"
proof (intro conjI impI)
  assume p: "json_Parse env vcData
            = Inr (minimal_vc (JStr ''VerifiableCredential'') (JStr ''did:example:123''))"
  show "NewCredential env vcData [] w
          = (Inr (minimal_credential\<lparr>vc_Issued := Some t\<rparr>, vcData), w)"
    by (rule NewCredential_minimal_string [OF assms(1,2) p assms(3,4,5)])
  show "Issuer_ID (vc_Issuer (minimal_credential\<lparr>vc_Issued := Some t\<rparr>)) = ''did:example:123''"
    by (simp add: minimal_credential_def)
  show "Issuer_Name (vc_Issuer (minimal_credential\<lparr>vc_Issued := Some t\<rparr>)) = ''''"
    by (simp add: minimal_credential_def)
  show "subjectID env (vc_Subject (minimal_credential\<lparr>vc_Issued := Some t\<rparr>))
          = Inr ''did:example:abc''"
    by (rule subjectID_minimal)
next
  assume p: "json_Parse env vcData
            = Inr (minimal_vc (JArr [JStr ''VerifiableCredential'']) (JStr ''did:example:123''))"
  show "NewCredential env vcData [] w
          = (Inl (Wrap ''validate new credential''
                    (New ''verifiable credential is not valid'')), w)"
    by (rule NewCredential_minimal_array [OF assms(1,2) p assms(3,4,5)])
qed

theorem NewCredential_minimal_witness:
  "NewCredential example_env vc_text_type_string [] empty_world
     = (Inr (minimal_credential, vc_text_type_string), empty_world)
   \<and> Issuer_ID (vc_Issuer minimal_credential) = ''did:example:123''
   \<and> Issuer_Name (vc_Issuer minimal_credential) = ''''
   \<and> subjectID example_env (vc_Subject minimal_credential) = Inr ''did:example:abc''"
proof -
  have m: "minimal_credential\<lparr>vc_Issued := Some 1262373804000000000\<rparr> = minimal_credential"
    by (simp add: minimal_credential_def)
  from NewCredential_minimal
         [of example_env vc_text_type_string 1262373804000000000 empty_world,
          OF example_env_reads(2) example_env_reads(4) example_env_reads(8)
             example_env_reads(9) example_env_reads(10)]
  show ?thesis
    by (simp add: m example_env_reads(6))
qed

text \<open>
  The claim as the spec states it fails: the minimal input with
  \<open>type = ["VerifiableCredential"]\<close> does not pass the embedded schema.
\<close>

theorem NewCredential_type_array_counterexample:
  "json_Parse example_env vc_text_type_array
     = Inr (minimal_vc (JArr [JStr ''VerifiableCredential'']) (JStr ''did:example:123''))
   \<and> NewCredential example_env vc_text_type_array [] empty_world
     = (Inl (Wrap ''validate new credential'' (New ''verifiable credential is not valid'')),
        empty_world)"
  using NewCredential_minimal_array
          [of example_env vc_text_type_array 1262373804000000000 empty_world,
           OF example_env_reads(1) example_env_reads(4) example_env_reads(5)
              example_env_reads(8) example_env_reads(9) example_env_reads(10)]
  by (simp add: example_env_reads(5))


subsection \<open>Helper facts: what the codec keeps\<close>

lemma rawCredential_UnmarshalJSON_Inr:
  assumes "rawCredential_UnmarshalJSON env data = Inr r"
    and "json_Parse env data = Inr (JObj d)"
  shows "raw_Context r = member d ''@context''"
    and "raw_Type r = member d ''type''"
    and "raw_Issuer r = member d ''issuer''"
    and "raw_Subject r = Value (member d ''credentialSubject'')"
    and "raw_CustomFields r = customFields_of d"
    and "raw_Evidence r = evidence_field d ''evidence''"
    and "proof_field d ''proof'' = Inr (raw_Proof r)"
  using assms
  by (auto simp add: rawCredential_UnmarshalJSON_def bind_err_def split: sum.splits)

lemma map_of_emit:
  "map_of (emit k v @ rest) k' = (if k' = k \<and> v \<noteq> None then v else map_of rest k')"
  by (cases v) (simp_all add: emit_def)

lemma map_of_emit_last:
  "map_of (emit k v) k' = (if k' = k then v else None)"
  by (cases v) (simp_all add: emit_def)

lemma map_of_customFields_of:
  "map_of (customFields_of m) k = (if k \<in> set reservedNames then None else map_of m k)"
  unfolding customFields_of_def by (induction m) auto

lemma customFields_of_reserved:
  "map_of (customFields_of m) ''@context'' = None"
  "map_of (customFields_of m) ''type'' = None"
  "map_of (customFields_of m) ''credentialSubject'' = None"
  "map_of (customFields_of m) ''proof'' = None"
  "map_of (customFields_of m) ''issuer'' = None"
  "map_of (customFields_of m) ''credentialSchema'' = None"
  "map_of (customFields_of m) ''evidence'' = None"
  by (simp_all add: map_of_customFields_of reservedNames_def)

lemma mapped_fields_not_reserved:
  "k \<notin> set reservedNames \<Longrightarrow> map_of (mapped_fields env rc) k = None"
  by (simp add: mapped_fields_def reservedNames_def map_of_emit map_of_emit_last
      del: map_of_append)

lemma marshalled_custom:
  "k \<notin> set reservedNames \<Longrightarrow>
     map_of (mapped_fields env rc @ customFields_of (customFields_of d)) k = map_of d k"
  by (simp add: map_of_append mapped_fields_not_reserved map_of_customFields_of map_add_def)

lemma marshalled_member:
  "member (mapped_fields env rc @ customFields_of cf) ''@context'' = raw_Context rc"
  "member (mapped_fields env rc @ customFields_of cf) ''type'' = raw_Type rc"
  "member (mapped_fields env rc @ customFields_of cf) ''issuer'' = raw_Issuer rc"
  "member (mapped_fields env rc @ customFields_of cf) ''credentialSchema'' = raw_Schema rc"
  "member (mapped_fields env rc @ customFields_of cf) ''credentialSubject''
     = Subject_json (raw_Subject rc)"
  "member (mapped_fields env rc @ customFields_of cf) ''proof''
     = (case raw_Proof rc of None \<Rightarrow> JNull | Some p \<Rightarrow> JObj p)"
  "member (mapped_fields env rc @ customFields_of cf) ''evidence''
     = (case raw_Evidence rc of None \<Rightarrow> JNull | Some e \<Rightarrow> e)"
  by (simp_all add: member_def mapped_fields_def map_of_emit customFields_of_reserved
        nonnil_def Subject_json_def del: map_of_append split: option.splits)

lemma typesToSerialize_decodeType:
  assumes "decodeType t = Inr types"
  shows "typesToSerialize types = collapse_single t"
proof (cases t)
  case (JStr s)
  with assms show ?thesis
    by (auto simp add: decodeType_def typesToSerialize_def collapse_single_def)
next
  case (JArr xs)
  with assms have s: "stringSlice xs = Some types" and ne: "xs \<noteq> []"
    by (auto simp add: decodeType_def split: if_splits option.splits)
  from stringSlice_Some [OF s] have m: "map JStr types = xs" .
  show ?thesis
  proof (cases types)
    case Nil
    with m ne show ?thesis by simp
  next
    case (Cons a as)
    with m JArr show ?thesis
      by (cases as) (auto simp add: typesToSerialize_def collapse_single_def)
  qed
qed (use assms in \<open>simp_all add: decodeType_def\<close>)

lemma map_JStr_the_JStr: "map (JStr \<circ> the_JStr) (filter is_JStr xs) = filter is_JStr xs"
proof (induction xs)
  case Nil
  then show ?case by simp
next
  case (Cons x xs)
  then show ?case by (cases x) auto
qed

lemma filter_is_JStr_all: "list_all is_JStr xs \<Longrightarrow> filter is_JStr xs = xs"
  by (induction xs) auto

lemma filter_not_JStr_empty: "(filter (\<lambda>x. \<not> is_JStr x) xs = []) = list_all is_JStr xs"
  by (induction xs) auto

lemma contextToSerialize_decodeContext:
  assumes "decodeContext c = Inr (ctx, custom)"
  shows "contextToSerialize ctx custom =
           (case c of
              JArr cs \<Rightarrow>
                if list_all is_JStr cs then collapse_single (JArr cs)
                else JArr (filter is_JStr cs @ filter (\<lambda>x. \<not> is_JStr x) cs)
            | _ \<Rightarrow> c)"
proof (cases c)
  case (JStr s)
  with assms show ?thesis
    by (auto simp add: decodeContext_def contextToSerialize_def split: if_splits)
next
  case (JArr cs)
  with assms have ctx: "ctx = map the_JStr (filter is_JStr cs)"
    and custom: "custom = filter (\<lambda>x. \<not> is_JStr x) cs"
    by (auto simp add: decodeContext_def Let_def split: if_splits)
  have m: "map JStr ctx = filter is_JStr cs"
    by (simp add: ctx map_JStr_the_JStr)
  show ?thesis
  proof (cases "list_all is_JStr cs")
    case True
    then have e: "custom = []" and f: "map JStr ctx = cs"
      using custom m by (simp_all add: filter_not_JStr_empty filter_is_JStr_all)
    show ?thesis
    proof (cases ctx)
      case Nil
      with f JArr True e show ?thesis
        by (simp add: contextToSerialize_def collapse_single_def)
    next
      case (Cons a as)
      with f JArr True e show ?thesis
        by (cases as) (auto simp add: contextToSerialize_def collapse_single_def)
    qed
  next
    case False
    then have "custom \<noteq> []"
      using custom by (simp add: filter_not_JStr_empty)
    with False JArr m custom show ?thesis
      by (simp add: contextToSerialize_def)
  qed
qed (use assms in \<open>simp_all add: decodeContext_def\<close>)

lemma rawCredential_UnmarshalJSON_fields:
  assumes "rawCredential_UnmarshalJSON env data = Inr r"
    and "json_Parse env data = Inr (JObj d)"
  shows "string_field d ''id'' = Inr (raw_ID r)"
    and "time_field env d ''issuanceDate'' = Inr (raw_Issued r)"
    and "time_field env d ''expirationDate'' = Inr (raw_Expired r)"
    and "typedID_field d ''credentialStatus'' = Inr (raw_Status r)"
    and "typedIDs_field d ''termsOfUse'' = Inr (raw_TermsOfUse r)"
    and "typedID_field d ''refreshService'' = Inr (raw_RefreshService r)"
    and "raw_Schema r = member d ''credentialSchema''"
  using assms
  by (auto simp add: rawCredential_UnmarshalJSON_def bind_err_def split: sum.splits)

lemma TypedID_json_id_and_type:
  assumes "TypedID_UnmarshalJSON j = Inr t"
  shows "TypedID_json t = id_and_type j"
proof (cases j)
  case (JObj m)
  with assms obtain id' where i: "string_field m ''id'' = Inr id'"
    by (auto simp add: TypedID_UnmarshalJSON_def bind_err_def split: sum.splits)
  from i have k: "(if id' = '''' then None else Some (JStr id'))
                    = (if member m ''id'' = JStr '''' then None else nonnil (member m ''id''))"
    by (auto simp add: string_field_def nonnil_def split: json.splits)
  from assms JObj i have t: "TypedID_ID t = id'" "TypedID_Type t = member m ''type''"
    by (auto simp add: TypedID_UnmarshalJSON_def bind_err_def split: json.splits if_splits)
  show ?thesis
    using k
    by (auto simp add: JObj TypedID_json_def id_and_type_def t emit_def nonnil_def
        split: if_splits)
qed (use assms in \<open>simp_all add: TypedID_UnmarshalJSON_def\<close>)

lemma TypedIDs_json_id_and_type:
  "TypedIDs_UnmarshalJSON js = Inr ts \<Longrightarrow> map TypedID_json ts = map id_and_type js"
proof (induction js arbitrary: ts)
  case Nil
  then show ?case by simp
next
  case (Cons j js)
  then show ?case
    by (auto simp add: bind_err_def TypedID_json_id_and_type split: sum.splits)
qed

lemma typedID_field_reemit:
  assumes "typedID_field m k = Inr x"
  shows "(case x of None \<Rightarrow> JNull | Some t \<Rightarrow> TypedID_json t) = id_and_type (member m k)"
proof (cases "member m k = JNull")
  case True
  with assms show ?thesis
    by (simp add: typedID_field_def id_and_type_def)
next
  case False
  with assms obtain t where "TypedID_UnmarshalJSON (member m k) = Inr t" "x = Some t"
    by (cases "member m k")
       (auto simp add: typedID_field_def bind_err_def split: sum.splits)
  then show ?thesis
    by (simp add: TypedID_json_id_and_type)
qed

lemma typedIDs_field_reemit:
  assumes "typedIDs_field m k = Inr ts"
  shows "(if ts = [] then JNull else JArr (map TypedID_json ts))
           = (case member m k of
                JArr js \<Rightarrow> if js = [] then JNull else JArr (map id_and_type js)
              | j \<Rightarrow> j)"
proof (cases "member m k")
  case JNull
  with assms show ?thesis by (simp add: typedIDs_field_def)
next
  case (JArr js)
  with assms have u: "TypedIDs_UnmarshalJSON js = Inr ts"
    by (simp add: typedIDs_field_def)
  note e = TypedIDs_json_id_and_type [OF u]
  from e have "length ts = length js"
    by (metis length_map)
  then have "(ts = []) = (js = [])" by auto
  with e JArr show ?thesis by simp
qed (use assms in \<open>simp_all add: typedIDs_field_def\<close>)

lemma loadCredentialSchemas_reemit:
  assumes "json_Parse env data = Inr (JObj d)"
    and "member d ''credentialSchema'' \<noteq> JNull"
    and "loadCredentialSchemas env data = Inr schemas"
  shows "JArr (map TypedID_json schemas)
           = (case member d ''credentialSchema'' of
                JArr js \<Rightarrow> JArr (map id_and_type js)
              | j \<Rightarrow> JArr [id_and_type j])"
proof -
  let ?j = "member d ''credentialSchema''"
  from assms(3) have dc: "decodeCredentialSchema env data = Inr schemas"
    by (simp add: loadCredentialSchemas_def split: sum.splits)
  show ?thesis
  proof (cases "TypedID_UnmarshalJSON ?j")
    case (Inr single)
    then have o: "\<exists>m. ?j = JObj m"
      by (cases ?j) (simp_all add: TypedID_UnmarshalJSON_def)
    from dc Inr assms(1,2) have "schemas = [single]"
      by (cases ?j) (auto simp add: decodeCredentialSchema_def)
    with o TypedID_json_id_and_type [OF Inr] show ?thesis
      by auto
  next
    case (Inl err)
    with dc assms(1,2) have m: "typedIDs_field d ''credentialSchema'' = Inr schemas"
      by (cases ?j) (auto simp add: decodeCredentialSchema_def split: sum.splits)
    then obtain js where a: "?j = JArr js" and u: "TypedIDs_UnmarshalJSON js = Inr schemas"
      using assms(2) by (cases ?j) (auto simp add: typedIDs_field_def)
    from TypedIDs_json_id_and_type [OF u] a show ?thesis
      by simp
  qed
qed

lemma time_field_reprinted:
  assumes "time_field env m k = Inr x"
  shows "(case x of None \<Rightarrow> JNull | Some t \<Rightarrow> JStr (time_Format env t))
           = reprinted env (member m k)"
  using assms
  by (cases "member m k")
     (auto simp add: time_field_def reprinted_def bind_err_def split: sum.splits)

lemma string_field_reemit:
  assumes "string_field m k = Inr s"
  shows "(if s = '''' then JNull else JStr s)
           = (if member m k = JStr '''' then JNull else member m k)"
  using assms
  by (cases "member m k") (auto simp add: string_field_def)

lemma customFields_of_reserved_more:
  "map_of (customFields_of m) ''id'' = None"
  "map_of (customFields_of m) ''issuanceDate'' = None"
  "map_of (customFields_of m) ''expirationDate'' = None"
  "map_of (customFields_of m) ''credentialStatus'' = None"
  "map_of (customFields_of m) ''termsOfUse'' = None"
  "map_of (customFields_of m) ''refreshService'' = None"
  by (simp_all add: map_of_customFields_of reservedNames_def)

lemma marshalled_member_more:
  "member (mapped_fields env rc @ customFields_of cf) ''id''
     = (if raw_ID rc = '''' then JNull else JStr (raw_ID rc))"
  "member (mapped_fields env rc @ customFields_of cf) ''issuanceDate''
     = (case raw_Issued rc of None \<Rightarrow> JNull | Some t \<Rightarrow> JStr (time_Format env t))"
  "member (mapped_fields env rc @ customFields_of cf) ''expirationDate''
     = (case raw_Expired rc of None \<Rightarrow> JNull | Some t \<Rightarrow> JStr (time_Format env t))"
  "member (mapped_fields env rc @ customFields_of cf) ''credentialStatus''
     = (case raw_Status rc of None \<Rightarrow> JNull | Some t \<Rightarrow> TypedID_json t)"
  "member (mapped_fields env rc @ customFields_of cf) ''termsOfUse''
     = (if raw_TermsOfUse rc = [] then JNull
        else JArr (map TypedID_json (raw_TermsOfUse rc)))"
  "member (mapped_fields env rc @ customFields_of cf) ''refreshService''
     = (case raw_RefreshService rc of None \<Rightarrow> JNull | Some t \<Rightarrow> TypedID_json t)"
  by (simp_all add: member_def mapped_fields_def map_of_emit customFields_of_reserved_more
        del: map_of_append split: option.splits)

lemma issuer_of_source:
  assumes "decodeIssuer src = Inr iss"
  shows "issuerToSerialize iss =
           (case src of
              JObj m \<Rightarrow>
                if map_of m ''name'' = None \<or> map_of m ''name'' = Some (JStr '''')
                then member m ''id''
                else JObj [(''id'', member m ''id''), (''name'', member m ''name'')]
            | _ \<Rightarrow> src)"
proof (cases src)
  case (JStr s)
  with assms show ?thesis
    by (auto simp add: decodeIssuer_def issuerToSerialize_def)
next
  case (JObj m)
  with assms have d: "decodeIssuer (JObj m) = Inr iss" by simp
  note f = decodeIssuer_JObj [OF d]
  from f(2) have i: "member m ''id'' = JStr (Issuer_ID iss)"
    by (simp add: member_def)
  show ?thesis
  proof (cases "Issuer_Name iss = ''''")
    case True
    with f(4) i JObj show ?thesis
      by (auto simp add: issuerToSerialize_def)
  next
    case False
    from f(3) [OF False] have n: "map_of m ''name'' = Some (JStr (Issuer_Name iss))" .
    with False f(1) i JObj show ?thesis
      by (simp add: issuerToSerialize_def compositeIssuer_json_def member_def)
  qed
qed (use assms in \<open>simp_all add: decodeIssuer_def\<close>)

subsection \<open>The round trip\<close>

text \<open>
  C1, as the code has it. For every document that \<open>NewCredential\<close> accepts, with
  the members \<open>d\<close>, \<open>MarshalJSON\<close> of the resulting credential gives a JSON object
  whose members are those of \<open>d\<close>, name by name, as follows. Every member of \<open>d\<close>
  that is not a reserved name appears verbatim (carried through \<open>CustomFields\<close>),
  and no other member of a name that is not reserved appears. \<open>type\<close> is the
  \<open>type\<close> of \<open>d\<close> with a single-element array collapsed to its element;
  \<open>@context\<close> is the \<open>@context\<close> of \<open>d\<close> with a single-element array of a
  string collapsed (and, when it holds elements that are no strings, the array of its
  strings followed by those elements). \<open>credentialSubject\<close>, \<open>proof\<close> and
  \<open>evidence\<close> are those of \<open>d\<close>; \<open>id\<close> is that of \<open>d\<close>, an empty one left
  out; \<open>issuanceDate\<close> and \<open>expirationDate\<close> are the instants read from \<open>d\<close>,
  printed again; \<open>credentialStatus\<close>, \<open>refreshService\<close> and the elements of
  \<open>termsOfUse\<close> are those of \<open>d\<close> with their \<open>id\<close> and \<open>type\<close>, an empty
  \<open>termsOfUse\<close> left out. The issuer is that of \<open>d\<close> when \<open>d\<close> gave a string; when
  \<open>d\<close> gave an object it is the bare \<open>id\<close> of the object if that has no \<open>name\<close>
  (or an empty one), and the object of its \<open>id\<close> and \<open>name\<close> otherwise.
  \<open>credentialSchema\<close> is always emitted, as an array of objects of \<open>id\<close> and
  \<open>type\<close>: the empty array when \<open>d\<close> has none, the array of one element when \<open>d\<close>
  gave one object.
\<close>

theorem reemit_roundtrip:
  assumes "NewCredential env vcData opts w = (Inr (vc, decoded), w')"
    and "json_Parse env decoded = Inr (JObj d)"
  shows "\<exists>out. MarshalJSON env vc = Inr (JObj out)
     \<and> (\<forall>k. k \<notin> set reservedNames \<longrightarrow> map_of out k = map_of d k)
     \<and> member out ''type'' = collapse_single (member d ''type'')
     \<and> member out ''@context'' =
         (case member d ''@context'' of
            JArr cs \<Rightarrow>
              if list_all is_JStr cs then collapse_single (JArr cs)
              else JArr (filter is_JStr cs @ filter (\<lambda>x. \<not> is_JStr x) cs)
          | c \<Rightarrow> c)
     \<and> member out ''issuer'' =
         (case member d ''issuer'' of
            JObj m \<Rightarrow>
              if map_of m ''name'' = None \<or> map_of m ''name'' = Some (JStr '''')
              then member m ''id''
              else JObj [(''id'', member m ''id''), (''name'', member m ''name'')]
          | s \<Rightarrow> s)
     \<and> member out ''credentialSchema'' =
         (case member d ''credentialSchema'' of
            JNull \<Rightarrow> JArr []
          | JArr js \<Rightarrow> JArr (map id_and_type js)
          | j \<Rightarrow> JArr [id_and_type j])
     \<and> member out ''credentialSubject'' = member d ''credentialSubject''
     \<and> member out ''proof'' = member d ''proof''
     \<and> member out ''evidence'' = member d ''evidence''
     \<and> member out ''id'' = (if member d ''id'' = JStr '''' then JNull else member d ''id'')
     \<and> member out ''issuanceDate'' = reprinted env (member d ''issuanceDate'')
     \<and> member out ''expirationDate'' = reprinted env (member d ''expirationDate'')
     \<and> member out ''credentialStatus'' = id_and_type (member d ''credentialStatus'')
     \<and> member out ''refreshService'' = id_and_type (member d ''refreshService'')
     \<and> member out ''termsOfUse'' =
         (case member d ''termsOfUse'' of
            JArr js \<Rightarrow> if js = [] then JNull else JArr (map id_and_type js)
          | j \<Rightarrow> j)"
proof -
  from NewCredential_stages [OF assms(1)] obtain r
    where u: "rawCredential_UnmarshalJSON env decoded = Inr r"
      and n: "newCredential r (vc_Schemas vc) = Inr vc"
      and s: "if raw_Schema r \<noteq> JNull
              then loadCredentialSchemas env decoded = Inr (vc_Schemas vc)
              else vc_Schemas vc = []"
    by blast
  note ur = rawCredential_UnmarshalJSON_Inr [OF u assms(2)]
  note uf = rawCredential_UnmarshalJSON_fields [OF u assms(2)]
  note nr = newCredential_Inr [OF n]
  let ?out = "mapped_fields env (raw vc) @ customFields_of (raw_CustomFields (raw vc))"
  have m: "MarshalJSON env vc = Inr (JObj ?out)"
    by (simp add: MarshalJSON_def rawCredential_MarshalJSON_def)
  have cf: "raw_CustomFields (raw vc) = customFields_of d"
    by (simp add: raw_def nr(14) ur(5))
  have 1: "\<forall>k. k \<notin> set reservedNames \<longrightarrow> map_of ?out k = map_of d k"
    unfolding cf by (intro allI impI marshalled_custom)
  have 2: "member ?out ''type'' = collapse_single (member d ''type'')"
    using typesToSerialize_decodeType [OF nr(1)]
    by (simp add: marshalled_member raw_def ur(2))
  have 3: "member ?out ''@context'' =
         (case member d ''@context'' of
            JArr cs \<Rightarrow>
              if list_all is_JStr cs then collapse_single (JArr cs)
              else JArr (filter is_JStr cs @ filter (\<lambda>x. \<not> is_JStr x) cs)
          | c \<Rightarrow> c)"
    using contextToSerialize_decodeContext [OF nr(3)]
    by (simp add: marshalled_member raw_def ur(1) split: json.splits)
  have 4: "member ?out ''issuer'' =
         (case member d ''issuer'' of
            JObj m \<Rightarrow>
              if map_of m ''name'' = None \<or> map_of m ''name'' = Some (JStr '''')
              then member m ''id''
              else JObj [(''id'', member m ''id''), (''name'', member m ''name'')]
          | s \<Rightarrow> s)"
    using issuer_of_source [OF nr(2)]
    by (simp add: marshalled_member raw_def ur(3) split: json.splits)
  have 5: "member ?out ''credentialSchema'' =
         (case member d ''credentialSchema'' of
            JNull \<Rightarrow> JArr []
          | JArr js \<Rightarrow> JArr (map id_and_type js)
          | j \<Rightarrow> JArr [id_and_type j])"
  proof (cases "member d ''credentialSchema'' = JNull")
    case True
    with s uf(7) show ?thesis
      by (simp add: marshalled_member raw_def)
  next
    case False
    with s uf(7) have l: "loadCredentialSchemas env decoded = Inr (vc_Schemas vc)"
      by simp
    from loadCredentialSchemas_reemit [OF assms(2) False l] False show ?thesis
      by (simp add: marshalled_member raw_def split: json.splits)
  qed
  have 6: "member ?out ''credentialSubject'' = member d ''credentialSubject''"
    by (simp add: marshalled_member raw_def nr(5) ur(4) Subject_json_def)
  have 7: "member ?out ''proof'' = member d ''proof''"
  proof -
    from ur(7) have "(member d ''proof'' = JNull \<and> raw_Proof r = None)
        \<or> (\<exists>p. member d ''proof'' = JObj p \<and> raw_Proof r = Some p)"
      by (auto simp add: proof_field_def split: json.splits)
    then show ?thesis
      by (auto simp add: marshalled_member raw_def nr(8))
  qed
  have 8: "member ?out ''evidence'' = member d ''evidence''"
    by (auto simp add: marshalled_member raw_def nr(11) ur(6) evidence_field_def
        split: json.splits option.splits)
  have 9: "member ?out ''id'' = (if member d ''id'' = JStr '''' then JNull else member d ''id'')"
  proof -
    have "member ?out ''id'' = (if raw_ID r = '''' then JNull else JStr (raw_ID r))"
      by (simp add: marshalled_member_more raw_def nr(4))
    then show ?thesis
      using string_field_reemit [OF uf(1)] by (rule trans)
  qed
  have 10: "member ?out ''issuanceDate'' = reprinted env (member d ''issuanceDate'')"
  proof -
    have "member ?out ''issuanceDate''
            = (case raw_Issued r of None \<Rightarrow> JNull | Some t \<Rightarrow> JStr (time_Format env t))"
      by (simp add: marshalled_member_more raw_def nr(6))
    then show ?thesis
      using time_field_reprinted [OF uf(2)] by (rule trans)
  qed
  have 11: "member ?out ''expirationDate'' = reprinted env (member d ''expirationDate'')"
  proof -
    have "member ?out ''expirationDate''
            = (case raw_Expired r of None \<Rightarrow> JNull | Some t \<Rightarrow> JStr (time_Format env t))"
      by (simp add: marshalled_member_more raw_def nr(7))
    then show ?thesis
      using time_field_reprinted [OF uf(3)] by (rule trans)
  qed
  have 12: "member ?out ''credentialStatus'' = id_and_type (member d ''credentialStatus'')"
  proof -
    have "member ?out ''credentialStatus''
            = (case raw_Status r of None \<Rightarrow> JNull | Some t \<Rightarrow> TypedID_json t)"
      by (simp add: marshalled_member_more raw_def nr(9))
    then show ?thesis
      using typedID_field_reemit [OF uf(4)] by (rule trans)
  qed
  have 13: "member ?out ''refreshService'' = id_and_type (member d ''refreshService'')"
  proof -
    have "member ?out ''refreshService''
            = (case raw_RefreshService r of None \<Rightarrow> JNull | Some t \<Rightarrow> TypedID_json t)"
      by (simp add: marshalled_member_more raw_def nr(13))
    then show ?thesis
      using typedID_field_reemit [OF uf(6)] by (rule trans)
  qed
  have 14: "member ?out ''termsOfUse'' =
         (case member d ''termsOfUse'' of
            JArr js \<Rightarrow> if js = [] then JNull else JArr (map id_and_type js)
          | j \<Rightarrow> j)"
  proof -
    have "member ?out ''termsOfUse''
            = (if raw_TermsOfUse r = [] then JNull
               else JArr (map TypedID_json (raw_TermsOfUse r)))"
      by (simp add: marshalled_member_more raw_def nr(12))
    then show ?thesis
      using typedIDs_field_reemit [OF uf(5)] by (rule trans)
  qed
  show ?thesis
    by (intro exI [of _ ?out] conjI; fact m 1 2 3 4 5 6 7 8 9 10 11 12 13 14)
qed

lemma NewCredential_full:
  "NewCredential more_env vc_text_full [] empty_world
     = (Inr (full_credential, vc_text_full), empty_world)"
  by code_simp

lemma json_Parse_full:
  "json_Parse more_env vc_text_full = Inr (JObj full_members)"
  by code_simp

theorem reemit_roundtrip_witness:
  "NewCredential more_env vc_text_full [] empty_world
     = (Inr (full_credential, vc_text_full), empty_world)
   \<and> json_Parse more_env vc_text_full = Inr (JObj full_members)
   \<and> (\<exists>out. MarshalJSON more_env full_credential = Inr (JObj out)
        \<and> map_of out ''referenceNumber'' = Some (JNum 83294847)
        \<and> member out ''type''
            = JArr [JStr ''VerifiableCredential'', JStr ''UniversityDegreeCredential'']
        \<and> member out ''@context''
            = JArr [JStr ''https://www.w3.org/2018/credentials/v1'',
                    JStr ''https://www.w3.org/2018/credentials/examples/v1'']
        \<and> member out ''issuer''
            = JObj [(''id'', JStr ''did:example:123''), (''name'', JStr ''Acme'')]
        \<and> member out ''credentialSchema''
            = JArr [JObj [(''id'', JStr ''https://example.org/examples/degree.json''),
                          (''type'', JStr ''OtherValidator'')]]
        \<and> member out ''credentialSubject'' = JObj [(''id'', JStr ''did:example:abc'')]
        \<and> member out ''proof'' = JObj [(''type'', JStr ''Ed25519Signature2018'')]
        \<and> member out ''id'' = JStr ''http://example.edu/credentials/1872''
        \<and> member out ''issuanceDate'' = JStr ''2010-01-01T19:23:24Z''
        \<and> member out ''expirationDate'' = JStr ''2020-01-01T19:23:24Z''
        \<and> member out ''credentialStatus''
            = JObj [(''id'', JStr ''https://example.edu/status/24''),
                    (''type'', JStr ''CredentialStatusList2017'')]
        \<and> member out ''refreshService''
            = JObj [(''id'', JStr ''https://example.edu/refresh/3732''),
                    (''type'', JStr ''ManualRefreshService2018'')]
        \<and> member out ''termsOfUse''
            = JArr [JObj [(''id'', JStr ''http://example.com/policies/credential/4''),
                          (''type'', JStr ''IssuerPolicy'')]])"
proof -
  from reemit_roundtrip [OF NewCredential_full json_Parse_full]
  obtain out where o: "MarshalJSON more_env full_credential = Inr (JObj out)"
    and c: "\<forall>k. k \<notin> set reservedNames \<longrightarrow> map_of out k = map_of full_members k"
    and t: "member out ''type'' = collapse_single (member full_members ''type'')"
    and x: "member out ''@context'' =
         (case member full_members ''@context'' of
            JArr cs \<Rightarrow>
              if list_all is_JStr cs then collapse_single (JArr cs)
              else JArr (filter is_JStr cs @ filter (\<lambda>x. \<not> is_JStr x) cs)
          | c \<Rightarrow> c)"
    and i: "member out ''issuer'' =
         (case member full_members ''issuer'' of
            JObj m \<Rightarrow>
              if map_of m ''name'' = None \<or> map_of m ''name'' = Some (JStr '''')
              then member m ''id''
              else JObj [(''id'', member m ''id''), (''name'', member m ''name'')]
          | s \<Rightarrow> s)"
    and sc: "member out ''credentialSchema'' =
         (case member full_members ''credentialSchema'' of
            JNull \<Rightarrow> JArr []
          | JArr js \<Rightarrow> JArr (map id_and_type js)
          | j \<Rightarrow> JArr [id_and_type j])"
    and s: "member out ''credentialSubject'' = member full_members ''credentialSubject''"
    and p: "member out ''proof'' = member full_members ''proof''"
    and e: "member out ''evidence'' = member full_members ''evidence''"
    and d: "member out ''id''
              = (if member full_members ''id'' = JStr '''' then JNull
                 else member full_members ''id'')"
    and t1: "member out ''issuanceDate'' = reprinted more_env (member full_members ''issuanceDate'')"
    and t2: "member out ''expirationDate''
               = reprinted more_env (member full_members ''expirationDate'')"
    and st: "member out ''credentialStatus'' = id_and_type (member full_members ''credentialStatus'')"
    and rs: "member out ''refreshService'' = id_and_type (member full_members ''refreshService'')"
    and tu: "member out ''termsOfUse'' =
         (case member full_members ''termsOfUse'' of
            JArr js \<Rightarrow> if js = [] then JNull else JArr (map id_and_type js)
          | j \<Rightarrow> j)"
    by (elim exE conjE)
  have r: "''referenceNumber'' \<notin> set reservedNames"
    by (simp add: reservedNames_def)
  have 1: "map_of out ''referenceNumber'' = Some (JNum 83294847)"
    using c r by (simp add: full_members_def)
  have 2: "member out ''type''
            = JArr [JStr ''VerifiableCredential'', JStr ''UniversityDegreeCredential'']"
    unfolding t by (simp add: full_members_def member_def collapse_single_def)
  have 3: "member out ''@context''
            = JArr [JStr ''https://www.w3.org/2018/credentials/v1'',
                    JStr ''https://www.w3.org/2018/credentials/examples/v1'']"
    unfolding x by (simp add: full_members_def member_def collapse_single_def)
  have 4: "member out ''issuer''
            = JObj [(''id'', JStr ''did:example:123''), (''name'', JStr ''Acme'')]"
    unfolding i by (simp add: full_members_def member_def)
  have 5: "member out ''credentialSchema''
            = JArr [JObj [(''id'', JStr ''https://example.org/examples/degree.json''),
                          (''type'', JStr ''OtherValidator'')]]"
    unfolding sc by (simp add: full_members_def member_def id_and_type_def emit_def nonnil_def)
  have 6: "member out ''credentialSubject'' = JObj [(''id'', JStr ''did:example:abc'')]"
    unfolding s by (simp add: full_members_def member_def)
  have 7: "member out ''proof'' = JObj [(''type'', JStr ''Ed25519Signature2018'')]"
    unfolding p by (simp add: full_members_def member_def)
  have 8: "member out ''id'' = JStr ''http://example.edu/credentials/1872''"
    unfolding d by (simp add: full_members_def member_def)
  have 9: "member out ''issuanceDate'' = JStr ''2010-01-01T19:23:24Z''"
    unfolding t1
    by (simp add: full_members_def member_def reprinted_def more_env_def example_env_def)
  have 10: "member out ''expirationDate'' = JStr ''2020-01-01T19:23:24Z''"
    unfolding t2
    by (simp add: full_members_def member_def reprinted_def more_env_def example_env_def)
  have 11: "member out ''credentialStatus''
            = JObj [(''id'', JStr ''https://example.edu/status/24''),
                    (''type'', JStr ''CredentialStatusList2017'')]"
    unfolding st by (simp add: full_members_def member_def id_and_type_def emit_def nonnil_def)
  have 12: "member out ''refreshService''
            = JObj [(''id'', JStr ''https://example.edu/refresh/3732''),
                    (''type'', JStr ''ManualRefreshService2018'')]"
    unfolding rs by (simp add: full_members_def member_def id_and_type_def emit_def nonnil_def)
  have 13: "member out ''termsOfUse''
            = JArr [JObj [(''id'', JStr ''http://example.com/policies/credential/4''),
                          (''type'', JStr ''IssuerPolicy'')]]"
    unfolding tu by (simp add: full_members_def member_def id_and_type_def emit_def nonnil_def)
  show ?thesis
    by (intro conjI exI [of _ out]; fact NewCredential_full json_Parse_full o 1 2 3 4 5 6 7 8 9 10 11 12 13)
qed

text \<open>
  The claim as the spec states it fails: the document whose issuer is the object
  \<open>{"id": "did:example:123"}\<close> is accepted, and re-emitted with the issuer as a bare
  string (and with an empty \<open>credentialSchema\<close> array that the document does not
  have); neither is a collapse of a single-element array.
\<close>

theorem reemit_issuer_object_counterexample:
  "json_Parse example_env vc_text_issuer_object
     = Inr (JObj [(''@context'', JArr [JStr ''https://www.w3.org/2018/credentials/v1'']),
                  (''type'', JStr ''VerifiableCredential''),
                  (''issuer'', JObj [(''id'', JStr ''did:example:123'')]),
                  (''issuanceDate'', JStr ''2010-01-01T19:23:24Z''),
                  (''credentialSubject'', JObj [(''id'', JStr ''did:example:abc'')])])
   \<and> reemit example_env vc_text_issuer_object [] empty_world
     = Inr (JObj [(''@context'', JStr ''https://www.w3.org/2018/credentials/v1''),
                  (''type'', JStr ''VerifiableCredential''),
                  (''credentialSubject'', JObj [(''id'', JStr ''did:example:abc'')]),
                  (''issuanceDate'', JStr ''2010-01-01T19:23:24Z''),
                  (''issuer'', JStr ''did:example:123''),
                  (''credentialSchema'', JArr [])])
   \<and> JStr ''did:example:123'' \<noteq> collapse_single (JObj [(''id'', JStr ''did:example:123'')])"
  by code_simp




end
